theory Spec2Isabelle
  imports Complex_Main
begin

section \<open>Errors and the numpy primitives the steppers use\<close>

text \<open>
  The steppers of \<^verbatim>\<open>wave_pack/wave_class.py\<close> work on numpy arrays of floating-point
  numbers.  The embedding takes a floating-point number as the \<^typ>\<open>real\<close> it denotes, a
  one-dimensional array as a list and a two-dimensional array as the list of its rows
  (axis 0 is the outer list).  Every way in which the Python code can stop is a value
  of \<open>error\<close>: the \<^verbatim>\<open>sys.exit()\<close> of the stability check, an empty array
  indexed by \<^verbatim>\<open>grid[0]\<close>, operands that numpy cannot broadcast, and a zero step.
\<close>

datatype error = UnstableConfiguration | IndexError | ValueError | ZeroDivisionError

definition bind_err :: "error + 'a \<Rightarrow> ('a \<Rightarrow> error + 'b) \<Rightarrow> error + 'b" where
  "bind_err m k = (case m of Inl e \<Rightarrow> Inl e | Inr v \<Rightarrow> k v)"

fun sequence_err :: "(error + 'a) list \<Rightarrow> error + 'a list" where
  "sequence_err [] = Inr []"
| "sequence_err (m # ms) =
     (case m of Inl e \<Rightarrow> Inl e
      | Inr v \<Rightarrow> (case sequence_err ms of Inl e \<Rightarrow> Inl e | Inr vs \<Rightarrow> Inr (v # vs)))"

text \<open>
  Double-precision arithmetic rounds.  Where rounding only perturbs the value of a sample
  or of the clock, the embedding computes over the reals.  Where the rounded value
  decides a branch or the length of an array, the operation of the machine is a
  parameter: \<open>fp_add fp a b\<close> is the double that the machine returns for \<^verbatim>\<open>a + b\<close>,
  likewise \<open>fp_sub\<close>, \<open>fp_mul\<close> and \<open>fp_div\<close>, and \<open>fp_sqr fp a\<close> is the double
  returned for \<^verbatim>\<open>a ** 2\<close>.  These are the sum \<^verbatim>\<open>L + dx\<close> and the quotient from which
  \<^verbatim>\<open>np.arange\<close> takes its number of samples, and the coefficient
  \<^verbatim>\<open>(c * dt / dx) ** 2\<close> that the stability check compares with its bound.
  \<open>exact_arith\<close> is the arithmetic that never rounds; the machine agrees with it
  wherever the exact result is itself a double.
\<close>

record fparith =
  fp_add :: "real \<Rightarrow> real \<Rightarrow> real"
  fp_sub :: "real \<Rightarrow> real \<Rightarrow> real"
  fp_mul :: "real \<Rightarrow> real \<Rightarrow> real"
  fp_div :: "real \<Rightarrow> real \<Rightarrow> real"
  fp_sqr :: "real \<Rightarrow> real"

definition exact_arith :: fparith where
  "exact_arith =
     \<lparr>fp_add = (\<lambda>a b. a + b), fp_sub = (\<lambda>a b. a - b), fp_mul = (\<lambda>a b. a * b),
      fp_div = (\<lambda>a b. a / b), fp_sqr = (\<lambda>a. a\<^sup>2)\<rparr>"

text \<open>
  The standard model of rounded arithmetic: an operation returns its exact result with a
  relative error of at most \<open>u\<close>.  Double precision meets it with \<open>u = 2\<^sup>-\<^sup>5\<^sup>3\<close> for
  the four basic operations whenever the result neither overflows nor underflows;
  \<open>exact_arith\<close> meets it with \<open>u = 0\<close>.  \<open>grid_accurate u fp L dx\<close> says so of the three
  operations that give the quotient \<open>(L + dx - 0) / dx\<close> of the grid,
  \<open>coeff_accurate u fp c dt dx\<close> of the three that give the coefficient
  \<open>(c dt / dx)\<^sup>2\<close>.
\<close>

definition rel_err :: "real \<Rightarrow> real \<Rightarrow> real \<Rightarrow> bool" where
  "rel_err u v w \<longleftrightarrow> \<bar>v - w\<bar> \<le> u * \<bar>w\<bar>"

definition grid_accurate :: "real \<Rightarrow> fparith \<Rightarrow> real \<Rightarrow> real \<Rightarrow> bool" where
  "grid_accurate u fp L dx \<longleftrightarrow>
     0 \<le> u
     \<and> rel_err u (fp_add fp L dx) (L + dx)
     \<and> rel_err u (fp_sub fp (fp_add fp L dx) 0) (fp_add fp L dx - 0)
     \<and> rel_err u (fp_div fp (fp_sub fp (fp_add fp L dx) 0) dx)
           (fp_sub fp (fp_add fp L dx) 0 / dx)"

definition coeff_accurate :: "real \<Rightarrow> fparith \<Rightarrow> real \<Rightarrow> real \<Rightarrow> real \<Rightarrow> bool" where
  "coeff_accurate u fp c dt dx \<longleftrightarrow>
     0 \<le> u
     \<and> rel_err u (fp_mul fp c dt) (c * dt)
     \<and> rel_err u (fp_div fp (fp_mul fp c dt) dx) (fp_mul fp c dt / dx)
     \<and> rel_err u (fp_sqr fp (fp_div fp (fp_mul fp c dt) dx))
           ((fp_div fp (fp_mul fp c dt) dx)\<^sup>2)"

text \<open>
  \<^verbatim>\<open>np.arange(start, stop, step)\<close>: \<open>ceil((stop - start) / step)\<close> samples
  \<open>start + i * step\<close>, the quotient being the one the machine computes; no sample when
  that number is not positive.
\<close>

definition np_arange :: "fparith \<Rightarrow> real \<Rightarrow> real \<Rightarrow> real \<Rightarrow> error + real list" where
  "np_arange fp start stop step =
     (if step = 0 then Inl ZeroDivisionError
      else Inr (map (\<lambda>i. start + real i * step)
                  [0..<nat \<lceil>fp_div fp (fp_sub fp stop start) step\<rceil>]))"

text \<open>
  \<^verbatim>\<open>np.roll(a, shift)\<close> along one axis: the element at index \<open>i\<close> moves to index
  \<open>(i + shift) mod n\<close>.
\<close>

definition np_roll :: "'a list \<Rightarrow> int \<Rightarrow> 'a list" where
  "np_roll a shift = (if a = [] then [] else rotate (nat ((- shift) mod int (length a))) a)"

text \<open>
  An elementwise binary operation along one axis, with numpy's broadcasting rule: the
  two lengths agree, or one of them is 1 and that operand is repeated; anything else
  raises.  The operation on the elements may itself fail (it is the operation on the
  rows when the operands are two-dimensional).
\<close>

definition np_broadcast ::
  "('a \<Rightarrow> 'b \<Rightarrow> error + 'c) \<Rightarrow> 'a list \<Rightarrow> 'b list \<Rightarrow> error + 'c list" where
  "np_broadcast f a b =
     (if length a = length b then sequence_err (map2 f a b)
      else if length a = 1 then sequence_err (map (f (hd a)) b)
      else if length b = 1 then sequence_err (map (\<lambda>v. f v (hd b)) a)
      else Inl ValueError)"

definition np_add :: "real list \<Rightarrow> real list \<Rightarrow> error + real list" where
  "np_add = np_broadcast (\<lambda>u v. Inr (u + v))"

definition np_scale :: "real \<Rightarrow> real list \<Rightarrow> real list" where
  "np_scale k a = map (\<lambda>v. k * v) a"

definition np_neg :: "real list \<Rightarrow> real list" where
  "np_neg a = map (\<lambda>v. - v) a"

definition np_zeros :: "nat \<Rightarrow> real list" where
  "np_zeros n = replicate n 0"

section \<open>Wave1D\<close>

record wave1d =
  w1_x :: "real list"
  w1_alpha2 :: real
  w1_time :: real
  w1_dt :: real
  w1_u_tim1 :: "real list"
  w1_u_ti :: "real list"
  w1_u_tip1 :: "real list"

text \<open>
  \<^verbatim>\<open>bound_standing\<close>: \<^verbatim>\<open>grid[0] = 0; grid[-1] = 0\<close>.  Both assignments raise
  IndexError on an empty array.
\<close>

definition bound_standing :: "real list \<Rightarrow> error + real list" where
  "bound_standing grid =
     (if grid = [] then Inl IndexError
      else Inr ((grid[0 := 0])[length grid - 1 := 0]))"

definition time_update :: "wave1d \<Rightarrow> wave1d" where
  "time_update s = s\<lparr>w1_time := w1_time s + w1_dt s\<rparr>"

text \<open>
  The neighbour sum \<^verbatim>\<open>np.roll(u, 1) + np.roll(u, -1)\<close> of both formulas.
\<close>

definition roll_sum :: "real list \<Rightarrow> error + real list" where
  "roll_sum u = np_add (np_roll u 1) (np_roll u (- 1))"

text \<open>
  \<^verbatim>\<open>Wave1D.__init__(u_x0, ut_x0, dt, L, dx, c)\<close>.  The grid is built first, then the
  stability check runs, and only then the two initial-condition functions are called.
  The arrays the two functions return are taken as fresh arrays: the boundary reset
  writes into the array that \<open>u_x0\<close> returned, which is then not the grid itself.
\<close>

definition Wave1D_init ::
  "fparith \<Rightarrow> (real list \<Rightarrow> real \<Rightarrow> real list) \<Rightarrow> (real list \<Rightarrow> real list) \<Rightarrow>
   real \<Rightarrow> real \<Rightarrow> real \<Rightarrow> real \<Rightarrow> error + wave1d" where
  "Wave1D_init fp u_x0 ut_x0 dt L dx c =
     bind_err (np_arange fp 0 (fp_add fp L dx) dx) (\<lambda>x.
       let alpha2 = fp_sqr fp (fp_div fp (fp_mul fp c dt) dx) in
       if alpha2 > 1 then Inl UnstableConfiguration
       else
         bind_err (bound_standing (u_x0 x L)) (\<lambda>u_tim1.
         bind_err (roll_sum u_tim1) (\<lambda>nb.
         bind_err (np_add (np_scale dt (ut_x0 x)) (np_scale (1 - alpha2) u_tim1)) (\<lambda>t12.
         bind_err (np_add t12 (np_scale (0.5 * alpha2) nb)) (\<lambda>u.
         bind_err (bound_standing u) (\<lambda>u_ti.
           Inr (time_update
             \<lparr>w1_x = x, w1_alpha2 = alpha2, w1_time = 0, w1_dt = dt,
              w1_u_tim1 = u_tim1, w1_u_ti = u_ti,
              w1_u_tip1 = np_zeros (length u_ti)\<rparr>)))))))"

text \<open>\<^verbatim>\<open>ux_init\<close> reads the oldest level and the grid; it changes nothing.\<close>

definition ux_init :: "wave1d \<Rightarrow> real list \<times> real list" where
  "ux_init s = (w1_u_tim1 s, w1_x s)"

text \<open>One pass of the body of the \<^verbatim>\<open>for\<close> loop of \<^verbatim>\<open>Wave1D.iteration\<close>.\<close>

definition substep :: "wave1d \<Rightarrow> error + wave1d" where
  "substep s =
     bind_err (roll_sum (w1_u_ti s)) (\<lambda>nb.
     bind_err (np_add (np_neg (w1_u_tim1 s)) (np_scale (2 * (1 - w1_alpha2 s)) (w1_u_ti s)))
       (\<lambda>t12.
     bind_err (np_add t12 (np_scale (w1_alpha2 s) nb)) (\<lambda>u.
     bind_err (bound_standing u) (\<lambda>u_tip1.
       Inr ((time_update (s\<lparr>w1_u_tip1 := u_tip1\<rparr>))
              \<lparr>w1_u_tim1 := w1_u_ti s, w1_u_ti := u_tip1\<rparr>)))))"

text \<open>\<^verbatim>\<open>for _ in range(steps)\<close>: the body runs \<open>n\<close> times, stopping at an error.\<close>

fun substeps :: "nat \<Rightarrow> wave1d \<Rightarrow> error + wave1d" where
  "substeps 0 s = Inr s"
| "substeps (Suc n) s = bind_err (substep s) (substeps n)"

text \<open>
  One pull from the generator \<^verbatim>\<open>iteration(steps)\<close>: \<^verbatim>\<open>range(steps)\<close> passes of
  the loop body (none when \<open>steps\<close> is not positive), then the pair
  \<^verbatim>\<open>(self.u_ti, self.time)\<close> is yielded.
\<close>

definition iteration_next :: "int \<Rightarrow> wave1d \<Rightarrow> error + ((real list \<times> real) \<times> wave1d)" where
  "iteration_next steps s =
     bind_err (substeps (nat steps) s) (\<lambda>s'. Inr ((w1_u_ti s', w1_time s'), s'))"

text \<open>The first \<open>n\<close> pairs of the sequence, and the state after them.\<close>

fun iteration_take ::
  "int \<Rightarrow> nat \<Rightarrow> wave1d \<Rightarrow> error + ((real list \<times> real) list \<times> wave1d)" where
  "iteration_take steps 0 s = Inr ([], s)"
| "iteration_take steps (Suc n) s =
     bind_err (iteration_next steps s) (\<lambda>(y, s').
     bind_err (iteration_take steps n s') (\<lambda>(ys, s''). Inr (y # ys, s'')))"

section \<open>Wave2D\<close>

record wave2d =
  w2_x :: "real list"
  w2_y :: "real list"
  w2_alpha2 :: real
  w2_time :: real
  w2_dt :: real
  w2_u_tim1 :: "real list list"
  w2_u_ti :: "real list list"
  w2_u_tip1 :: "real list list"

definition np_add2 :: "real list list \<Rightarrow> real list list \<Rightarrow> error + real list list" where
  "np_add2 = np_broadcast np_add"

definition np_scale2 :: "real \<Rightarrow> real list list \<Rightarrow> real list list" where
  "np_scale2 k a = map (np_scale k) a"

definition np_neg2 :: "real list list \<Rightarrow> real list list" where
  "np_neg2 a = map np_neg a"

text \<open>\<^verbatim>\<open>np.zeros(a.shape)\<close> for a two-dimensional \<open>a\<close>.\<close>

definition np_zeros_like2 :: "real list list \<Rightarrow> real list list" where
  "np_zeros_like2 a = replicate (length a) (np_zeros (length (hd a)))"

text \<open>\<^verbatim>\<open>np.roll(a, shift, axis=0)\<close> moves rows, \<^verbatim>\<open>axis=1\<close> moves within each row.\<close>

definition np_roll_axis0 :: "real list list \<Rightarrow> int \<Rightarrow> real list list" where
  "np_roll_axis0 a shift = np_roll a shift"

definition np_roll_axis1 :: "real list list \<Rightarrow> int \<Rightarrow> real list list" where
  "np_roll_axis1 a shift = map (\<lambda>row. np_roll row shift) a"

text \<open>
  \<^verbatim>\<open>Wave2D.bound_standing\<close>: \<^verbatim>\<open>grid[0, :] = 0; grid[:, 0] = 0; grid[-1, :] = 0;
  grid[:, -1] = 0\<close>.  The first assignment raises IndexError on an array without rows,
  the second on one without columns.
\<close>

definition bound_standing2 :: "real list list \<Rightarrow> error + real list list" where
  "bound_standing2 grid =
     (if grid = [] then Inl IndexError
      else
        let g1 = grid[0 := map (\<lambda>_. 0) (grid ! 0)] in
        if hd g1 = [] then Inl IndexError
        else
          let g2 = map (\<lambda>row. row[0 := 0]) g1;
              g3 = g2[length g2 - 1 := map (\<lambda>_. 0) (g2 ! (length g2 - 1))]
          in Inr (map (\<lambda>row. row[length row - 1 := 0]) g3))"

definition time_update2 :: "wave2d \<Rightarrow> wave2d" where
  "time_update2 s = s\<lparr>w2_time := w2_time s + w2_dt s\<rparr>"

text \<open>
  The neighbour sum of both two-dimensional formulas, added from left to right:
  axis 0 by \<open>1\<close> and \<open>-1\<close>, then axis 1 by \<open>1\<close> and \<open>-1\<close>.
\<close>

definition roll_sum2 :: "real list list \<Rightarrow> error + real list list" where
  "roll_sum2 u =
     bind_err (np_add2 (np_roll_axis0 u 1) (np_roll_axis0 u (- 1))) (\<lambda>a01.
     bind_err (np_add2 a01 (np_roll_axis1 u 1)) (\<lambda>a012.
       np_add2 a012 (np_roll_axis1 u (- 1))))"

text \<open>\<^verbatim>\<open>Wave2D.__init__(u_xy0, ut_xy0, Lx, Ly, dt, dxy, c)\<close>.\<close>

definition Wave2D_init ::
  "fparith \<Rightarrow> (real list \<Rightarrow> real list \<Rightarrow> real \<Rightarrow> real \<Rightarrow> real list list) \<Rightarrow>
   (real list \<Rightarrow> real list \<Rightarrow> real list list) \<Rightarrow>
   real \<Rightarrow> real \<Rightarrow> real \<Rightarrow> real \<Rightarrow> real \<Rightarrow> error + wave2d" where
  "Wave2D_init fp u_xy0 ut_xy0 Lx Ly dt dxy c =
     bind_err (np_arange fp 0 (fp_add fp Lx dxy) dxy) (\<lambda>x.
     bind_err (np_arange fp 0 (fp_add fp Ly dxy) dxy) (\<lambda>y.
       let alpha2 = fp_sqr fp (fp_div fp (fp_mul fp c dt) dxy) in
       if alpha2 > 0.5 then Inl UnstableConfiguration
       else
         bind_err (bound_standing2 (u_xy0 x y Lx Ly)) (\<lambda>u_tim1.
         bind_err (roll_sum2 u_tim1) (\<lambda>nb.
         bind_err (np_add2 (np_scale2 dt (ut_xy0 x y)) (np_scale2 (1 - 2 * alpha2) u_tim1))
           (\<lambda>t12.
         bind_err (np_add2 t12 (np_scale2 (0.5 * alpha2) nb)) (\<lambda>u.
         bind_err (bound_standing2 u) (\<lambda>u_ti.
           Inr (time_update2
             \<lparr>w2_x = x, w2_y = y, w2_alpha2 = alpha2, w2_time = 0, w2_dt = dt,
              w2_u_tim1 = u_tim1, w2_u_ti = u_ti,
              w2_u_tip1 = np_zeros_like2 u_ti\<rparr>))))))))"

definition uxy_init :: "wave2d \<Rightarrow> real list list \<times> real list \<times> real list" where
  "uxy_init s = (w2_u_tim1 s, w2_x s, w2_y s)"

text \<open>One pass of the body of the \<^verbatim>\<open>for\<close> loop of \<^verbatim>\<open>Wave2D.iteration\<close>.\<close>

definition substep2 :: "wave2d \<Rightarrow> error + wave2d" where
  "substep2 s =
     bind_err (roll_sum2 (w2_u_ti s)) (\<lambda>nb.
     bind_err (np_add2 (np_neg2 (w2_u_tim1 s))
                 (np_scale2 (2 * (1 - 2 * w2_alpha2 s)) (w2_u_ti s))) (\<lambda>t12.
     bind_err (np_add2 t12 (np_scale2 (w2_alpha2 s) nb)) (\<lambda>u.
     bind_err (bound_standing2 u) (\<lambda>u_tip1.
       Inr ((time_update2 (s\<lparr>w2_u_tip1 := u_tip1\<rparr>))
              \<lparr>w2_u_tim1 := w2_u_ti s, w2_u_ti := u_tip1\<rparr>)))))"

fun substeps2 :: "nat \<Rightarrow> wave2d \<Rightarrow> error + wave2d" where
  "substeps2 0 s = Inr s"
| "substeps2 (Suc n) s = bind_err (substep2 s) (substeps2 n)"

definition iteration_next2 ::
  "int \<Rightarrow> wave2d \<Rightarrow> error + ((real list list \<times> real) \<times> wave2d)" where
  "iteration_next2 steps s =
     bind_err (substeps2 (nat steps) s) (\<lambda>s'. Inr ((w2_u_ti s', w2_time s'), s'))"

fun iteration_take2 ::
  "int \<Rightarrow> nat \<Rightarrow> wave2d \<Rightarrow> error + ((real list list \<times> real) list \<times> wave2d)" where
  "iteration_take2 steps 0 s = Inr ([], s)"
| "iteration_take2 steps (Suc n) s =
     bind_err (iteration_next2 steps s) (\<lambda>(y, s').
     bind_err (iteration_take2 steps n s') (\<lambda>(ys, s''). Inr (y # ys, s'')))"

section \<open>Initial-condition functions of the package\<close>

text \<open>
  From \<^verbatim>\<open>wave_pack/initial_func.py\<close>: the triangular and the square pulse, the
  polynomial sheet \<open>4 x\<^sup>2 y (1 - x) (1 - y)\<close> on the mesh of \<open>x\<close> (rows) and \<open>y\<close>
  (columns), and the zero initial velocities, which are the default arguments of the
  two constructors.
\<close>

definition pulse_trian1d :: "real list \<Rightarrow> real \<Rightarrow> real list" where
  "pulse_trian1d x L =
     map (\<lambda>i. if i \<ge> L / 2 - L / 10 \<and> i \<le> L / 2 then i - (L / 2 - L / 10)
              else if i \<ge> L / 2 \<and> i \<le> L / 2 + L / 10 then - i + (L / 2 + L / 10)
              else 0) x"

definition pulse_square1d :: "real list \<Rightarrow> real \<Rightarrow> real list" where
  "pulse_square1d x L =
     map (\<lambda>i. if i \<ge> L / 2 - L / 10 \<and> i \<le> L / 2 + L / 10 then 1 else 0) x"

definition init_vel1d :: "real list \<Rightarrow> real list" where
  "init_vel1d x = np_zeros (length x)"

definition wave_polynomial2d :: "real list \<Rightarrow> real list \<Rightarrow> real \<Rightarrow> real \<Rightarrow> real list list" where
  "wave_polynomial2d x y Lx Ly =
     map (\<lambda>xi. map (\<lambda>yj. 4 * xi\<^sup>2 * yj * (1 - xi) * (1 - yj)) y) x"

definition init_vel2d :: "real list \<Rightarrow> real list \<Rightarrow> real list list" where
  "init_vel2d x y = replicate (length x) (np_zeros (length y))"

section \<open>Shape invariants\<close>

text \<open>
  The two live levels of a stepper are non-empty and have the same shape.  Construction
  establishes this when the initial-condition functions return arrays of the shape of
  the grid, and every sub-step keeps it.
\<close>

definition shaped1d :: "wave1d \<Rightarrow> bool" where
  "shaped1d s \<longleftrightarrow> w1_u_ti s \<noteq> [] \<and> length (w1_u_tim1 s) = length (w1_u_ti s)"

text \<open>
  A two-dimensional array of shape \<open>(r, c)\<close> is a list of \<open>r\<close> rows of length \<open>c\<close>;
  \<open>tabulate2 r c h\<close> is the array of that shape whose sample at \<open>(i, j)\<close> is \<open>h i j\<close>.
\<close>

definition tabulate2 :: "nat \<Rightarrow> nat \<Rightarrow> (nat \<Rightarrow> nat \<Rightarrow> real) \<Rightarrow> real list list" where
  "tabulate2 r c h = map (\<lambda>i. map (\<lambda>j. h i j) [0..<c]) [0..<r]"

definition has_shape2 :: "real list list \<Rightarrow> nat \<Rightarrow> nat \<Rightarrow> bool" where
  "has_shape2 a r c \<longleftrightarrow> length a = r \<and> (\<forall>row\<in>set a. length row = c)"

definition shaped2d :: "wave2d \<Rightarrow> nat \<Rightarrow> nat \<Rightarrow> bool" where
  "shaped2d s r m \<longleftrightarrow>
     0 < r \<and> 0 < m \<and> has_shape2 (w2_u_tim1 s) r m \<and> has_shape2 (w2_u_ti s) r m"

section \<open>The boundary condition\<close>

text \<open>
  The boundary condition: the first and the last sample of an array are 0; for a
  two-dimensional array the first and the last row are 0 everywhere and every row has
  its first and its last sample 0.
\<close>

definition zero_boundary :: "real list \<Rightarrow> bool" where
  "zero_boundary u \<longleftrightarrow> u \<noteq> [] \<and> hd u = 0 \<and> last u = 0"

definition zero_boundary2 :: "real list list \<Rightarrow> bool" where
  "zero_boundary2 a \<longleftrightarrow>
     a \<noteq> [] \<and> (\<forall>v\<in>set (hd a). v = 0) \<and> (\<forall>v\<in>set (last a). v = 0)
     \<and> (\<forall>row\<in>set a. zero_boundary row)"

section \<open>Neighbour lookup with a fixed value outside the domain\<close>

text \<open>
  The steppers with the neighbour lookup replaced.  \<open>np_roll_padded z a shift\<close> moves the
  samples like \<open>np_roll\<close>, but a sample that would come from outside the array is the
  fixed value \<open>z\<close> instead of the one from the other end.  \<open>Wave1D_init_nb fp\<close>,
  \<open>substep_nb\<close>, \<open>Wave2D_init_nb fp\<close> and \<open>substep2_nb\<close> are the constructors and the loop
  bodies with the neighbour sum as a parameter: with \<open>roll_sum\<close> and \<open>roll_sum2\<close> they are
  the code, with \<open>roll_sum_padded\<close> and \<open>roll_sum2_padded\<close> they are the steppers whose
  out-of-domain neighbours are fixed to zero.
\<close>

definition np_roll_padded :: "'a \<Rightarrow> 'a list \<Rightarrow> int \<Rightarrow> 'a list" where
  "np_roll_padded z a shift =
     map (\<lambda>i. if shift \<le> int i \<and> int i - shift < int (length a)
              then a ! nat (int i - shift) else z) [0..<length a]"

definition roll_sum_padded :: "real list \<Rightarrow> error + real list" where
  "roll_sum_padded u = np_add (np_roll_padded 0 u 1) (np_roll_padded 0 u (- 1))"

definition roll_sum2_padded :: "real list list \<Rightarrow> error + real list list" where
  "roll_sum2_padded u =
     bind_err (np_add2 (np_roll_padded (np_zeros (length (hd u))) u 1)
                 (np_roll_padded (np_zeros (length (hd u))) u (- 1))) (\<lambda>a01.
     bind_err (np_add2 a01 (map (\<lambda>row. np_roll_padded 0 row 1) u)) (\<lambda>a012.
       np_add2 a012 (map (\<lambda>row. np_roll_padded 0 row (- 1)) u)))"

definition Wave1D_init_nb ::
  "fparith \<Rightarrow> (real list \<Rightarrow> error + real list) \<Rightarrow>
   (real list \<Rightarrow> real \<Rightarrow> real list) \<Rightarrow> (real list \<Rightarrow> real list) \<Rightarrow>
   real \<Rightarrow> real \<Rightarrow> real \<Rightarrow> real \<Rightarrow> error + wave1d" where
  "Wave1D_init_nb fp nbsum u_x0 ut_x0 dt L dx c =
     bind_err (np_arange fp 0 (fp_add fp L dx) dx) (\<lambda>x.
       let alpha2 = fp_sqr fp (fp_div fp (fp_mul fp c dt) dx) in
       if alpha2 > 1 then Inl UnstableConfiguration
       else
         bind_err (bound_standing (u_x0 x L)) (\<lambda>u_tim1.
         bind_err (nbsum u_tim1) (\<lambda>nb.
         bind_err (np_add (np_scale dt (ut_x0 x)) (np_scale (1 - alpha2) u_tim1)) (\<lambda>t12.
         bind_err (np_add t12 (np_scale (0.5 * alpha2) nb)) (\<lambda>u.
         bind_err (bound_standing u) (\<lambda>u_ti.
           Inr (time_update
             \<lparr>w1_x = x, w1_alpha2 = alpha2, w1_time = 0, w1_dt = dt,
              w1_u_tim1 = u_tim1, w1_u_ti = u_ti,
              w1_u_tip1 = np_zeros (length u_ti)\<rparr>)))))))"

definition substep_nb :: "(real list \<Rightarrow> error + real list) \<Rightarrow> wave1d \<Rightarrow> error + wave1d" where
  "substep_nb nbsum s =
     bind_err (nbsum (w1_u_ti s)) (\<lambda>nb.
     bind_err (np_add (np_neg (w1_u_tim1 s)) (np_scale (2 * (1 - w1_alpha2 s)) (w1_u_ti s)))
       (\<lambda>t12.
     bind_err (np_add t12 (np_scale (w1_alpha2 s) nb)) (\<lambda>u.
     bind_err (bound_standing u) (\<lambda>u_tip1.
       Inr ((time_update (s\<lparr>w1_u_tip1 := u_tip1\<rparr>))
              \<lparr>w1_u_tim1 := w1_u_ti s, w1_u_ti := u_tip1\<rparr>)))))"

definition Wave2D_init_nb ::
  "fparith \<Rightarrow> (real list list \<Rightarrow> error + real list list) \<Rightarrow>
   (real list \<Rightarrow> real list \<Rightarrow> real \<Rightarrow> real \<Rightarrow> real list list) \<Rightarrow>
   (real list \<Rightarrow> real list \<Rightarrow> real list list) \<Rightarrow>
   real \<Rightarrow> real \<Rightarrow> real \<Rightarrow> real \<Rightarrow> real \<Rightarrow> error + wave2d" where
  "Wave2D_init_nb fp nbsum u_xy0 ut_xy0 Lx Ly dt dxy c =
     bind_err (np_arange fp 0 (fp_add fp Lx dxy) dxy) (\<lambda>x.
     bind_err (np_arange fp 0 (fp_add fp Ly dxy) dxy) (\<lambda>y.
       let alpha2 = fp_sqr fp (fp_div fp (fp_mul fp c dt) dxy) in
       if alpha2 > 0.5 then Inl UnstableConfiguration
       else
         bind_err (bound_standing2 (u_xy0 x y Lx Ly)) (\<lambda>u_tim1.
         bind_err (nbsum u_tim1) (\<lambda>nb.
         bind_err (np_add2 (np_scale2 dt (ut_xy0 x y)) (np_scale2 (1 - 2 * alpha2) u_tim1))
           (\<lambda>t12.
         bind_err (np_add2 t12 (np_scale2 (0.5 * alpha2) nb)) (\<lambda>u.
         bind_err (bound_standing2 u) (\<lambda>u_ti.
           Inr (time_update2
             \<lparr>w2_x = x, w2_y = y, w2_alpha2 = alpha2, w2_time = 0, w2_dt = dt,
              w2_u_tim1 = u_tim1, w2_u_ti = u_ti,
              w2_u_tip1 = np_zeros_like2 u_ti\<rparr>))))))))"

definition substep2_nb ::
  "(real list list \<Rightarrow> error + real list list) \<Rightarrow> wave2d \<Rightarrow> error + wave2d" where
  "substep2_nb nbsum s =
     bind_err (nbsum (w2_u_ti s)) (\<lambda>nb.
     bind_err (np_add2 (np_neg2 (w2_u_tim1 s))
                 (np_scale2 (2 * (1 - 2 * w2_alpha2 s)) (w2_u_ti s))) (\<lambda>t12.
     bind_err (np_add2 t12 (np_scale2 (w2_alpha2 s) nb)) (\<lambda>u.
     bind_err (bound_standing2 u) (\<lambda>u_tip1.
       Inr ((time_update2 (s\<lparr>w2_u_tip1 := u_tip1\<rparr>))
              \<lparr>w2_u_tim1 := w2_u_ti s, w2_u_ti := u_tip1\<rparr>)))))"

section \<open>Reflection about the midpoint\<close>

text \<open>
  Reflection about the midpoint of the domain: \<open>mirrored \<sigma> u\<close> says that the sample at
  the mirror image of index \<open>i\<close> is \<open>\<sigma>\<close> times the sample at \<open>i\<close>.  With \<open>\<sigma> = 1\<close> the
  array is symmetric, with \<open>\<sigma> = - 1\<close> antisymmetric.
\<close>

definition mirrored :: "real \<Rightarrow> real list \<Rightarrow> bool" where
  "mirrored \<sigma> u \<longleftrightarrow> (\<forall>i<length u. u ! (length u - 1 - i) = \<sigma> * u ! i)"

section \<open>Auxiliary facts: errors, rolls and elementwise sums\<close>

lemma bind_err_Inr [simp]: "bind_err (Inr v) k = k v"
  by (simp add: bind_err_def)

lemma bind_err_Inl [simp]: "bind_err (Inl e) k = Inl e"
  by (simp add: bind_err_def)

lemma bind_err_eq_Inr:
  "bind_err m k = Inr r \<longleftrightarrow> (\<exists>v. m = Inr v \<and> k v = Inr r)"
  by (cases m) simp_all

lemma sequence_err_pure: "sequence_err (map (\<lambda>v. Inr (f v)) xs) = Inr (map f xs)"
  by (induction xs) simp_all

lemma sequence_err_Inr:
  "sequence_err ms = Inr vs \<longleftrightarrow> ms = map Inr vs"
proof (induction ms arbitrary: vs)
  case Nil
  show ?case by auto
next
  case (Cons m ms)
  show ?case
  proof (cases m)
    case (Inl e)
    then show ?thesis by (cases vs) auto
  next
    case (Inr v)
    show ?thesis
    proof (cases "sequence_err ms")
      case (Inl e)
      with Cons.IH [of "tl vs"] Inr show ?thesis by (cases vs) auto
    next
      case r: (Inr ws)
      with Cons.IH [of ws] Cons.IH [of "tl vs"] Inr show ?thesis by (cases vs) auto
    qed
  qed
qed

lemma np_add_same:
  "length a = length b \<Longrightarrow> np_add a b = Inr (map2 (+) a b)"
proof -
  assume "length a = length b"
  have "map2 (\<lambda>u v. Inr (u + v) :: error + real) a b = map (\<lambda>p. Inr (fst p + snd p)) (zip a b)"
    by (simp add: case_prod_unfold)
  also have "sequence_err \<dots> = Inr (map (\<lambda>p. fst p + snd p) (zip a b))"
    by (rule sequence_err_pure)
  finally show ?thesis
    using \<open>length a = length b\<close> by (simp add: np_add_def np_broadcast_def case_prod_unfold)
qed

lemma length_np_roll [simp]: "length (np_roll a k) = length a"
  by (simp add: np_roll_def)

lemma nth_np_roll_fwd:
  "i < length a \<Longrightarrow> np_roll a 1 ! i = a ! ((i + length a - 1) mod length a)"
proof -
  assume i: "i < length a"
  then have ne: "a \<noteq> []" by auto
  have "0 < int (length a)"
    using ne by simp
  then have "(- 1) mod int (length a) = int (length a) - 1"
    by (rule zmod_minus1)
  then have "nat ((- 1) mod int (length a)) = length a - 1"
    by simp
  then show ?thesis
    using i ne by (simp add: np_roll_def nth_rotate add.commute)
qed

lemma nth_np_roll_bwd:
  "i < length a \<Longrightarrow> np_roll a (- 1) ! i = a ! ((i + 1) mod length a)"
proof -
  assume i: "i < length a"
  show ?thesis
  proof (cases "length a = 1")
    case True
    then show ?thesis using i by (simp add: np_roll_def nth_rotate)
  next
    case False
    with i have "1 < length a" by simp
    then have "nat (1 mod int (length a)) = 1" by simp
    then show ?thesis
      using i by (auto simp add: np_roll_def nth_rotate1)
  qed
qed

lemma map2_as_nth:
  "length a = length b \<Longrightarrow> map2 f a b = map (\<lambda>i. f (a ! i) (b ! i)) [0..<length a]"
  by (rule nth_equalityI) simp_all

lemma roll_sum_closed:
  "roll_sum u =
     Inr (map (\<lambda>i. u ! ((i + length u - 1) mod length u) + u ! ((i + 1) mod length u))
            [0..<length u])"
proof -
  have "map2 (+) (np_roll u 1) (np_roll u (- 1)) =
        map (\<lambda>i. u ! ((i + length u - 1) mod length u) + u ! ((i + 1) mod length u))
          [0..<length u]"
    by (rule nth_equalityI) (simp_all add: nth_np_roll_fwd nth_np_roll_bwd)
  then show ?thesis
    by (simp add: roll_sum_def np_add_same)
qed

lemma bound_standing_closed:
  "u \<noteq> [] \<Longrightarrow> bound_standing u = Inr ((u[0 := 0])[length u - 1 := 0])"
  by (simp add: bound_standing_def)

lemma bound_standing_Inr:
  "bound_standing u = Inr v \<longleftrightarrow> u \<noteq> [] \<and> v = (u[0 := 0])[length u - 1 := 0]"
  by (auto simp add: bound_standing_def)

lemma substep_closed:
  assumes len: "length (w1_u_tim1 s) = length (w1_u_ti s)" and ne: "w1_u_ti s \<noteq> []"
  defines "n \<equiv> length (w1_u_ti s)"
  defines "u \<equiv> map (\<lambda>i. - (w1_u_tim1 s ! i) + 2 * (1 - w1_alpha2 s) * (w1_u_ti s ! i)
                    + w1_alpha2 s * (w1_u_ti s ! ((i + n - 1) mod n) + w1_u_ti s ! ((i + 1) mod n)))
                  [0..<n]"
  shows "substep s =
           Inr (s\<lparr>w1_time := w1_time s + w1_dt s, w1_u_tim1 := w1_u_ti s,
                  w1_u_ti := (u[0 := 0])[n - 1 := 0], w1_u_tip1 := (u[0 := 0])[n - 1 := 0]\<rparr>)"
proof -
  have t12: "np_add (np_neg (w1_u_tim1 s)) (np_scale (2 * (1 - w1_alpha2 s)) (w1_u_ti s)) =
      Inr (map (\<lambda>i. - (w1_u_tim1 s ! i) + 2 * (1 - w1_alpha2 s) * (w1_u_ti s ! i)) [0..<n])"
    (is "_ = Inr ?t12")
    using len by (simp add: np_add_same np_neg_def np_scale_def map2_as_nth n_def)
  have nb: "roll_sum (w1_u_ti s) =
      Inr (map (\<lambda>i. w1_u_ti s ! ((i + n - 1) mod n) + w1_u_ti s ! ((i + 1) mod n)) [0..<n])"
    (is "_ = Inr ?nb")
    by (simp add: roll_sum_closed n_def)
  have u: "np_add ?t12 (np_scale (w1_alpha2 s) ?nb) = Inr u"
    by (simp add: np_add_same np_scale_def map2_as_nth u_def)
  have "u \<noteq> []"
    using ne by (simp add: u_def n_def)
  then have b: "bound_standing u = Inr ((u[0 := 0])[n - 1 := 0])"
    by (simp add: bound_standing_closed u_def)
  show ?thesis
    unfolding substep_def nb t12 bind_err_Inr u b
    by (simp add: time_update_def)
qed

lemma exact_arith_simps [simp]:
  "fp_add exact_arith a b = a + b" "fp_sub exact_arith a b = a - b"
  "fp_mul exact_arith a b = a * b" "fp_div exact_arith a b = a / b"
  "fp_sqr exact_arith a = a\<^sup>2"
  by (simp_all add: exact_arith_def)

lemma grid_accurate_exact: "grid_accurate 0 exact_arith L dx"
  by (simp add: grid_accurate_def rel_err_def)

lemma coeff_accurate_exact: "coeff_accurate 0 exact_arith c dt dx"
  by (simp add: coeff_accurate_def rel_err_def)

lemma grid_accurateD:
  assumes "grid_accurate u fp L dx"
  shows "0 \<le> u"
    and "\<bar>fp_add fp L dx - (L + dx)\<bar> \<le> u * \<bar>L + dx\<bar>"
    and "\<bar>fp_sub fp (fp_add fp L dx) 0 - fp_add fp L dx\<bar> \<le> u * \<bar>fp_add fp L dx\<bar>"
    and "\<bar>fp_div fp (fp_sub fp (fp_add fp L dx) 0) dx - fp_sub fp (fp_add fp L dx) 0 / dx\<bar>
           \<le> u * \<bar>fp_sub fp (fp_add fp L dx) 0 / dx\<bar>"
  using assms by (simp_all add: grid_accurate_def rel_err_def)

lemma coeff_accurateD:
  assumes "coeff_accurate u fp c dt dx"
  shows "0 \<le> u"
    and "\<bar>fp_mul fp c dt - c * dt\<bar> \<le> u * \<bar>c * dt\<bar>"
    and "\<bar>fp_div fp (fp_mul fp c dt) dx - fp_mul fp c dt / dx\<bar> \<le> u * \<bar>fp_mul fp c dt / dx\<bar>"
    and "\<bar>fp_sqr fp (fp_div fp (fp_mul fp c dt) dx) - (fp_div fp (fp_mul fp c dt) dx)\<^sup>2\<bar>
           \<le> u * (fp_div fp (fp_mul fp c dt) dx)\<^sup>2"
  using assms by (simp_all add: coeff_accurate_def rel_err_def)

lemma rel_err_bounds:
  fixes v w u :: real
  assumes "\<bar>v - w\<bar> \<le> u * \<bar>w\<bar>" and "0 \<le> w"
  shows "(1 - u) * w \<le> v" and "v \<le> (1 + u) * w"
  using assms by (simp_all add: abs_le_iff algebra_simps)

lemma rel_err_pos:
  fixes v w u :: real
  assumes "\<bar>v - w\<bar> \<le> u * \<bar>w\<bar>" and "0 < w" and "u < 1"
  shows "0 < v"
proof -
  have "0 < (1 - u) * w"
    using assms(2,3) by simp
  also have "\<dots> \<le> v"
    using assms(1,2) by (simp add: rel_err_bounds)
  finally show ?thesis .
qed

lemma np_arange_Inr:
  "np_arange fp start stop step = Inr x \<longleftrightarrow>
     step \<noteq> 0 \<and> x = map (\<lambda>i. start + real i * step)
                       [0..<nat \<lceil>fp_div fp (fp_sub fp stop start) step\<rceil>]"
  by (auto simp add: np_arange_def)

text \<open>
  With positive \<open>L\<close> and \<open>dx\<close> and an arithmetic of relative error below 1 the computed
  quotient is positive, so the grid has a sample.
\<close>

lemma grid_quotient_pos:
  assumes acc: "grid_accurate u fp L dx" and u: "u < 1" and L: "0 < L" and dx: "0 < dx"
  shows "0 < fp_div fp (fp_sub fp (fp_add fp L dx) 0) dx"
proof -
  have s: "0 < fp_add fp L dx"
    by (rule rel_err_pos [OF grid_accurateD(2) [OF acc] _ u]) (use L dx in simp)
  have d: "0 < fp_sub fp (fp_add fp L dx) 0"
    by (rule rel_err_pos [OF grid_accurateD(3) [OF acc] _ u]) (use s in simp)
  show ?thesis
    by (rule rel_err_pos [OF grid_accurateD(4) [OF acc] _ u]) (use d dx in simp)
qed

lemma grid_nonempty:
  assumes acc: "grid_accurate u fp L dx" and u: "u < 1" and L: "0 < L" and dx: "0 < dx"
    and grid: "np_arange fp 0 (fp_add fp L dx) dx = Inr x"
  shows "x \<noteq> []"
proof -
  have "0 < \<lceil>fp_div fp (fp_sub fp (fp_add fp L dx) 0) dx\<rceil>"
    using grid_quotient_pos [OF acc u L dx] by (simp add: ceiling_less_iff)
  with grid show ?thesis
    unfolding np_arange_Inr by auto
qed

lemma grid_exists:
  assumes acc: "grid_accurate u fp L dx" and u: "u < 1" and L: "0 < L" and dx: "0 < dx"
  shows "\<exists>x. np_arange fp 0 (fp_add fp L dx) dx = Inr x \<and> x \<noteq> []"
proof -
  from dx obtain x where x: "np_arange fp 0 (fp_add fp L dx) dx = Inr x"
    by (auto simp add: np_arange_def)
  with grid_nonempty [OF acc u L dx x] show ?thesis
    by blast
qed

lemma Wave1D_init_closed:
  assumes grid: "np_arange fp 0 (fp_add fp L dx) dx = Inr x"
    and stable: "\<not> fp_sqr fp (fp_div fp (fp_mul fp c dt) dx) > 1"
    and lf: "length (f x L) = length x"
    and lg: "length (g x) = length x"
    and ne: "x \<noteq> []"
  defines "n \<equiv> length x"
  defines "a \<equiv> fp_sqr fp (fp_div fp (fp_mul fp c dt) dx)"
  defines "prev \<equiv> ((f x L)[0 := 0])[n - 1 := 0]"
  defines "u \<equiv> map (\<lambda>i. dt * (g x ! i) + (1 - a) * (prev ! i)
                    + 0.5 * a * (prev ! ((i + n - 1) mod n) + prev ! ((i + 1) mod n)))
                  [0..<n]"
  shows "Wave1D_init fp f g dt L dx c =
           Inr \<lparr>w1_x = x, w1_alpha2 = a, w1_time = dt, w1_dt = dt,
                w1_u_tim1 = prev, w1_u_ti = (u[0 := 0])[n - 1 := 0],
                w1_u_tip1 = replicate n 0\<rparr>"
proof -
  have lp: "length prev = n"
    by (simp add: prev_def lf n_def)
  have b0: "bound_standing (f x L) = Inr prev"
    using ne lf by (auto simp add: bound_standing_def prev_def n_def)
  have nb: "roll_sum prev =
      Inr (map (\<lambda>i. prev ! ((i + n - 1) mod n) + prev ! ((i + 1) mod n)) [0..<n])"
    (is "_ = Inr ?nb")
    by (simp add: roll_sum_closed lp)
  have t12: "np_add (np_scale dt (g x)) (np_scale (1 - a) prev) =
      Inr (map (\<lambda>i. dt * (g x ! i) + (1 - a) * (prev ! i)) [0..<n])"
    (is "_ = Inr ?t12")
    using lg lp by (simp add: np_add_same np_scale_def map2_as_nth n_def)
  have u: "np_add ?t12 (np_scale (0.5 * a) ?nb) = Inr u"
    unfolding u_def by (simp add: np_add_same np_scale_def map2_as_nth)
  have "u \<noteq> []"
    using ne by (simp add: u_def n_def)
  then have b: "bound_standing u = Inr ((u[0 := 0])[n - 1 := 0])"
    by (simp add: bound_standing_closed u_def)
  have lu: "length ((u[0 := 0])[n - 1 := 0]) = n"
    by (simp add: u_def)
  from stable have st: "\<not> 1 < a"
    by (simp add: a_def)
  show ?thesis
    unfolding Wave1D_init_def grid bind_err_Inr Let_def a_def [symmetric]
    unfolding b0 bind_err_Inr nb t12 u b lu
    using st by (simp add: time_update_def np_zeros_def)
qed

lemma Wave1D_init_unstable:
  "dx \<noteq> 0 \<Longrightarrow> fp_sqr fp (fp_div fp (fp_mul fp c dt) dx) > 1 \<Longrightarrow>
   Wave1D_init fp u_x0 ut_x0 dt L dx c = Inl UnstableConfiguration"
  by (simp add: Wave1D_init_def np_arange_def)

lemma Wave1D_init_InrD:
  assumes "Wave1D_init fp u_x0 ut_x0 dt L dx c = Inr s"
  shows "np_arange fp 0 (fp_add fp L dx) dx = Inr (w1_x s)" and "\<not> fp_sqr fp (fp_div fp (fp_mul fp c dt) dx) > 1"
    and "u_x0 (w1_x s) L \<noteq> []"
proof -
  from assms obtain x where x: "np_arange fp 0 (fp_add fp L dx) dx = Inr x"
    and rest: "(let alpha2 = fp_sqr fp (fp_div fp (fp_mul fp c dt) dx) in
       if alpha2 > 1 then Inl UnstableConfiguration
       else
         bind_err (bound_standing (u_x0 x L)) (\<lambda>u_tim1.
         bind_err (roll_sum u_tim1) (\<lambda>nb.
         bind_err (np_add (np_scale dt (ut_x0 x)) (np_scale (1 - alpha2) u_tim1)) (\<lambda>t12.
         bind_err (np_add t12 (np_scale (0.5 * alpha2) nb)) (\<lambda>u.
         bind_err (bound_standing u) (\<lambda>u_ti.
           Inr (time_update
             \<lparr>w1_x = x, w1_alpha2 = alpha2, w1_time = 0, w1_dt = dt,
              w1_u_tim1 = u_tim1, w1_u_ti = u_ti,
              w1_u_tip1 = np_zeros (length u_ti)\<rparr>))))))) = Inr s"
    unfolding Wave1D_init_def bind_err_eq_Inr by blast
  from rest show st: "\<not> fp_sqr fp (fp_div fp (fp_mul fp c dt) dx) > 1"
    by (auto simp add: Let_def split: if_splits)
  from rest st have "w1_x s = x \<and> u_x0 x L \<noteq> []"
    by (auto simp add: Let_def bind_err_eq_Inr time_update_def bound_standing_Inr)
  with x show "np_arange fp 0 (fp_add fp L dx) dx = Inr (w1_x s)" and "u_x0 (w1_x s) L \<noteq> []"
    by simp_all
qed

lemma Wave1D_init_fields:
  assumes init: "Wave1D_init fp u_x0 ut_x0 dt L dx c = Inr s"
    and lf: "length (u_x0 (w1_x s) L) = length (w1_x s)"
    and lg: "length (ut_x0 (w1_x s)) = length (w1_x s)"
  defines "n \<equiv> length (w1_x s)"
  defines "a \<equiv> fp_sqr fp (fp_div fp (fp_mul fp c dt) dx)"
  defines "prev \<equiv> ((u_x0 (w1_x s) L)[0 := 0])[n - 1 := 0]"
  defines "u \<equiv> map (\<lambda>i. dt * (ut_x0 (w1_x s) ! i) + (1 - a) * (prev ! i)
                    + 0.5 * a * (prev ! ((i + n - 1) mod n) + prev ! ((i + 1) mod n)))
                  [0..<n]"
  shows "w1_x s \<noteq> []" and "w1_alpha2 s = a" and "w1_time s = dt" and "w1_dt s = dt"
    and "w1_u_tim1 s = prev" and "w1_u_ti s = (u[0 := 0])[n - 1 := 0]"
    and "w1_u_tip1 s = replicate n 0"
proof -
  note d = Wave1D_init_InrD [OF init]
  from d(3) lf show ne: "w1_x s \<noteq> []" by auto
  define r where "r = \<lparr>w1_x = w1_x s, w1_alpha2 = a, w1_time = dt, w1_dt = dt,
                w1_u_tim1 = prev, w1_u_ti = (u[0 := 0])[n - 1 := 0],
                w1_u_tip1 = replicate n 0\<rparr>"
  have "Wave1D_init fp u_x0 ut_x0 dt L dx c = Inr r"
    unfolding r_def u_def prev_def a_def n_def
    using d(1) d(2) lf lg ne by (rule Wave1D_init_closed)
  with init have sr: "r = s" by simp
  have "w1_alpha2 r = a" and "w1_time r = dt" and "w1_dt r = dt"
    and "w1_u_tim1 r = prev" and "w1_u_ti r = (u[0 := 0])[n - 1 := 0]"
    and "w1_u_tip1 r = replicate n 0"
    by (simp_all add: r_def)
  then show "w1_alpha2 s = a" and "w1_time s = dt" and "w1_dt s = dt"
    and "w1_u_tim1 s = prev" and "w1_u_ti s = (u[0 := 0])[n - 1 := 0]"
    and "w1_u_tip1 s = replicate n 0"
    unfolding sr .
qed

lemma Wave1D_init_shaped:
  assumes init: "Wave1D_init fp u_x0 ut_x0 dt L dx c = Inr s"
    and lf: "length (u_x0 (w1_x s) L) = length (w1_x s)"
    and lg: "length (ut_x0 (w1_x s)) = length (w1_x s)"
  shows "shaped1d s" and "length (w1_u_ti s) = length (w1_x s)"
  using Wave1D_init_fields [OF assms] lf
  by (simp_all add: shaped1d_def)

lemma substep_shaped:
  assumes "shaped1d s"
  shows "\<exists>s'. substep s = Inr s' \<and> shaped1d s' \<and> length (w1_u_ti s') = length (w1_u_ti s)
           \<and> w1_time s' = w1_time s + w1_dt s \<and> w1_dt s' = w1_dt s
           \<and> w1_alpha2 s' = w1_alpha2 s \<and> w1_x s' = w1_x s"
  using assms substep_closed [of s] by (auto simp add: shaped1d_def)

lemma substeps_shaped:
  assumes "shaped1d s"
  shows "\<exists>s'. substeps k s = Inr s' \<and> shaped1d s' \<and> length (w1_u_ti s') = length (w1_u_ti s)
           \<and> w1_time s' = w1_time s + real k * w1_dt s \<and> w1_dt s' = w1_dt s
           \<and> w1_alpha2 s' = w1_alpha2 s \<and> w1_x s' = w1_x s"
  using assms
proof (induction k arbitrary: s)
  case 0
  then show ?case by simp
next
  case (Suc k)
  from substep_shaped [OF Suc.prems] obtain s1 where s1: "substep s = Inr s1" "shaped1d s1"
    "length (w1_u_ti s1) = length (w1_u_ti s)" "w1_time s1 = w1_time s + w1_dt s"
    "w1_dt s1 = w1_dt s" "w1_alpha2 s1 = w1_alpha2 s" "w1_x s1 = w1_x s"
    by blast
  from Suc.IH [OF s1(2)] obtain s' where s': "substeps k s1 = Inr s'" "shaped1d s'"
    "length (w1_u_ti s') = length (w1_u_ti s1)" "w1_time s' = w1_time s1 + real k * w1_dt s1"
    "w1_dt s' = w1_dt s1" "w1_alpha2 s' = w1_alpha2 s1" "w1_x s' = w1_x s1"
    by blast
  have "w1_time s' = w1_time s + real (Suc k) * w1_dt s"
    using s1 s' by (simp add: algebra_simps)
  with s1 s' show ?case by simp
qed

lemma substeps_add:
  "substeps (m + n) s = bind_err (substeps m s) (substeps n)"
proof (induction m arbitrary: s)
  case 0
  show ?case by simp
next
  case (Suc m)
  show ?case
    by (cases "substep s") (simp_all add: Suc.IH)
qed

lemma substeps_snoc:
  assumes "substeps k s = Inr s'"
  shows "substeps (Suc k) s = substep s'"
proof -
  have "substeps (k + 1) s = bind_err (substeps k s) (substeps 1)"
    by (rule substeps_add)
  then show ?thesis
    using assms by (cases "substep s'") simp_all
qed

lemma iteration_take_shaped:
  assumes "shaped1d s"
  shows "\<exists>ys s'. iteration_take steps n s = Inr (ys, s') \<and> length ys = n
           \<and> substeps (n * nat steps) s = Inr s'
           \<and> (\<forall>k<n. \<exists>sk. substeps ((k + 1) * nat steps) s = Inr sk
                  \<and> ys ! k = (w1_u_ti sk, w1_time sk))"
  using assms
proof (induction n arbitrary: s)
  case 0
  show ?case by simp
next
  case (Suc n)
  from substeps_shaped [OF Suc.prems, of "nat steps"] obtain s1 where
    s1: "substeps (nat steps) s = Inr s1" "shaped1d s1"
    by blast
  from Suc.IH [OF s1(2)] obtain ys s' where
    t: "iteration_take steps n s1 = Inr (ys, s')" "length ys = n"
       "substeps (n * nat steps) s1 = Inr s'"
       "\<forall>k<n. \<exists>sk. substeps ((k + 1) * nat steps) s1 = Inr sk
                  \<and> ys ! k = (w1_u_ti sk, w1_time sk)"
    by blast
  have shift: "substeps ((k + 1) * nat steps) s1 = substeps ((Suc k + 1) * nat steps) s" for k
    using substeps_add [of "nat steps" "(k + 1) * nat steps" s] s1(1) by simp
  have take: "iteration_take steps (Suc n) s = Inr ((w1_u_ti s1, w1_time s1) # ys, s')"
    by (simp add: iteration_next_def s1(1) t(1))
  have final: "substeps (Suc n * nat steps) s = Inr s'"
    using substeps_add [of "nat steps" "n * nat steps" s] s1(1) t(3) by simp
  have each: "\<exists>sk. substeps ((k + 1) * nat steps) s = Inr sk
                  \<and> ((w1_u_ti s1, w1_time s1) # ys) ! k = (w1_u_ti sk, w1_time sk)"
    if "k < Suc n" for k
  proof (cases k)
    case 0
    then show ?thesis using s1(1) by simp
  next
    case (Suc j)
    with that have "j < n" by simp
    with t(4) obtain sk where sk: "substeps ((j + 1) * nat steps) s1 = Inr sk"
      "ys ! j = (w1_u_ti sk, w1_time sk)" by blast
    from sk(1) have "substeps ((k + 1) * nat steps) s = Inr sk"
      unfolding shift [of j] Suc .
    with sk(2) Suc show ?thesis
      by simp
  qed
  from take final each t(2) show ?case
    by simp
qed

section \<open>Auxiliary facts: the two-dimensional stepper\<close>

lemma length_tabulate2 [simp]: "length (tabulate2 r c h) = r"
  by (simp add: tabulate2_def)

lemma nth_tabulate2_row: "i < r \<Longrightarrow> tabulate2 r c h ! i = map (h i) [0..<c]"
  by (simp add: tabulate2_def)

lemma nth_tabulate2 [simp]: "i < r \<Longrightarrow> j < c \<Longrightarrow> tabulate2 r c h ! i ! j = h i j"
  by (simp add: tabulate2_def)

lemma has_shape2_tabulate2 [simp]: "has_shape2 (tabulate2 r c h) r c"
  by (auto simp add: has_shape2_def tabulate2_def)

lemma has_shape2_as_tabulate2:
  assumes "has_shape2 a r c"
  shows "a = tabulate2 r c (\<lambda>i j. a ! i ! j)"
proof (rule nth_equalityI)
  show "length a = length (tabulate2 r c (\<lambda>i j. a ! i ! j))"
    using assms by (simp add: has_shape2_def)
next
  fix i assume i: "i < length a"
  with assms have "i < r" and "length (a ! i) = c"
    by (auto simp add: has_shape2_def)
  then show "a ! i = tabulate2 r c (\<lambda>i j. a ! i ! j) ! i"
    by (auto simp add: nth_tabulate2_row intro: nth_equalityI)
qed

lemma tabulate2_cong:
  "(\<And>i j. i < r \<Longrightarrow> j < c \<Longrightarrow> h i j = k i j) \<Longrightarrow> tabulate2 r c h = tabulate2 r c k"
  by (simp add: tabulate2_def)

lemma np_add_tab:
  "np_add (map f [0..<n]) (map g [0..<n]) = Inr (map (\<lambda>i. f i + g i) [0..<n])"
  by (simp add: np_add_same map2_as_nth)

lemma np_add2_tabulate2:
  "np_add2 (tabulate2 r c h) (tabulate2 r c k) = Inr (tabulate2 r c (\<lambda>i j. h i j + k i j))"
proof -
  have "map2 np_add (tabulate2 r c h) (tabulate2 r c k) =
        map (\<lambda>i. Inr (map (\<lambda>j. h i j + k i j) [0..<c])) [0..<r]"
    by (rule nth_equalityI) (simp_all add: nth_tabulate2_row np_add_tab)
  also have "sequence_err \<dots> = Inr (map (\<lambda>i. map (\<lambda>j. h i j + k i j) [0..<c]) [0..<r])"
    by (rule sequence_err_pure)
  finally show ?thesis
    by (simp add: np_add2_def np_broadcast_def tabulate2_def)
qed

lemma np_scale2_tabulate2:
  "np_scale2 q (tabulate2 r c h) = tabulate2 r c (\<lambda>i j. q * h i j)"
  by (simp add: np_scale2_def np_scale_def tabulate2_def)

lemma np_neg2_tabulate2:
  "np_neg2 (tabulate2 r c h) = tabulate2 r c (\<lambda>i j. - h i j)"
  by (simp add: np_neg2_def np_neg_def tabulate2_def)

lemma np_roll_map_fwd:
  "np_roll (map f [0..<n]) 1 = map (\<lambda>i. f ((i + n - 1) mod n)) [0..<n]"
  by (rule nth_equalityI) (simp_all add: nth_np_roll_fwd)

lemma np_roll_map_bwd:
  "np_roll (map f [0..<n]) (- 1) = map (\<lambda>i. f ((i + 1) mod n)) [0..<n]"
  by (rule nth_equalityI) (simp_all add: nth_np_roll_bwd)

lemma np_roll_axis0_fwd:
  "np_roll_axis0 (tabulate2 r c h) 1 = tabulate2 r c (\<lambda>i j. h ((i + r - 1) mod r) j)"
  by (simp add: np_roll_axis0_def tabulate2_def np_roll_map_fwd)

lemma np_roll_axis0_bwd:
  "np_roll_axis0 (tabulate2 r c h) (- 1) = tabulate2 r c (\<lambda>i j. h ((i + 1) mod r) j)"
  by (simp add: np_roll_axis0_def tabulate2_def np_roll_map_bwd)

lemma np_roll_axis1_fwd:
  "np_roll_axis1 (tabulate2 r c h) 1 = tabulate2 r c (\<lambda>i j. h i ((j + c - 1) mod c))"
  by (simp add: np_roll_axis1_def tabulate2_def np_roll_map_fwd)

lemma np_roll_axis1_bwd:
  "np_roll_axis1 (tabulate2 r c h) (- 1) = tabulate2 r c (\<lambda>i j. h i ((j + 1) mod c))"
  by (simp add: np_roll_axis1_def tabulate2_def np_roll_map_bwd)

lemma roll_sum2_tabulate2:
  "roll_sum2 (tabulate2 r c h) =
     Inr (tabulate2 r c (\<lambda>i j. h ((i + r - 1) mod r) j + h ((i + 1) mod r) j
                               + h i ((j + c - 1) mod c) + h i ((j + 1) mod c)))"
  by (simp add: roll_sum2_def np_roll_axis0_fwd np_roll_axis0_bwd np_roll_axis1_fwd
      np_roll_axis1_bwd np_add2_tabulate2)

lemma bound_standing2_tabulate2:
  assumes "0 < r" and "0 < c"
  shows "bound_standing2 (tabulate2 r c h) =
           Inr (tabulate2 r c (\<lambda>i j. if i = 0 \<or> i = r - 1 \<or> j = 0 \<or> j = c - 1 then 0
                                       else h i j))"
proof -
  let ?g = "tabulate2 r c h"
  let ?g1 = "?g[0 := map (\<lambda>_. 0) (?g ! 0)]"
  let ?g2 = "map (\<lambda>row. row[0 := 0]) ?g1"
  let ?g3 = "?g2[length ?g2 - 1 := map (\<lambda>_. 0) (?g2 ! (length ?g2 - 1))]"
  let ?g4 = "map (\<lambda>row. row[length row - 1 := (0::real)]) ?g3"
  have ne: "?g \<noteq> []"
    using assms(1) by (simp add: tabulate2_def)
  have "hd ?g1 = ?g1 ! 0"
    using ne by (intro hd_conv_nth) simp
  then have hd: "hd ?g1 \<noteq> []"
    using assms by (simp add: nth_tabulate2_row)
  have "?g4 = tabulate2 r c (\<lambda>i j. if i = 0 \<or> i = r - 1 \<or> j = 0 \<or> j = c - 1 then 0
                                       else h i j)"
  proof (rule nth_equalityI)
    show "length ?g4 = length (tabulate2 r c (\<lambda>i j. if i = 0 \<or> i = r - 1 \<or> j = 0 \<or> j = c - 1 then 0
                                       else h i j))"
      by simp
  next
    fix i assume "i < length ?g4"
    then have i: "i < r" by simp
    show "?g4 ! i = tabulate2 r c (\<lambda>i j. if i = 0 \<or> i = r - 1 \<or> j = 0 \<or> j = c - 1 then 0
                                       else h i j) ! i"
      using i assms
      by (intro nth_equalityI) (auto simp add: nth_tabulate2_row nth_list_update)
  qed
  with ne hd show ?thesis
    by (simp add: bound_standing2_def Let_def)
qed

lemma substep2_closed:
  assumes P: "has_shape2 (w2_u_tim1 s) r c" and C: "has_shape2 (w2_u_ti s) r c"
    and r: "0 < r" and c: "0 < c"
  defines "a \<equiv> w2_alpha2 s"
  defines "u \<equiv> tabulate2 r c (\<lambda>i j.
      if i = 0 \<or> i = r - 1 \<or> j = 0 \<or> j = c - 1 then 0
      else - (w2_u_tim1 s ! i ! j) + 2 * (1 - 2 * a) * (w2_u_ti s ! i ! j)
           + a * (w2_u_ti s ! ((i + r - 1) mod r) ! j + w2_u_ti s ! ((i + 1) mod r) ! j
                  + w2_u_ti s ! i ! ((j + c - 1) mod c) + w2_u_ti s ! i ! ((j + 1) mod c)))"
  shows "substep2 s =
           Inr (s\<lparr>w2_time := w2_time s + w2_dt s, w2_u_tim1 := w2_u_ti s,
                  w2_u_ti := u, w2_u_tip1 := u\<rparr>)"
proof -
  define p where "p = (\<lambda>i j. w2_u_tim1 s ! i ! j)"
  define q where "q = (\<lambda>i j. w2_u_ti s ! i ! j)"
  have pe: "w2_u_tim1 s = tabulate2 r c p"
    unfolding p_def using P by (rule has_shape2_as_tabulate2)
  have qe: "w2_u_ti s = tabulate2 r c q"
    unfolding q_def using C by (rule has_shape2_as_tabulate2)
  have nb: "roll_sum2 (w2_u_ti s) =
      Inr (tabulate2 r c (\<lambda>i j. q ((i + r - 1) mod r) j + q ((i + 1) mod r) j
                               + q i ((j + c - 1) mod c) + q i ((j + 1) mod c)))"
    unfolding qe by (rule roll_sum2_tabulate2)
  have t12: "np_add2 (np_neg2 (w2_u_tim1 s)) (np_scale2 (2 * (1 - 2 * a)) (w2_u_ti s)) =
      Inr (tabulate2 r c (\<lambda>i j. - p i j + 2 * (1 - 2 * a) * q i j))"
    unfolding pe qe np_neg2_tabulate2 np_scale2_tabulate2 by (rule np_add2_tabulate2)
  have pre: "np_add2 (tabulate2 r c (\<lambda>i j. - p i j + 2 * (1 - 2 * a) * q i j))
       (np_scale2 a (tabulate2 r c (\<lambda>i j. q ((i + r - 1) mod r) j + q ((i + 1) mod r) j
                               + q i ((j + c - 1) mod c) + q i ((j + 1) mod c)))) =
      Inr (tabulate2 r c (\<lambda>i j. - p i j + 2 * (1 - 2 * a) * q i j
              + a * (q ((i + r - 1) mod r) j + q ((i + 1) mod r) j
                     + q i ((j + c - 1) mod c) + q i ((j + 1) mod c))))"
    unfolding np_scale2_tabulate2 by (rule np_add2_tabulate2)
  have b: "bound_standing2 (tabulate2 r c (\<lambda>i j. - p i j + 2 * (1 - 2 * a) * q i j
              + a * (q ((i + r - 1) mod r) j + q ((i + 1) mod r) j
                     + q i ((j + c - 1) mod c) + q i ((j + 1) mod c)))) = Inr u"
    unfolding u_def p_def q_def using r c by (rule bound_standing2_tabulate2)
  show ?thesis
    unfolding substep2_def a_def [symmetric] nb bind_err_Inr t12 pre b
    by (simp add: time_update2_def)
qed

lemma Wave2D_init_closed:
  assumes gx: "np_arange fp 0 (fp_add fp Lx dxy) dxy = Inr x"
    and gy: "np_arange fp 0 (fp_add fp Ly dxy) dxy = Inr y"
    and stable: "\<not> fp_sqr fp (fp_div fp (fp_mul fp c dt) dxy) > 0.5"
    and sf: "has_shape2 (f x y Lx Ly) (length x) (length y)"
    and sg: "has_shape2 (g x y) (length x) (length y)"
    and nx: "x \<noteq> []" and ny: "y \<noteq> []"
  defines "r \<equiv> length x"
  defines "m \<equiv> length y"
  defines "a \<equiv> fp_sqr fp (fp_div fp (fp_mul fp c dt) dxy)"
  defines "prev \<equiv> tabulate2 r m (\<lambda>i j.
      if i = 0 \<or> i = r - 1 \<or> j = 0 \<or> j = m - 1 then 0 else f x y Lx Ly ! i ! j)"
  defines "u \<equiv> tabulate2 r m (\<lambda>i j.
      if i = 0 \<or> i = r - 1 \<or> j = 0 \<or> j = m - 1 then 0
      else dt * (g x y ! i ! j) + (1 - 2 * a) * (prev ! i ! j)
           + 0.5 * a * (prev ! ((i + r - 1) mod r) ! j + prev ! ((i + 1) mod r) ! j
                        + prev ! i ! ((j + m - 1) mod m) + prev ! i ! ((j + 1) mod m)))"
  shows "Wave2D_init fp f g Lx Ly dt dxy c =
           Inr \<lparr>w2_x = x, w2_y = y, w2_alpha2 = a, w2_time = dt, w2_dt = dt,
                w2_u_tim1 = prev, w2_u_ti = u,
                w2_u_tip1 = replicate r (replicate m 0)\<rparr>"
proof -
  have r: "0 < r" and m: "0 < m"
    using nx ny by (simp_all add: r_def m_def)
  define p0 where "p0 = (\<lambda>i j. f x y Lx Ly ! i ! j)"
  define v where "v = (\<lambda>i j. g x y ! i ! j)"
  define p where "p = (\<lambda>i j. if i = 0 \<or> i = r - 1 \<or> j = 0 \<or> j = m - 1 then 0 else p0 i j)"
  have fe: "f x y Lx Ly = tabulate2 r m p0"
    unfolding p0_def r_def m_def using sf by (rule has_shape2_as_tabulate2)
  have ge: "g x y = tabulate2 r m v"
    unfolding v_def r_def m_def using sg by (rule has_shape2_as_tabulate2)
  have pe: "prev = tabulate2 r m p"
    unfolding prev_def p_def p0_def ..
  have b0: "bound_standing2 (f x y Lx Ly) = Inr prev"
    unfolding fe pe p_def using r m by (rule bound_standing2_tabulate2)
  have nb: "roll_sum2 prev =
      Inr (tabulate2 r m (\<lambda>i j. p ((i + r - 1) mod r) j + p ((i + 1) mod r) j
                               + p i ((j + m - 1) mod m) + p i ((j + 1) mod m)))"
    unfolding pe by (rule roll_sum2_tabulate2)
  have t12: "np_add2 (np_scale2 dt (g x y)) (np_scale2 (1 - 2 * a) prev) =
      Inr (tabulate2 r m (\<lambda>i j. dt * v i j + (1 - 2 * a) * p i j))"
    unfolding pe ge np_scale2_tabulate2 by (rule np_add2_tabulate2)
  have pre: "np_add2 (tabulate2 r m (\<lambda>i j. dt * v i j + (1 - 2 * a) * p i j))
       (np_scale2 (0.5 * a) (tabulate2 r m (\<lambda>i j. p ((i + r - 1) mod r) j + p ((i + 1) mod r) j
                               + p i ((j + m - 1) mod m) + p i ((j + 1) mod m)))) =
      Inr (tabulate2 r m (\<lambda>i j. dt * v i j + (1 - 2 * a) * p i j
              + 0.5 * a * (p ((i + r - 1) mod r) j + p ((i + 1) mod r) j
                     + p i ((j + m - 1) mod m) + p i ((j + 1) mod m))))"
    unfolding np_scale2_tabulate2 by (rule np_add2_tabulate2)
  have b1: "bound_standing2 (tabulate2 r m (\<lambda>i j. dt * v i j + (1 - 2 * a) * p i j
              + 0.5 * a * (p ((i + r - 1) mod r) j + p ((i + 1) mod r) j
                     + p i ((j + m - 1) mod m) + p i ((j + 1) mod m)))) =
      Inr (tabulate2 r m (\<lambda>i j. if i = 0 \<or> i = r - 1 \<or> j = 0 \<or> j = m - 1 then 0
              else dt * v i j + (1 - 2 * a) * p i j
              + 0.5 * a * (p ((i + r - 1) mod r) j + p ((i + 1) mod r) j
                     + p i ((j + m - 1) mod m) + p i ((j + 1) mod m))))"
    using r m by (rule bound_standing2_tabulate2)
  have ue: "tabulate2 r m (\<lambda>i j. if i = 0 \<or> i = r - 1 \<or> j = 0 \<or> j = m - 1 then 0
              else dt * v i j + (1 - 2 * a) * p i j
              + 0.5 * a * (p ((i + r - 1) mod r) j + p ((i + 1) mod r) j
                     + p i ((j + m - 1) mod m) + p i ((j + 1) mod m))) = u"
    unfolding u_def pe
    by (rule tabulate2_cong) (auto simp add: v_def r m)
  have z: "np_zeros_like2 u = replicate r (replicate m 0)"
    using r by (simp add: np_zeros_like2_def u_def hd_conv_nth tabulate2_def np_zeros_def
        hd_map upt_conv_Cons)
  from stable have st: "\<not> 0.5 < a"
    by (simp add: a_def)
  show ?thesis
    unfolding Wave2D_init_def gx gy bind_err_Inr Let_def a_def [symmetric]
    unfolding b0 bind_err_Inr nb t12 pre b1 ue z
    using st by (simp add: time_update2_def)
qed


lemma bound_standing2_InrD:
  assumes "bound_standing2 a = Inr b" and "has_shape2 a r m"
  shows "0 < r" and "0 < m"
proof -
  from assms(1) have ne: "a \<noteq> []" and hd: "hd (a[0 := map (\<lambda>_. 0) (a ! 0)]) \<noteq> []"
    by (auto simp add: bound_standing2_def Let_def split: if_splits)
  from ne assms(2) show "0 < r"
    by (auto simp add: has_shape2_def)
  from ne have "hd (a[0 := map (\<lambda>_. 0) (a ! 0)]) = map (\<lambda>_. 0) (a ! 0)"
    by (cases a) simp_all
  with hd have "a ! 0 \<noteq> []" by simp
  moreover from ne assms(2) have "length (a ! 0) = m"
    by (cases a) (auto simp add: has_shape2_def)
  ultimately show "0 < m" by auto
qed

lemma Wave2D_init_InrD:
  assumes "Wave2D_init fp u_xy0 ut_xy0 Lx Ly dt dxy c = Inr s"
  shows "np_arange fp 0 (fp_add fp Lx dxy) dxy = Inr (w2_x s)"
    and "np_arange fp 0 (fp_add fp Ly dxy) dxy = Inr (w2_y s)"
    and "\<not> fp_sqr fp (fp_div fp (fp_mul fp c dt) dxy) > 0.5"
    and "\<exists>b. bound_standing2 (u_xy0 (w2_x s) (w2_y s) Lx Ly) = Inr b"
proof -
  from assms obtain x y where x: "np_arange fp 0 (fp_add fp Lx dxy) dxy = Inr x"
    and y: "np_arange fp 0 (fp_add fp Ly dxy) dxy = Inr y"
    and rest: "(let alpha2 = fp_sqr fp (fp_div fp (fp_mul fp c dt) dxy) in
       if alpha2 > 0.5 then Inl UnstableConfiguration
       else
         bind_err (bound_standing2 (u_xy0 x y Lx Ly)) (\<lambda>u_tim1.
         bind_err (roll_sum2 u_tim1) (\<lambda>nb.
         bind_err (np_add2 (np_scale2 dt (ut_xy0 x y)) (np_scale2 (1 - 2 * alpha2) u_tim1))
           (\<lambda>t12.
         bind_err (np_add2 t12 (np_scale2 (0.5 * alpha2) nb)) (\<lambda>u.
         bind_err (bound_standing2 u) (\<lambda>u_ti.
           Inr (time_update2
             \<lparr>w2_x = x, w2_y = y, w2_alpha2 = alpha2, w2_time = 0, w2_dt = dt,
              w2_u_tim1 = u_tim1, w2_u_ti = u_ti,
              w2_u_tip1 = np_zeros_like2 u_ti\<rparr>))))))) = Inr s"
    unfolding Wave2D_init_def bind_err_eq_Inr by blast
  from rest show st: "\<not> fp_sqr fp (fp_div fp (fp_mul fp c dt) dxy) > 0.5"
    by (auto simp add: Let_def split: if_splits)
  from rest st have "w2_x s = x \<and> w2_y s = y \<and> (\<exists>b. bound_standing2 (u_xy0 x y Lx Ly) = Inr b)"
    by (auto simp add: Let_def bind_err_eq_Inr time_update2_def)
  with x y show "np_arange fp 0 (fp_add fp Lx dxy) dxy = Inr (w2_x s)"
    and "np_arange fp 0 (fp_add fp Ly dxy) dxy = Inr (w2_y s)"
    and "\<exists>b. bound_standing2 (u_xy0 (w2_x s) (w2_y s) Lx Ly) = Inr b"
    by simp_all
qed

lemma Wave2D_init_fields:
  assumes init: "Wave2D_init fp u_xy0 ut_xy0 Lx Ly dt dxy c = Inr s"
    and sf: "has_shape2 (u_xy0 (w2_x s) (w2_y s) Lx Ly) (length (w2_x s)) (length (w2_y s))"
    and sg: "has_shape2 (ut_xy0 (w2_x s) (w2_y s)) (length (w2_x s)) (length (w2_y s))"
  defines "r \<equiv> length (w2_x s)"
  defines "m \<equiv> length (w2_y s)"
  defines "a \<equiv> fp_sqr fp (fp_div fp (fp_mul fp c dt) dxy)"
  defines "prev \<equiv> tabulate2 r m (\<lambda>i j.
      if i = 0 \<or> i = r - 1 \<or> j = 0 \<or> j = m - 1 then 0
      else u_xy0 (w2_x s) (w2_y s) Lx Ly ! i ! j)"
  defines "u \<equiv> tabulate2 r m (\<lambda>i j.
      if i = 0 \<or> i = r - 1 \<or> j = 0 \<or> j = m - 1 then 0
      else dt * (ut_xy0 (w2_x s) (w2_y s) ! i ! j) + (1 - 2 * a) * (prev ! i ! j)
           + 0.5 * a * (prev ! ((i + r - 1) mod r) ! j + prev ! ((i + 1) mod r) ! j
                        + prev ! i ! ((j + m - 1) mod m) + prev ! i ! ((j + 1) mod m)))"
  shows "0 < r" and "0 < m" and "w2_alpha2 s = a" and "w2_time s = dt" and "w2_dt s = dt"
    and "w2_u_tim1 s = prev" and "w2_u_ti s = u"
    and "w2_u_tip1 s = replicate r (replicate m 0)"
proof -
  note d = Wave2D_init_InrD [OF init]
  from d(4) obtain b where "bound_standing2 (u_xy0 (w2_x s) (w2_y s) Lx Ly) = Inr b" ..
  from bound_standing2_InrD [OF this sf] show r: "0 < r" and m: "0 < m"
    by (simp_all add: r_def m_def)
  then have nx: "w2_x s \<noteq> []" and ny: "w2_y s \<noteq> []"
    by (auto simp add: r_def m_def)
  define t where "t = \<lparr>w2_x = w2_x s, w2_y = w2_y s, w2_alpha2 = a, w2_time = dt, w2_dt = dt,
                w2_u_tim1 = prev, w2_u_ti = u,
                w2_u_tip1 = replicate r (replicate m 0)\<rparr>"
  have "Wave2D_init fp u_xy0 ut_xy0 Lx Ly dt dxy c = Inr t"
    unfolding t_def u_def prev_def a_def r_def m_def
    using d(1) d(2) d(3) sf sg nx ny by (rule Wave2D_init_closed)
  with init have ts: "t = s" by simp
  have "w2_alpha2 t = a" and "w2_time t = dt" and "w2_dt t = dt"
    and "w2_u_tim1 t = prev" and "w2_u_ti t = u"
    and "w2_u_tip1 t = replicate r (replicate m 0)"
    by (simp_all add: t_def)
  then show "w2_alpha2 s = a" and "w2_time s = dt" and "w2_dt s = dt"
    and "w2_u_tim1 s = prev" and "w2_u_ti s = u"
    and "w2_u_tip1 s = replicate r (replicate m 0)"
    unfolding ts .
qed

lemma Wave2D_init_shaped:
  assumes init: "Wave2D_init fp u_xy0 ut_xy0 Lx Ly dt dxy c = Inr s"
    and sf: "has_shape2 (u_xy0 (w2_x s) (w2_y s) Lx Ly) (length (w2_x s)) (length (w2_y s))"
    and sg: "has_shape2 (ut_xy0 (w2_x s) (w2_y s)) (length (w2_x s)) (length (w2_y s))"
  shows "shaped2d s (length (w2_x s)) (length (w2_y s))"
  using Wave2D_init_fields [OF assms]
  by (simp add: shaped2d_def)

lemma substep2_shaped:
  assumes "shaped2d s r m"
  shows "\<exists>s'. substep2 s = Inr s' \<and> shaped2d s' r m
           \<and> w2_time s' = w2_time s + w2_dt s \<and> w2_dt s' = w2_dt s
           \<and> w2_alpha2 s' = w2_alpha2 s \<and> w2_x s' = w2_x s \<and> w2_y s' = w2_y s"
proof -
  from assms have P: "has_shape2 (w2_u_tim1 s) r m" and C: "has_shape2 (w2_u_ti s) r m"
    and r: "0 < r" and m: "0 < m"
    by (simp_all add: shaped2d_def)
  show ?thesis
    using C r m by (simp add: substep2_closed [OF P C r m] shaped2d_def)
qed

lemma substeps2_shaped:
  assumes "shaped2d s r m"
  shows "\<exists>s'. substeps2 k s = Inr s' \<and> shaped2d s' r m
           \<and> w2_time s' = w2_time s + real k * w2_dt s \<and> w2_dt s' = w2_dt s
           \<and> w2_alpha2 s' = w2_alpha2 s \<and> w2_x s' = w2_x s \<and> w2_y s' = w2_y s"
  using assms
proof (induction k arbitrary: s)
  case 0
  then show ?case by simp
next
  case (Suc k)
  from substep2_shaped [OF Suc.prems] obtain s1 where s1: "substep2 s = Inr s1"
    "shaped2d s1 r m" "w2_time s1 = w2_time s + w2_dt s"
    "w2_dt s1 = w2_dt s" "w2_alpha2 s1 = w2_alpha2 s" "w2_x s1 = w2_x s" "w2_y s1 = w2_y s"
    by blast
  from Suc.IH [OF s1(2)] obtain s' where s': "substeps2 k s1 = Inr s'" "shaped2d s' r m"
    "w2_time s' = w2_time s1 + real k * w2_dt s1"
    "w2_dt s' = w2_dt s1" "w2_alpha2 s' = w2_alpha2 s1" "w2_x s' = w2_x s1" "w2_y s' = w2_y s1"
    by blast
  have "w2_time s' = w2_time s + real (Suc k) * w2_dt s"
    using s1 s' by (simp add: algebra_simps)
  with s1 s' show ?case by simp
qed

lemma substeps2_add:
  "substeps2 (k + n) s = bind_err (substeps2 k s) (substeps2 n)"
proof (induction k arbitrary: s)
  case 0
  show ?case by simp
next
  case (Suc k)
  show ?case
    by (cases "substep2 s") (simp_all add: Suc.IH)
qed

lemma substeps2_snoc:
  assumes "substeps2 k s = Inr s'"
  shows "substeps2 (Suc k) s = substep2 s'"
proof -
  have "substeps2 (k + 1) s = bind_err (substeps2 k s) (substeps2 1)"
    by (rule substeps2_add)
  then show ?thesis
    using assms by (cases "substep2 s'") simp_all
qed

lemma iteration_take2_shaped:
  assumes "shaped2d s r m"
  shows "\<exists>ys s'. iteration_take2 steps n s = Inr (ys, s') \<and> length ys = n
           \<and> substeps2 (n * nat steps) s = Inr s'
           \<and> (\<forall>k<n. \<exists>sk. substeps2 ((k + 1) * nat steps) s = Inr sk
                  \<and> ys ! k = (w2_u_ti sk, w2_time sk))"
  using assms
proof (induction n arbitrary: s)
  case 0
  show ?case by simp
next
  case (Suc n)
  from substeps2_shaped [OF Suc.prems, of "nat steps"] obtain s1 where
    s1: "substeps2 (nat steps) s = Inr s1" "shaped2d s1 r m"
    by blast
  from Suc.IH [OF s1(2)] obtain ys s' where
    t: "iteration_take2 steps n s1 = Inr (ys, s')" "length ys = n"
       "substeps2 (n * nat steps) s1 = Inr s'"
       "\<forall>k<n. \<exists>sk. substeps2 ((k + 1) * nat steps) s1 = Inr sk
                  \<and> ys ! k = (w2_u_ti sk, w2_time sk)"
    by blast
  have shift: "substeps2 ((k + 1) * nat steps) s1 = substeps2 ((Suc k + 1) * nat steps) s" for k
    using substeps2_add [of "nat steps" "(k + 1) * nat steps" s] s1(1) by simp
  have take: "iteration_take2 steps (Suc n) s = Inr ((w2_u_ti s1, w2_time s1) # ys, s')"
    by (simp add: iteration_next2_def s1(1) t(1))
  have final: "substeps2 (Suc n * nat steps) s = Inr s'"
    using substeps2_add [of "nat steps" "n * nat steps" s] s1(1) t(3) by simp
  have each: "\<exists>sk. substeps2 ((k + 1) * nat steps) s = Inr sk
                  \<and> ((w2_u_ti s1, w2_time s1) # ys) ! k = (w2_u_ti sk, w2_time sk)"
    if "k < Suc n" for k
  proof (cases k)
    case 0
    then show ?thesis using s1(1) by simp
  next
    case (Suc j)
    with that have "j < n" by simp
    with t(4) obtain sk where sk: "substeps2 ((j + 1) * nat steps) s1 = Inr sk"
      "ys ! j = (w2_u_ti sk, w2_time sk)" by blast
    from sk(1) have "substeps2 ((k + 1) * nat steps) s = Inr sk"
      unfolding shift [of j] Suc .
    with sk(2) Suc show ?thesis
      by simp
  qed
  from take final each t(2) show ?case
    by simp
qed

section \<open>The simulation clock\<close>

text \<open>
  Claim C6.  After construction the clock reads \<open>dt\<close>: it starts at 0 and the bootstrap
  advances it once.  Every sub-step of a constructed stepper succeeds and adds exactly
  \<open>dt\<close>; a pull whose \<open>steps\<close> is not positive runs no sub-step and leaves the state as
  it is; and with \<open>steps = 1\<close> the pull number \<open>k + 1\<close> yields the time \<open>dt + (k + 1) * dt\<close>.
  The initial-condition functions are taken to return arrays of the shape of the grid.
  Time is a real number here, so the sum is exact; the floating-point rounding of the
  repeated addition is outside the model.
\<close>

theorem clock_advances_by_dt:
  assumes init: "Wave1D_init fp u_x0 ut_x0 dt L dx c = Inr s0"
    and lf: "length (u_x0 (w1_x s0) L) = length (w1_x s0)"
    and lg: "length (ut_x0 (w1_x s0)) = length (w1_x s0)"
  shows "w1_time s0 = dt
       \<and> (\<forall>k. \<exists>s s'. substeps k s0 = Inr s \<and> substep s = Inr s'
             \<and> w1_time s' = w1_time s + dt)
       \<and> (\<forall>steps\<le>0. iteration_next steps s0 = Inr ((w1_u_ti s0, w1_time s0), s0))
       \<and> (\<forall>n. \<exists>ys s. iteration_take 1 n s0 = Inr (ys, s) \<and> length ys = n
             \<and> (\<forall>k<n. snd (ys ! k) = dt + real (k + 1) * dt))"
proof (intro conjI allI impI)
  note f = Wave1D_init_fields [OF init lf lg]
  note sh = Wave1D_init_shaped [OF init lf lg]
  show "w1_time s0 = dt" by (rule f(3))
  show "\<exists>s s'. substeps k s0 = Inr s \<and> substep s = Inr s' \<and> w1_time s' = w1_time s + dt" for k
  proof -
    from substeps_shaped [OF sh(1), of k] obtain s where
      s: "substeps k s0 = Inr s" "shaped1d s" "w1_dt s = w1_dt s0" by blast
    from substep_shaped [OF s(2)] obtain s' where
      "substep s = Inr s'" "w1_time s' = w1_time s + w1_dt s" by blast
    with s f(4) show ?thesis by simp
  qed
  show "iteration_next steps s0 = Inr ((w1_u_ti s0, w1_time s0), s0)" if "steps \<le> 0" for steps
    using that by (simp add: iteration_next_def)
  show "\<exists>ys s. iteration_take 1 n s0 = Inr (ys, s) \<and> length ys = n
             \<and> (\<forall>k<n. snd (ys ! k) = dt + real (k + 1) * dt)" for n
  proof -
    from iteration_take_shaped [OF sh(1), of 1 n] obtain ys s where
      t: "iteration_take 1 n s0 = Inr (ys, s)" "length ys = n"
         "\<forall>k<n. \<exists>sk. substeps ((k + 1) * nat 1) s0 = Inr sk
                  \<and> ys ! k = (w1_u_ti sk, w1_time sk)"
      by blast
    have "snd (ys ! k) = dt + real (k + 1) * dt" if "k < n" for k
    proof -
      from t(3) that obtain sk where
        sk: "substeps ((k + 1) * nat 1) s0 = Inr sk" "ys ! k = (w1_u_ti sk, w1_time sk)"
        by blast
      from substeps_shaped [OF sh(1), of "(k + 1) * nat 1"] sk(1)
      have "w1_time sk = w1_time s0 + real ((k + 1) * nat 1) * w1_dt s0"
        by auto
      with sk(2) f(3,4) show ?thesis by simp
    qed
    with t(1,2) show ?thesis by blast
  qed
qed

theorem clock_advances_by_dt_witness:
  "\<exists>s0. Wave1D_init exact_arith pulse_trian1d init_vel1d (1 / 2) 4 1 1 = Inr s0
     \<and> w1_time s0 = 1 / 2
     \<and> (\<forall>n. \<exists>ys s. iteration_take 1 n s0 = Inr (ys, s) \<and> length ys = n
             \<and> (\<forall>k<n. snd (ys ! k) = 1 / 2 + real (k + 1) * (1 / 2)))"
proof -
  have init: "Wave1D_init exact_arith pulse_trian1d init_vel1d (1 / 2) 4 1 1 =
    Inr \<lparr>w1_x = [0, 1, 2, 3, 4], w1_alpha2 = 1 / 4, w1_time = 1 / 2,
        w1_dt = 1 / 2, w1_u_tim1 = [0, 0, 2 / 5, 0, 0],
        w1_u_ti = [0, 1 / 20, 3 / 10, 1 / 20, 0], w1_u_tip1 = [0, 0, 0, 0, 0]\<rparr>"
    (is "_ = Inr ?s0")
    by code_simp
  have lf: "length (pulse_trian1d (w1_x ?s0) 4) = length (w1_x ?s0)"
    by (simp add: pulse_trian1d_def)
  have lg: "length (init_vel1d (w1_x ?s0)) = length (w1_x ?s0)"
    by (simp add: init_vel1d_def np_zeros_def)
  from clock_advances_by_dt [OF init lf lg] init show ?thesis
    by blast
qed

section \<open>The update formula of a sub-step\<close>

lemma length_pulse_trian1d [simp]: "length (pulse_trian1d x L) = length x"
  by (simp add: pulse_trian1d_def)

lemma length_pulse_square1d [simp]: "length (pulse_square1d x L) = length x"
  by (simp add: pulse_square1d_def)

lemma length_init_vel1d [simp]: "length (init_vel1d x) = length x"
  by (simp add: init_vel1d_def np_zeros_def)

lemma has_shape2_wave_polynomial2d [simp]:
  "has_shape2 (wave_polynomial2d x y Lx Ly) (length x) (length y)"
  by (auto simp add: has_shape2_def wave_polynomial2d_def)

lemma has_shape2_init_vel2d [simp]: "has_shape2 (init_vel2d x y) (length x) (length y)"
  by (auto simp add: has_shape2_def init_vel2d_def np_zeros_def)

lemma example_Wave1D_init:
  "Wave1D_init exact_arith pulse_trian1d init_vel1d (1 / 2) 4 1 1 =
     Inr \<lparr>w1_x = [0, 1, 2, 3, 4], w1_alpha2 = 1 / 4, w1_time = 1 / 2, w1_dt = 1 / 2,
          w1_u_tim1 = [0, 0, 2 / 5, 0, 0], w1_u_ti = [0, 1 / 20, 3 / 10, 1 / 20, 0],
          w1_u_tip1 = [0, 0, 0, 0, 0]\<rparr>"
  by code_simp

lemma example_Wave2D_init:
  "Wave2D_init exact_arith wave_polynomial2d init_vel2d 3 3 (1 / 2) 1 1 =
     Inr \<lparr>w2_x = [0, 1, 2, 3], w2_y = [0, 1, 2, 3], w2_alpha2 = 1 / 4,
          w2_time = 1 / 2, w2_dt = 1 / 2,
          w2_u_tim1 = [[0, 0, 0, 0], [0, 0, 0, 0], [0, 0, 32, 0], [0, 0, 0, 0]],
          w2_u_ti = [[0, 0, 0, 0], [0, 0, 4, 0], [0, 4, 16, 0], [0, 0, 0, 0]],
          w2_u_tip1 = [[0, 0, 0, 0], [0, 0, 0, 0], [0, 0, 0, 0], [0, 0, 0, 0]]\<rparr>"
  by code_simp

lemma substep_formula:
  assumes sh: "shaped1d s"
  defines "n \<equiv> length (w1_u_ti s)"
  defines "a \<equiv> w1_alpha2 s"
  defines "prv \<equiv> w1_u_tim1 s"
  defines "cur \<equiv> w1_u_ti s"
  shows "\<exists>s'. substep s = Inr s'
    \<and> bound_standing (map (\<lambda>i. - (prv ! i) + 2 * (1 - a) * (cur ! i)
            + a * (cur ! ((i + n - 1) mod n) + cur ! ((i + 1) mod n))) [0..<n])
        = Inr (w1_u_tip1 s')
    \<and> (\<forall>i. 0 < i \<and> i < n - 1 \<longrightarrow>
          w1_u_tip1 s' ! i = - (prv ! i) + 2 * (1 - a) * (cur ! i)
            + a * (cur ! (i - 1) + cur ! (i + 1)))
    \<and> w1_u_tip1 s' ! 0 = 0 \<and> w1_u_tip1 s' ! (n - 1) = 0
    \<and> w1_time s' = w1_time s + w1_dt s
    \<and> w1_u_tim1 s' = cur \<and> w1_u_ti s' = w1_u_tip1 s'
    \<and> w1_x s' = w1_x s \<and> w1_alpha2 s' = a \<and> w1_dt s' = w1_dt s"
proof -
  from sh have len: "length (w1_u_tim1 s) = length (w1_u_ti s)" and ne: "w1_u_ti s \<noteq> []"
    by (simp_all add: shaped1d_def)
  define u where "u = map (\<lambda>i. - (prv ! i) + 2 * (1 - a) * (cur ! i)
            + a * (cur ! ((i + n - 1) mod n) + cur ! ((i + 1) mod n))) [0..<n]"
  define s' where "s' = s\<lparr>w1_time := w1_time s + w1_dt s, w1_u_tim1 := w1_u_ti s,
                  w1_u_ti := (u[0 := 0])[n - 1 := 0], w1_u_tip1 := (u[0 := 0])[n - 1 := 0]\<rparr>"
  have step: "substep s = Inr s'"
    unfolding s'_def u_def prv_def cur_def a_def n_def using len ne by (rule substep_closed)
  have n: "0 < n" using ne by (simp add: n_def)
  have lu: "length u = n" by (simp add: u_def)
  then have b: "bound_standing u = Inr (w1_u_tip1 s')"
    using n by (auto simp add: bound_standing_def s'_def)
  have inner: "w1_u_tip1 s' ! i = - (prv ! i) + 2 * (1 - a) * (cur ! i)
            + a * (cur ! (i - 1) + cur ! (i + 1))" if "0 < i \<and> i < n - 1" for i
  proof -
    from that have i: "0 < i" "i < n - 1" "i < n" by auto
    then have m1: "(i + n - 1) mod n = i - 1" and m2: "(i + 1) mod n = i + 1"
      by (simp_all add: mod_if)
    have "w1_u_tip1 s' ! i = u ! i"
      using i by (simp add: s'_def)
    also have "\<dots> = - (prv ! i) + 2 * (1 - a) * (cur ! i)
            + a * (cur ! ((i + n - 1) mod n) + cur ! ((i + 1) mod n))"
      using i(3) by (simp add: u_def)
    finally show ?thesis unfolding m1 m2 .
  qed
  have z: "w1_u_tip1 s' ! 0 = 0" "w1_u_tip1 s' ! (n - 1) = 0"
    using n lu by (simp_all add: s'_def nth_list_update)
  have rest: "w1_time s' = w1_time s + w1_dt s" "w1_u_tim1 s' = cur"
    "w1_u_ti s' = w1_u_tip1 s'" "w1_x s' = w1_x s" "w1_alpha2 s' = a" "w1_dt s' = w1_dt s"
    by (simp_all add: s'_def cur_def a_def)
  from step b inner z rest show ?thesis
    unfolding u_def by blast
qed

lemma substep2_formula:
  assumes sh: "shaped2d s r m"
  defines "a \<equiv> w2_alpha2 s"
  defines "prv \<equiv> w2_u_tim1 s"
  defines "cur \<equiv> w2_u_ti s"
  shows "\<exists>s'. substep2 s = Inr s'
    \<and> bound_standing2 (tabulate2 r m (\<lambda>i j. - (prv ! i ! j) + 2 * (1 - 2 * a) * (cur ! i ! j)
            + a * (cur ! ((i + r - 1) mod r) ! j + cur ! ((i + 1) mod r) ! j
                   + cur ! i ! ((j + m - 1) mod m) + cur ! i ! ((j + 1) mod m))))
        = Inr (w2_u_tip1 s')
    \<and> (\<forall>i j. 0 < i \<and> i < r - 1 \<and> 0 < j \<and> j < m - 1 \<longrightarrow>
          w2_u_tip1 s' ! i ! j = - (prv ! i ! j) + 2 * (1 - 2 * a) * (cur ! i ! j)
            + a * (cur ! (i - 1) ! j + cur ! (i + 1) ! j
                   + cur ! i ! (j - 1) + cur ! i ! (j + 1)))
    \<and> (\<forall>i j. i < r \<and> j < m \<and> (i = 0 \<or> i = r - 1 \<or> j = 0 \<or> j = m - 1) \<longrightarrow>
          w2_u_tip1 s' ! i ! j = 0)
    \<and> w2_time s' = w2_time s + w2_dt s
    \<and> w2_u_tim1 s' = cur \<and> w2_u_ti s' = w2_u_tip1 s'
    \<and> w2_x s' = w2_x s \<and> w2_y s' = w2_y s \<and> w2_alpha2 s' = a \<and> w2_dt s' = w2_dt s"
proof -
  from sh have P: "has_shape2 (w2_u_tim1 s) r m" and C: "has_shape2 (w2_u_ti s) r m"
    and r: "0 < r" and m: "0 < m"
    by (simp_all add: shaped2d_def)
  define h where "h = (\<lambda>i j. - (prv ! i ! j) + 2 * (1 - 2 * a) * (cur ! i ! j)
            + a * (cur ! ((i + r - 1) mod r) ! j + cur ! ((i + 1) mod r) ! j
                   + cur ! i ! ((j + m - 1) mod m) + cur ! i ! ((j + 1) mod m)))"
  define u where "u = tabulate2 r m (\<lambda>i j.
      if i = 0 \<or> i = r - 1 \<or> j = 0 \<or> j = m - 1 then 0 else h i j)"
  define s' where "s' = s\<lparr>w2_time := w2_time s + w2_dt s, w2_u_tim1 := w2_u_ti s,
                  w2_u_ti := u, w2_u_tip1 := u\<rparr>"
  have step: "substep2 s = Inr s'"
    unfolding s'_def u_def h_def prv_def cur_def a_def using P C r m by (rule substep2_closed)
  have "bound_standing2 (tabulate2 r m h) = Inr u"
    unfolding u_def using r m by (rule bound_standing2_tabulate2)
  then have b: "bound_standing2 (tabulate2 r m h) = Inr (w2_u_tip1 s')"
    by (simp add: s'_def)
  have inner: "w2_u_tip1 s' ! i ! j = - (prv ! i ! j) + 2 * (1 - 2 * a) * (cur ! i ! j)
            + a * (cur ! (i - 1) ! j + cur ! (i + 1) ! j
                   + cur ! i ! (j - 1) + cur ! i ! (j + 1))"
    if "0 < i \<and> i < r - 1 \<and> 0 < j \<and> j < m - 1" for i j
  proof -
    from that have i: "0 < i" "i < r - 1" "i < r" and j: "0 < j" "j < m - 1" "j < m"
      by auto
    then have m1: "(i + r - 1) mod r = i - 1" and m2: "(i + 1) mod r = i + 1"
      and m3: "(j + m - 1) mod m = j - 1" and m4: "(j + 1) mod m = j + 1"
      by (simp_all add: mod_if)
    have "w2_u_tip1 s' ! i ! j = h i j"
      using i j by (simp add: s'_def u_def)
    then show ?thesis unfolding h_def m1 m2 m3 m4 .
  qed
  have z: "w2_u_tip1 s' ! i ! j = 0"
    if "i < r \<and> j < m \<and> (i = 0 \<or> i = r - 1 \<or> j = 0 \<or> j = m - 1)" for i j
    using that by (auto simp add: s'_def u_def)
  have rest: "w2_time s' = w2_time s + w2_dt s" "w2_u_tim1 s' = cur"
    "w2_u_ti s' = w2_u_tip1 s'" "w2_x s' = w2_x s" "w2_y s' = w2_y s"
    "w2_alpha2 s' = a" "w2_dt s' = w2_dt s"
    by (simp_all add: s'_def cur_def a_def)
  from step b inner z rest show ?thesis
    unfolding h_def by blast
qed

text \<open>
  Claim C1.  For a stepper built by either constructor (its initial-condition functions
  returning arrays of the shape of the grid) and any number \<open>k\<close> of sub-steps already
  done, the next sub-step succeeds.  Its result is the boundary reset applied to the array
  whose sample \<open>i\<close> is \<open>- prev[i] + 2 (1 - alpha2) curr[i] + alpha2 (curr[i-1] + curr[i+1])\<close>
  with both neighbour indices taken modulo the length; in two dimensions the factor is
  \<open>2 (1 - 2 alpha2)\<close> and the neighbours are the four axis-aligned ones, each modulo the
  length of its axis.  So every interior sample is given by the formula with the plain
  neighbours, the boundary samples are 0, the clock grows by \<open>dt\<close>, the old \<open>curr\<close> becomes
  \<open>prev\<close> and the new array becomes \<open>curr\<close>; and the state this sub-step leaves is the
  state after \<open>k + 1\<close> sub-steps, so the loop is the repetition of exactly this body.  A
  pull yields the pair of \<open>curr\<close> and the clock after each block of \<open>steps\<close> sub-steps:
  the pull number \<open>k + 1\<close> yields the state after \<open>(k + 1) * steps\<close> sub-steps.  The
  coefficient \<open>alpha2\<close> is the one the constructor computed.
\<close>

theorem advance_substep_formula:
  "(Wave1D_init fp u_x0 ut_x0 dt L dx c = Inr s0
      \<longrightarrow> length (u_x0 (w1_x s0) L) = length (w1_x s0)
      \<longrightarrow> length (ut_x0 (w1_x s0)) = length (w1_x s0)
      \<longrightarrow> (\<forall>k. \<exists>s s'. substeps k s0 = Inr s \<and> substep s = Inr s'
             \<and> substeps (Suc k) s0 = Inr s'
             \<and> bound_standing
                 (map (\<lambda>i. - (w1_u_tim1 s ! i) + 2 * (1 - fp_sqr fp (fp_div fp (fp_mul fp c dt) dx)) * (w1_u_ti s ! i)
                        + fp_sqr fp (fp_div fp (fp_mul fp c dt) dx)
                          * (w1_u_ti s ! ((i + length (w1_x s0) - 1) mod length (w1_x s0))
                             + w1_u_ti s ! ((i + 1) mod length (w1_x s0))))
                    [0..<length (w1_x s0)])
                 = Inr (w1_u_tip1 s')
             \<and> (\<forall>i. 0 < i \<and> i < length (w1_x s0) - 1 \<longrightarrow>
                   w1_u_tip1 s' ! i =
                     - (w1_u_tim1 s ! i) + 2 * (1 - fp_sqr fp (fp_div fp (fp_mul fp c dt) dx)) * (w1_u_ti s ! i)
                     + fp_sqr fp (fp_div fp (fp_mul fp c dt) dx) * (w1_u_ti s ! (i - 1) + w1_u_ti s ! (i + 1)))
             \<and> w1_u_tip1 s' ! 0 = 0 \<and> w1_u_tip1 s' ! (length (w1_x s0) - 1) = 0
             \<and> w1_time s' = w1_time s + dt
             \<and> w1_u_tim1 s' = w1_u_ti s \<and> w1_u_ti s' = w1_u_tip1 s')
        \<and> (\<forall>steps n. \<exists>ys s. iteration_take steps n s0 = Inr (ys, s) \<and> length ys = n
             \<and> (\<forall>k<n. \<exists>sk. substeps ((k + 1) * nat steps) s0 = Inr sk
                    \<and> ys ! k = (w1_u_ti sk, w1_time sk))))
   \<and> (Wave2D_init fp u_xy0 ut_xy0 Lx Ly dt' dxy c' = Inr t0
      \<longrightarrow> has_shape2 (u_xy0 (w2_x t0) (w2_y t0) Lx Ly) (length (w2_x t0)) (length (w2_y t0))
      \<longrightarrow> has_shape2 (ut_xy0 (w2_x t0) (w2_y t0)) (length (w2_x t0)) (length (w2_y t0))
      \<longrightarrow> (\<forall>k. \<exists>t t'. substeps2 k t0 = Inr t \<and> substep2 t = Inr t'
             \<and> substeps2 (Suc k) t0 = Inr t'
             \<and> bound_standing2
                 (tabulate2 (length (w2_x t0)) (length (w2_y t0))
                    (\<lambda>i j. - (w2_u_tim1 t ! i ! j)
                       + 2 * (1 - 2 * fp_sqr fp (fp_div fp (fp_mul fp c' dt') dxy)) * (w2_u_ti t ! i ! j)
                       + fp_sqr fp (fp_div fp (fp_mul fp c' dt') dxy)
                         * (w2_u_ti t ! ((i + length (w2_x t0) - 1) mod length (w2_x t0)) ! j
                            + w2_u_ti t ! ((i + 1) mod length (w2_x t0)) ! j
                            + w2_u_ti t ! i ! ((j + length (w2_y t0) - 1) mod length (w2_y t0))
                            + w2_u_ti t ! i ! ((j + 1) mod length (w2_y t0)))))
                 = Inr (w2_u_tip1 t')
             \<and> (\<forall>i j. 0 < i \<and> i < length (w2_x t0) - 1 \<and> 0 < j \<and> j < length (w2_y t0) - 1 \<longrightarrow>
                   w2_u_tip1 t' ! i ! j =
                     - (w2_u_tim1 t ! i ! j)
                     + 2 * (1 - 2 * fp_sqr fp (fp_div fp (fp_mul fp c' dt') dxy)) * (w2_u_ti t ! i ! j)
                     + fp_sqr fp (fp_div fp (fp_mul fp c' dt') dxy)
                       * (w2_u_ti t ! (i - 1) ! j + w2_u_ti t ! (i + 1) ! j
                          + w2_u_ti t ! i ! (j - 1) + w2_u_ti t ! i ! (j + 1)))
             \<and> (\<forall>i j. i < length (w2_x t0) \<and> j < length (w2_y t0)
                      \<and> (i = 0 \<or> i = length (w2_x t0) - 1 \<or> j = 0 \<or> j = length (w2_y t0) - 1)
                   \<longrightarrow> w2_u_tip1 t' ! i ! j = 0)
             \<and> w2_time t' = w2_time t + dt'
             \<and> w2_u_tim1 t' = w2_u_ti t \<and> w2_u_ti t' = w2_u_tip1 t')
        \<and> (\<forall>steps n. \<exists>ys t. iteration_take2 steps n t0 = Inr (ys, t) \<and> length ys = n
             \<and> (\<forall>k<n. \<exists>tk. substeps2 ((k + 1) * nat steps) t0 = Inr tk
                    \<and> ys ! k = (w2_u_ti tk, w2_time tk))))"
proof (intro conjI impI allI)
  assume init: "Wave1D_init fp u_x0 ut_x0 dt L dx c = Inr s0"
    and lf: "length (u_x0 (w1_x s0) L) = length (w1_x s0)"
    and lg: "length (ut_x0 (w1_x s0)) = length (w1_x s0)"
  note f = Wave1D_init_fields [OF init lf lg]
  note sh = Wave1D_init_shaped [OF init lf lg]
  {
    fix k
    from substeps_shaped [OF sh(1), of k] obtain s where
      s: "substeps k s0 = Inr s" "shaped1d s" "length (w1_u_ti s) = length (w1_u_ti s0)"
         "w1_dt s = w1_dt s0" "w1_alpha2 s = w1_alpha2 s0"
      by blast
    from substep_formula [OF s(2)] s(1)
    show "\<exists>s s'. substeps k s0 = Inr s \<and> substep s = Inr s'
             \<and> substeps (Suc k) s0 = Inr s'
             \<and> bound_standing
                 (map (\<lambda>i. - (w1_u_tim1 s ! i) + 2 * (1 - fp_sqr fp (fp_div fp (fp_mul fp c dt) dx)) * (w1_u_ti s ! i)
                        + fp_sqr fp (fp_div fp (fp_mul fp c dt) dx)
                          * (w1_u_ti s ! ((i + length (w1_x s0) - 1) mod length (w1_x s0))
                             + w1_u_ti s ! ((i + 1) mod length (w1_x s0))))
                    [0..<length (w1_x s0)])
                 = Inr (w1_u_tip1 s')
             \<and> (\<forall>i. 0 < i \<and> i < length (w1_x s0) - 1 \<longrightarrow>
                   w1_u_tip1 s' ! i =
                     - (w1_u_tim1 s ! i) + 2 * (1 - fp_sqr fp (fp_div fp (fp_mul fp c dt) dx)) * (w1_u_ti s ! i)
                     + fp_sqr fp (fp_div fp (fp_mul fp c dt) dx) * (w1_u_ti s ! (i - 1) + w1_u_ti s ! (i + 1)))
             \<and> w1_u_tip1 s' ! 0 = 0 \<and> w1_u_tip1 s' ! (length (w1_x s0) - 1) = 0
             \<and> w1_time s' = w1_time s + dt
             \<and> w1_u_tim1 s' = w1_u_ti s \<and> w1_u_ti s' = w1_u_tip1 s'"
      unfolding substeps_snoc [OF s(1)] s(3) s(4) s(5) sh(2) f(2) f(4) by blast
  }
  {
    fix steps n
    from iteration_take_shaped [OF sh(1), of steps n]
    show "\<exists>ys s. iteration_take steps n s0 = Inr (ys, s) \<and> length ys = n
             \<and> (\<forall>k<n. \<exists>sk. substeps ((k + 1) * nat steps) s0 = Inr sk
                    \<and> ys ! k = (w1_u_ti sk, w1_time sk))"
      by blast
  }
next
  assume init: "Wave2D_init fp u_xy0 ut_xy0 Lx Ly dt' dxy c' = Inr t0"
    and sf: "has_shape2 (u_xy0 (w2_x t0) (w2_y t0) Lx Ly) (length (w2_x t0)) (length (w2_y t0))"
    and sg: "has_shape2 (ut_xy0 (w2_x t0) (w2_y t0)) (length (w2_x t0)) (length (w2_y t0))"
  note f = Wave2D_init_fields [OF init sf sg]
  note sh = Wave2D_init_shaped [OF init sf sg]
  {
    fix k
    from substeps2_shaped [OF sh, of k] obtain t where
      t: "substeps2 k t0 = Inr t" "shaped2d t (length (w2_x t0)) (length (w2_y t0))"
         "w2_dt t = w2_dt t0" "w2_alpha2 t = w2_alpha2 t0"
      by blast
    from substep2_formula [OF t(2)] t(1)
    show "\<exists>t t'. substeps2 k t0 = Inr t \<and> substep2 t = Inr t'
             \<and> substeps2 (Suc k) t0 = Inr t'
             \<and> bound_standing2
                 (tabulate2 (length (w2_x t0)) (length (w2_y t0))
                    (\<lambda>i j. - (w2_u_tim1 t ! i ! j)
                       + 2 * (1 - 2 * fp_sqr fp (fp_div fp (fp_mul fp c' dt') dxy)) * (w2_u_ti t ! i ! j)
                       + fp_sqr fp (fp_div fp (fp_mul fp c' dt') dxy)
                         * (w2_u_ti t ! ((i + length (w2_x t0) - 1) mod length (w2_x t0)) ! j
                            + w2_u_ti t ! ((i + 1) mod length (w2_x t0)) ! j
                            + w2_u_ti t ! i ! ((j + length (w2_y t0) - 1) mod length (w2_y t0))
                            + w2_u_ti t ! i ! ((j + 1) mod length (w2_y t0)))))
                 = Inr (w2_u_tip1 t')
             \<and> (\<forall>i j. 0 < i \<and> i < length (w2_x t0) - 1 \<and> 0 < j \<and> j < length (w2_y t0) - 1 \<longrightarrow>
                   w2_u_tip1 t' ! i ! j =
                     - (w2_u_tim1 t ! i ! j)
                     + 2 * (1 - 2 * fp_sqr fp (fp_div fp (fp_mul fp c' dt') dxy)) * (w2_u_ti t ! i ! j)
                     + fp_sqr fp (fp_div fp (fp_mul fp c' dt') dxy)
                       * (w2_u_ti t ! (i - 1) ! j + w2_u_ti t ! (i + 1) ! j
                          + w2_u_ti t ! i ! (j - 1) + w2_u_ti t ! i ! (j + 1)))
             \<and> (\<forall>i j. i < length (w2_x t0) \<and> j < length (w2_y t0)
                      \<and> (i = 0 \<or> i = length (w2_x t0) - 1 \<or> j = 0 \<or> j = length (w2_y t0) - 1)
                   \<longrightarrow> w2_u_tip1 t' ! i ! j = 0)
             \<and> w2_time t' = w2_time t + dt'
             \<and> w2_u_tim1 t' = w2_u_ti t \<and> w2_u_ti t' = w2_u_tip1 t'"
      unfolding substeps2_snoc [OF t(1)] t(3) t(4) f(3) f(5) by blast
  }
  {
    fix steps n
    from iteration_take2_shaped [OF sh, of steps n]
    show "\<exists>ys t. iteration_take2 steps n t0 = Inr (ys, t) \<and> length ys = n
             \<and> (\<forall>k<n. \<exists>tk. substeps2 ((k + 1) * nat steps) t0 = Inr tk
                    \<and> ys ! k = (w2_u_ti tk, w2_time tk))"
      by blast
  }
qed

theorem advance_substep_formula_witness:
  "(\<exists>s0 s'. Wave1D_init exact_arith pulse_trian1d init_vel1d (1 / 2) 4 1 1 = Inr s0
       \<and> substep s0 = Inr s' \<and> w1_u_tip1 s' ! 2 = 3 / 40 \<and> w1_time s' = 1)
   \<and> (\<exists>t0 t'. Wave2D_init exact_arith wave_polynomial2d init_vel2d 3 3 (1 / 2) 1 1 = Inr t0
       \<and> substep2 t0 = Inr t' \<and> w2_u_tip1 t' ! 2 ! 2 = - 14 \<and> w2_time t' = 1)"
proof
  let ?s0 = "\<lparr>w1_x = [0, 1, 2, 3, 4], w1_alpha2 = 1 / 4, w1_time = 1 / 2, w1_dt = 1 / 2,
          w1_u_tim1 = [0, 0, 2 / 5, 0, 0], w1_u_ti = [0, 1 / 20, 3 / 10, 1 / 20, 0],
          w1_u_tip1 = [0, 0, 0, 0, 0]\<rparr>"
  have lf: "length (pulse_trian1d (w1_x ?s0) 4) = length (w1_x ?s0)"
    and lg: "length (init_vel1d (w1_x ?s0)) = length (w1_x ?s0)"
    by simp_all
  note T = advance_substep_formula [of exact_arith pulse_trian1d init_vel1d "1 / 2" 4 1 1 ?s0,
      THEN conjunct1, rule_format, OF example_Wave1D_init lf lg, THEN conjunct1,
      THEN spec, of 0]
  from T obtain s s' where a: "substeps 0 ?s0 = Inr s" and b: "substep s = Inr s'"
    and c: "\<forall>i. 0 < i \<and> i < length (w1_x ?s0) - 1 \<longrightarrow>
            w1_u_tip1 s' ! i =
              - (w1_u_tim1 s ! i) + 2 * (1 - fp_sqr exact_arith (fp_div exact_arith (fp_mul exact_arith 1 (1 / 2)) 1)) * (w1_u_ti s ! i)
              + fp_sqr exact_arith (fp_div exact_arith (fp_mul exact_arith 1 (1 / 2)) 1) * (w1_u_ti s ! (i - 1) + w1_u_ti s ! (i + 1))"
    and d: "w1_time s' = w1_time s + 1 / 2"
    by blast
  from a have s: "s = ?s0" by simp
  from c [rule_format, of 2] have "w1_u_tip1 s' ! 2 = 3 / 40"
    unfolding s by (simp add: power2_eq_square)
  moreover from d have "w1_time s' = 1"
    unfolding s by simp
  ultimately show "\<exists>s0 s'. Wave1D_init exact_arith pulse_trian1d init_vel1d (1 / 2) 4 1 1 = Inr s0
       \<and> substep s0 = Inr s' \<and> w1_u_tip1 s' ! 2 = 3 / 40 \<and> w1_time s' = 1"
    using example_Wave1D_init b unfolding s by blast
next
  let ?t0 = "\<lparr>w2_x = [0, 1, 2, 3], w2_y = [0, 1, 2, 3], w2_alpha2 = 1 / 4,
          w2_time = 1 / 2, w2_dt = 1 / 2,
          w2_u_tim1 = [[0, 0, 0, 0], [0, 0, 0, 0], [0, 0, 32, 0], [0, 0, 0, 0]],
          w2_u_ti = [[0, 0, 0, 0], [0, 0, 4, 0], [0, 4, 16, 0], [0, 0, 0, 0]],
          w2_u_tip1 = [[0, 0, 0, 0], [0, 0, 0, 0], [0, 0, 0, 0], [0, 0, 0, 0]]\<rparr>"
  have sf: "has_shape2 (wave_polynomial2d (w2_x ?t0) (w2_y ?t0) 3 3)
              (length (w2_x ?t0)) (length (w2_y ?t0))"
    and sg: "has_shape2 (init_vel2d (w2_x ?t0) (w2_y ?t0))
              (length (w2_x ?t0)) (length (w2_y ?t0))"
    by (rule has_shape2_wave_polynomial2d, rule has_shape2_init_vel2d)
  note T = advance_substep_formula [of exact_arith _ _ _ _ _ _ _ wave_polynomial2d init_vel2d 3 3
      "1 / 2" 1 1 ?t0, THEN conjunct2, rule_format, OF example_Wave2D_init sf sg,
      THEN conjunct1, THEN spec, of 0]
  from T obtain t t' where a: "substeps2 0 ?t0 = Inr t" and b: "substep2 t = Inr t'"
    and c: "\<forall>i j. 0 < i \<and> i < length (w2_x ?t0) - 1 \<and> 0 < j \<and> j < length (w2_y ?t0) - 1 \<longrightarrow>
            w2_u_tip1 t' ! i ! j =
              - (w2_u_tim1 t ! i ! j)
              + 2 * (1 - 2 * fp_sqr exact_arith (fp_div exact_arith (fp_mul exact_arith 1 (1 / 2)) 1)) * (w2_u_ti t ! i ! j)
              + fp_sqr exact_arith (fp_div exact_arith (fp_mul exact_arith 1 (1 / 2)) 1)
                * (w2_u_ti t ! (i - 1) ! j + w2_u_ti t ! (i + 1) ! j
                   + w2_u_ti t ! i ! (j - 1) + w2_u_ti t ! i ! (j + 1))"
    and d: "w2_time t' = w2_time t + 1 / 2"
    by blast
  from a have t: "t = ?t0" by simp
  from c [rule_format, of 2 2] have "w2_u_tip1 t' ! 2 ! 2 = - 14"
    unfolding t by (simp add: power2_eq_square)
  moreover from d have "w2_time t' = 1"
    unfolding t by simp
  ultimately show "\<exists>t0 t'. Wave2D_init exact_arith wave_polynomial2d init_vel2d 3 3 (1 / 2) 1 1 = Inr t0
       \<and> substep2 t0 = Inr t' \<and> w2_u_tip1 t' ! 2 ! 2 = - 14 \<and> w2_time t' = 1"
    using example_Wave2D_init b unfolding t by blast
qed

section \<open>The boundary invariant\<close>

lemma zero_boundary_reset:
  "u \<noteq> [] \<Longrightarrow> zero_boundary ((u[0 := 0])[length u - 1 := 0])"
  by (auto simp add: zero_boundary_def hd_conv_nth last_conv_nth nth_list_update)

lemma zero_boundary_zeros: "0 < n \<Longrightarrow> zero_boundary (replicate n 0)"
  by (auto simp add: zero_boundary_def hd_conv_nth last_conv_nth)

lemma zero_boundary2_tabulate2:
  assumes "0 < r" and "0 < m"
  shows "zero_boundary2 (tabulate2 r m (\<lambda>i j.
           if i = 0 \<or> i = r - 1 \<or> j = 0 \<or> j = m - 1 then 0 else h i j))"
proof -
  let ?k = "\<lambda>i j. if i = 0 \<or> i = r - 1 \<or> j = 0 \<or> j = m - 1 then 0 else h i j"
  have ne: "tabulate2 r m ?k \<noteq> []"
    using assms(1) by (simp add: tabulate2_def)
  have "hd (tabulate2 r m ?k) = tabulate2 r m ?k ! 0"
    using ne by (rule hd_conv_nth)
  then have h: "\<forall>v\<in>set (hd (tabulate2 r m ?k)). v = 0"
    using assms(1) by (auto simp add: nth_tabulate2_row)
  have "last (tabulate2 r m ?k) = tabulate2 r m ?k ! (r - 1)"
    using ne by (simp add: last_conv_nth)
  then have l: "\<forall>v\<in>set (last (tabulate2 r m ?k)). v = 0"
    using assms(1) by (auto simp add: nth_tabulate2_row)
  have rows: "zero_boundary row" if "row \<in> set (tabulate2 r m ?k)" for row
  proof -
    from that obtain i where i: "i < r" and row: "row = map (?k i) [0..<m]"
      by (auto simp add: tabulate2_def)
    have "row \<noteq> []" using assms(2) row by simp
    moreover have "hd row = 0"
      using assms(2) row by (simp add: hd_map)
    moreover have "last row = 0"
      using assms(2) row by (simp add: last_map)
    ultimately show ?thesis by (simp add: zero_boundary_def)
  qed
  from ne h l rows show ?thesis
    unfolding zero_boundary2_def by blast
qed

lemma zero_boundary2_zeros:
  "0 < r \<Longrightarrow> 0 < m \<Longrightarrow> zero_boundary2 (replicate r (replicate m 0))"
  by (auto simp add: zero_boundary2_def zero_boundary_zeros hd_conv_nth last_conv_nth)

lemma substep_zero_boundary:
  assumes sh: "shaped1d s" and zc: "zero_boundary (w1_u_ti s)"
  shows "\<exists>s'. substep s = Inr s' \<and> shaped1d s'
           \<and> zero_boundary (w1_u_tim1 s') \<and> zero_boundary (w1_u_ti s')
           \<and> zero_boundary (w1_u_tip1 s')"
proof -
  from sh have len: "length (w1_u_tim1 s) = length (w1_u_ti s)" and ne: "w1_u_ti s \<noteq> []"
    by (simp_all add: shaped1d_def)
  define n where "n = length (w1_u_ti s)"
  define u where "u = map (\<lambda>i. - (w1_u_tim1 s ! i) + 2 * (1 - w1_alpha2 s) * (w1_u_ti s ! i)
                    + w1_alpha2 s * (w1_u_ti s ! ((i + n - 1) mod n) + w1_u_ti s ! ((i + 1) mod n)))
                  [0..<n]"
  have step: "substep s =
           Inr (s\<lparr>w1_time := w1_time s + w1_dt s, w1_u_tim1 := w1_u_ti s,
                  w1_u_ti := (u[0 := 0])[n - 1 := 0], w1_u_tip1 := (u[0 := 0])[n - 1 := 0]\<rparr>)"
    unfolding u_def n_def using len ne by (rule substep_closed)
  have lu: "length u = n" by (simp add: u_def)
  have une: "u \<noteq> []" using ne by (simp add: u_def n_def)
  then have "zero_boundary ((u[0 := 0])[length u - 1 := 0])"
    by (rule zero_boundary_reset)
  then have z: "zero_boundary ((u[0 := 0])[n - 1 := 0])"
    by (simp add: lu)
  show ?thesis
    unfolding step using z zc ne lu une by (simp add: shaped1d_def n_def)
qed

lemma substeps_zero_boundary:
  assumes "shaped1d s" and "zero_boundary (w1_u_tim1 s)" and "zero_boundary (w1_u_ti s)"
    and "zero_boundary (w1_u_tip1 s)"
  shows "\<exists>s'. substeps k s = Inr s' \<and> shaped1d s'
           \<and> zero_boundary (w1_u_tim1 s') \<and> zero_boundary (w1_u_ti s')
           \<and> zero_boundary (w1_u_tip1 s')"
  using assms
proof (induction k arbitrary: s)
  case 0
  then show ?case by simp
next
  case (Suc k)
  from substep_zero_boundary [OF Suc.prems(1) Suc.prems(3)] obtain s1 where
    s1: "substep s = Inr s1" "shaped1d s1" "zero_boundary (w1_u_tim1 s1)"
        "zero_boundary (w1_u_ti s1)" "zero_boundary (w1_u_tip1 s1)"
    by blast
  from Suc.IH [OF s1(2-5)] s1(1) show ?case by simp
qed

lemma Wave1D_init_zero_boundary:
  assumes init: "Wave1D_init fp u_x0 ut_x0 dt L dx c = Inr s"
    and lf: "length (u_x0 (w1_x s) L) = length (w1_x s)"
    and lg: "length (ut_x0 (w1_x s)) = length (w1_x s)"
  shows "zero_boundary (w1_u_tim1 s)" and "zero_boundary (w1_u_ti s)"
    and "zero_boundary (w1_u_tip1 s)"
proof -
  note f = Wave1D_init_fields [OF init lf lg]
  define n where "n = length (w1_x s)"
  from f(1) have n: "0 < n" by (simp add: n_def)
  have "u_x0 (w1_x s) L \<noteq> []" using f(1) lf by auto
  then have "zero_boundary (((u_x0 (w1_x s) L)[0 := 0])[length (u_x0 (w1_x s) L) - 1 := 0])"
    by (rule zero_boundary_reset)
  then show "zero_boundary (w1_u_tim1 s)"
    unfolding f(5) lf .
  have z: "zero_boundary ((v[0 := 0])[length (w1_x s) - 1 := 0])"
    if "length v = length (w1_x s)" for v
  proof -
    from that f(1) have "v \<noteq> []" by auto
    then have "zero_boundary ((v[0 := 0])[length v - 1 := 0])"
      by (rule zero_boundary_reset)
    then show ?thesis unfolding that .
  qed
  show "zero_boundary (w1_u_ti s)"
    unfolding f(6) by (rule z) simp
  show "zero_boundary (w1_u_tip1 s)"
    unfolding f(7) using f(1) by (intro zero_boundary_zeros) simp
qed

lemma substep2_zero_boundary:
  assumes sh: "shaped2d s r m" and zc: "zero_boundary2 (w2_u_ti s)"
  shows "\<exists>s'. substep2 s = Inr s' \<and> shaped2d s' r m
           \<and> zero_boundary2 (w2_u_tim1 s') \<and> zero_boundary2 (w2_u_ti s')
           \<and> zero_boundary2 (w2_u_tip1 s')"
proof -
  from sh have P: "has_shape2 (w2_u_tim1 s) r m" and C: "has_shape2 (w2_u_ti s) r m"
    and r: "0 < r" and m: "0 < m"
    by (simp_all add: shaped2d_def)
  define h where "h = (\<lambda>i j. - (w2_u_tim1 s ! i ! j)
         + 2 * (1 - 2 * w2_alpha2 s) * (w2_u_ti s ! i ! j)
         + w2_alpha2 s * (w2_u_ti s ! ((i + r - 1) mod r) ! j + w2_u_ti s ! ((i + 1) mod r) ! j
                  + w2_u_ti s ! i ! ((j + m - 1) mod m) + w2_u_ti s ! i ! ((j + 1) mod m)))"
  define u where "u = tabulate2 r m (\<lambda>i j.
      if i = 0 \<or> i = r - 1 \<or> j = 0 \<or> j = m - 1 then 0 else h i j)"
  have step: "substep2 s =
           Inr (s\<lparr>w2_time := w2_time s + w2_dt s, w2_u_tim1 := w2_u_ti s,
                  w2_u_ti := u, w2_u_tip1 := u\<rparr>)"
    unfolding u_def h_def using P C r m by (rule substep2_closed)
  have z: "zero_boundary2 u"
    unfolding u_def using r m by (rule zero_boundary2_tabulate2)
  have su: "has_shape2 u r m"
    by (simp add: u_def)
  show ?thesis
    unfolding step using z zc C su r m by (simp add: shaped2d_def)
qed

lemma substeps2_zero_boundary:
  assumes "shaped2d s r m" and "zero_boundary2 (w2_u_tim1 s)"
    and "zero_boundary2 (w2_u_ti s)" and "zero_boundary2 (w2_u_tip1 s)"
  shows "\<exists>s'. substeps2 k s = Inr s' \<and> shaped2d s' r m
           \<and> zero_boundary2 (w2_u_tim1 s') \<and> zero_boundary2 (w2_u_ti s')
           \<and> zero_boundary2 (w2_u_tip1 s')"
  using assms
proof (induction k arbitrary: s)
  case 0
  then show ?case by simp
next
  case (Suc k)
  from substep2_zero_boundary [OF Suc.prems(1) Suc.prems(3)] obtain s1 where
    s1: "substep2 s = Inr s1" "shaped2d s1 r m" "zero_boundary2 (w2_u_tim1 s1)"
        "zero_boundary2 (w2_u_ti s1)" "zero_boundary2 (w2_u_tip1 s1)"
    by blast
  from Suc.IH [OF s1(2-5)] s1(1) show ?case by simp
qed

lemma Wave2D_init_zero_boundary:
  assumes init: "Wave2D_init fp u_xy0 ut_xy0 Lx Ly dt dxy c = Inr s"
    and sf: "has_shape2 (u_xy0 (w2_x s) (w2_y s) Lx Ly) (length (w2_x s)) (length (w2_y s))"
    and sg: "has_shape2 (ut_xy0 (w2_x s) (w2_y s)) (length (w2_x s)) (length (w2_y s))"
  shows "zero_boundary2 (w2_u_tim1 s)" and "zero_boundary2 (w2_u_ti s)"
    and "zero_boundary2 (w2_u_tip1 s)"
proof -
  note f = Wave2D_init_fields [OF init sf sg]
  show "zero_boundary2 (w2_u_tim1 s)"
    unfolding f(6) using f(1) f(2) by (rule zero_boundary2_tabulate2)
  show "zero_boundary2 (w2_u_ti s)"
    unfolding f(7) using f(1) f(2) by (rule zero_boundary2_tabulate2)
  show "zero_boundary2 (w2_u_tip1 s)"
    unfolding f(8) using f(1) f(2) by (rule zero_boundary2_zeros)
qed

text \<open>
  Claim C2.  For a stepper built by either constructor (its initial-condition functions
  returning arrays of the shape of the grid), after any number \<open>k\<close> of sub-steps, \<open>k = 0\<close>
  being the state right after construction with its two bootstrap levels, every level the
  stepper holds has its first and last sample equal to 0; in two dimensions the first and
  the last row and the first and the last column are 0.  The same holds for every field
  a pull yields, for every \<open>steps\<close> and any number of pulls.
\<close>

theorem boundary_samples_zero:
  "(Wave1D_init fp u_x0 ut_x0 dt L dx c = Inr s0
      \<longrightarrow> length (u_x0 (w1_x s0) L) = length (w1_x s0)
      \<longrightarrow> length (ut_x0 (w1_x s0)) = length (w1_x s0)
      \<longrightarrow> (\<forall>k. \<exists>s. substeps k s0 = Inr s \<and> zero_boundary (w1_u_tim1 s)
             \<and> zero_boundary (w1_u_ti s) \<and> zero_boundary (w1_u_tip1 s))
        \<and> (\<forall>steps n. \<exists>ys s. iteration_take steps n s0 = Inr (ys, s) \<and> length ys = n
             \<and> (\<forall>y\<in>set ys. zero_boundary (fst y))))
   \<and> (Wave2D_init fp u_xy0 ut_xy0 Lx Ly dt' dxy c' = Inr t0
      \<longrightarrow> has_shape2 (u_xy0 (w2_x t0) (w2_y t0) Lx Ly) (length (w2_x t0)) (length (w2_y t0))
      \<longrightarrow> has_shape2 (ut_xy0 (w2_x t0) (w2_y t0)) (length (w2_x t0)) (length (w2_y t0))
      \<longrightarrow> (\<forall>k. \<exists>t. substeps2 k t0 = Inr t \<and> zero_boundary2 (w2_u_tim1 t)
             \<and> zero_boundary2 (w2_u_ti t) \<and> zero_boundary2 (w2_u_tip1 t))
        \<and> (\<forall>steps n. \<exists>ys t. iteration_take2 steps n t0 = Inr (ys, t) \<and> length ys = n
             \<and> (\<forall>y\<in>set ys. zero_boundary2 (fst y))))"
proof (intro conjI impI allI)
  assume init: "Wave1D_init fp u_x0 ut_x0 dt L dx c = Inr s0"
    and lf: "length (u_x0 (w1_x s0) L) = length (w1_x s0)"
    and lg: "length (ut_x0 (w1_x s0)) = length (w1_x s0)"
  note sh = Wave1D_init_shaped [OF init lf lg]
  note z = Wave1D_init_zero_boundary [OF init lf lg]
  note inv = substeps_zero_boundary [OF sh(1) z]
  {
    fix k
    from inv [of k]
    show "\<exists>s. substeps k s0 = Inr s \<and> zero_boundary (w1_u_tim1 s)
             \<and> zero_boundary (w1_u_ti s) \<and> zero_boundary (w1_u_tip1 s)"
      by blast
  }
  {
    fix steps n
    from iteration_take_shaped [OF sh(1), of steps n] obtain ys s where
      t: "iteration_take steps n s0 = Inr (ys, s)" "length ys = n"
         "\<forall>k<n. \<exists>sk. substeps ((k + 1) * nat steps) s0 = Inr sk
                  \<and> ys ! k = (w1_u_ti sk, w1_time sk)"
      by blast
    have "zero_boundary (fst y)" if "y \<in> set ys" for y
    proof -
      from that t(2) obtain k where k: "k < n" "y = ys ! k"
        by (auto simp add: in_set_conv_nth)
      with t(3) obtain sk where sk: "substeps ((k + 1) * nat steps) s0 = Inr sk"
        "ys ! k = (w1_u_ti sk, w1_time sk)" by blast
      from inv [of "(k + 1) * nat steps"] sk(1) have "zero_boundary (w1_u_ti sk)"
        by auto
      with k(2) sk(2) show ?thesis by simp
    qed
    with t(1,2)
    show "\<exists>ys s. iteration_take steps n s0 = Inr (ys, s) \<and> length ys = n
             \<and> (\<forall>y\<in>set ys. zero_boundary (fst y))"
      by blast
  }
next
  assume init: "Wave2D_init fp u_xy0 ut_xy0 Lx Ly dt' dxy c' = Inr t0"
    and sf: "has_shape2 (u_xy0 (w2_x t0) (w2_y t0) Lx Ly) (length (w2_x t0)) (length (w2_y t0))"
    and sg: "has_shape2 (ut_xy0 (w2_x t0) (w2_y t0)) (length (w2_x t0)) (length (w2_y t0))"
  note sh = Wave2D_init_shaped [OF init sf sg]
  note z = Wave2D_init_zero_boundary [OF init sf sg]
  note inv = substeps2_zero_boundary [OF sh z]
  {
    fix k
    from inv [of k]
    show "\<exists>t. substeps2 k t0 = Inr t \<and> zero_boundary2 (w2_u_tim1 t)
             \<and> zero_boundary2 (w2_u_ti t) \<and> zero_boundary2 (w2_u_tip1 t)"
      by blast
  }
  {
    fix steps n
    from iteration_take2_shaped [OF sh, of steps n] obtain ys t where
      t: "iteration_take2 steps n t0 = Inr (ys, t)" "length ys = n"
         "\<forall>k<n. \<exists>tk. substeps2 ((k + 1) * nat steps) t0 = Inr tk
                  \<and> ys ! k = (w2_u_ti tk, w2_time tk)"
      by blast
    have "zero_boundary2 (fst y)" if "y \<in> set ys" for y
    proof -
      from that t(2) obtain k where k: "k < n" "y = ys ! k"
        by (auto simp add: in_set_conv_nth)
      with t(3) obtain tk where tk: "substeps2 ((k + 1) * nat steps) t0 = Inr tk"
        "ys ! k = (w2_u_ti tk, w2_time tk)" by blast
      from inv [of "(k + 1) * nat steps"] tk(1) have "zero_boundary2 (w2_u_ti tk)"
        by auto
      with k(2) tk(2) show ?thesis by simp
    qed
    with t(1,2)
    show "\<exists>ys t. iteration_take2 steps n t0 = Inr (ys, t) \<and> length ys = n
             \<and> (\<forall>y\<in>set ys. zero_boundary2 (fst y))"
      by blast
  }
qed

theorem boundary_samples_zero_witness:
  "(\<exists>s0 ys s. Wave1D_init exact_arith pulse_trian1d init_vel1d (1 / 2) 4 1 1 = Inr s0
       \<and> iteration_take 1 3 s0 = Inr (ys, s) \<and> length ys = 3
       \<and> (\<forall>y\<in>set ys. zero_boundary (fst y)))
   \<and> (\<exists>t0 ys t. Wave2D_init exact_arith wave_polynomial2d init_vel2d 3 3 (1 / 2) 1 1 = Inr t0
       \<and> iteration_take2 1 3 t0 = Inr (ys, t) \<and> length ys = 3
       \<and> (\<forall>y\<in>set ys. zero_boundary2 (fst y)))"
proof
  let ?s0 = "\<lparr>w1_x = [0, 1, 2, 3, 4], w1_alpha2 = 1 / 4, w1_time = 1 / 2, w1_dt = 1 / 2,
          w1_u_tim1 = [0, 0, 2 / 5, 0, 0], w1_u_ti = [0, 1 / 20, 3 / 10, 1 / 20, 0],
          w1_u_tip1 = [0, 0, 0, 0, 0]\<rparr>"
  have lf: "length (pulse_trian1d (w1_x ?s0) 4) = length (w1_x ?s0)"
    and lg: "length (init_vel1d (w1_x ?s0)) = length (w1_x ?s0)"
    by simp_all
  note T = boundary_samples_zero [of exact_arith pulse_trian1d init_vel1d "1 / 2" 4 1 1 ?s0,
      THEN conjunct1, rule_format, OF example_Wave1D_init lf lg, THEN conjunct2,
      THEN spec, THEN spec, of 1 3]
  with example_Wave1D_init
  show "\<exists>s0 ys s. Wave1D_init exact_arith pulse_trian1d init_vel1d (1 / 2) 4 1 1 = Inr s0
       \<and> iteration_take 1 3 s0 = Inr (ys, s) \<and> length ys = 3
       \<and> (\<forall>y\<in>set ys. zero_boundary (fst y))"
    by blast
next
  let ?t0 = "\<lparr>w2_x = [0, 1, 2, 3], w2_y = [0, 1, 2, 3], w2_alpha2 = 1 / 4,
          w2_time = 1 / 2, w2_dt = 1 / 2,
          w2_u_tim1 = [[0, 0, 0, 0], [0, 0, 0, 0], [0, 0, 32, 0], [0, 0, 0, 0]],
          w2_u_ti = [[0, 0, 0, 0], [0, 0, 4, 0], [0, 4, 16, 0], [0, 0, 0, 0]],
          w2_u_tip1 = [[0, 0, 0, 0], [0, 0, 0, 0], [0, 0, 0, 0], [0, 0, 0, 0]]\<rparr>"
  have sf: "has_shape2 (wave_polynomial2d (w2_x ?t0) (w2_y ?t0) 3 3)
              (length (w2_x ?t0)) (length (w2_y ?t0))"
    and sg: "has_shape2 (init_vel2d (w2_x ?t0) (w2_y ?t0))
              (length (w2_x ?t0)) (length (w2_y ?t0))"
    by (rule has_shape2_wave_polynomial2d, rule has_shape2_init_vel2d)
  note T = boundary_samples_zero [of exact_arith _ _ _ _ _ _ _ wave_polynomial2d init_vel2d 3 3
      "1 / 2" 1 1 ?t0, THEN conjunct2, rule_format, OF example_Wave2D_init sf sg,
      THEN conjunct2, THEN spec, THEN spec, of 1 3]
  with example_Wave2D_init
  show "\<exists>t0 ys t. Wave2D_init exact_arith wave_polynomial2d init_vel2d 3 3 (1 / 2) 1 1 = Inr t0
       \<and> iteration_take2 1 3 t0 = Inr (ys, t) \<and> length ys = 3
       \<and> (\<forall>y\<in>set ys. zero_boundary2 (fst y))"
    by blast
qed

section \<open>The stability check of the constructors\<close>

lemma Wave1D_init_stability:
  assumes acc: "grid_accurate u fp L dx" and u: "u < 1" and L: "0 < L" and dx: "0 < dx"
    and wf: "\<forall>x. np_arange fp 0 (fp_add fp L dx) dx = Inr x \<longrightarrow>
               length (f x L) = length x \<and> length (g x) = length x"
  shows "Wave1D_init fp f g dt L dx c = Inl UnstableConfiguration
           \<longleftrightarrow> fp_sqr fp (fp_div fp (fp_mul fp c dt) dx) > 1"
    and "\<not> fp_sqr fp (fp_div fp (fp_mul fp c dt) dx) > 1 \<Longrightarrow>
           \<exists>s. Wave1D_init fp f g dt L dx c = Inr s \<and> shaped1d s
             \<and> w1_alpha2 s = fp_sqr fp (fp_div fp (fp_mul fp c dt) dx)"
proof -
  from grid_exists [OF acc u L dx] obtain x where
    x: "np_arange fp 0 (fp_add fp L dx) dx = Inr x" and ne: "x \<noteq> []"
    by blast
  from wf x have lf: "length (f x L) = length x" and lg: "length (g x) = length x"
    by simp_all
  have ok: "\<exists>s. Wave1D_init fp f g dt L dx c = Inr s \<and> shaped1d s
             \<and> w1_alpha2 s = fp_sqr fp (fp_div fp (fp_mul fp c dt) dx)"
    if st: "\<not> fp_sqr fp (fp_div fp (fp_mul fp c dt) dx) > 1"
    using Wave1D_init_closed [where f = f and g = g, OF x st lf lg ne] lf ne
    by (simp add: shaped1d_def)
  then show "\<not> fp_sqr fp (fp_div fp (fp_mul fp c dt) dx) > 1 \<Longrightarrow>
           \<exists>s. Wave1D_init fp f g dt L dx c = Inr s \<and> shaped1d s
             \<and> w1_alpha2 s = fp_sqr fp (fp_div fp (fp_mul fp c dt) dx)" .
  show "Wave1D_init fp f g dt L dx c = Inl UnstableConfiguration
           \<longleftrightarrow> fp_sqr fp (fp_div fp (fp_mul fp c dt) dx) > 1"
  proof
    assume "Wave1D_init fp f g dt L dx c = Inl UnstableConfiguration"
    with ok show "fp_sqr fp (fp_div fp (fp_mul fp c dt) dx) > 1" by auto
  next
    assume "fp_sqr fp (fp_div fp (fp_mul fp c dt) dx) > 1"
    with dx show "Wave1D_init fp f g dt L dx c = Inl UnstableConfiguration"
      by (intro Wave1D_init_unstable) simp_all
  qed
qed


text \<open>
  The coefficients of the two examples.  Each of the three operations within a relative
  error of a hundredth (double precision is far closer) leaves the coefficient of
  \<open>c = 1, dt = 1, dx = 0.5\<close> between 3.8 and 4.3, and that of \<open>c = 1\<close> with the doubles
  next to \<open>0.001\<close> and \<open>0.005\<close> between 0.035 and 0.046.
\<close>

lemma rel_err_interval:
  fixes v w u lo hi :: real
  assumes "\<bar>v - w\<bar> \<le> u * \<bar>w\<bar>" and "0 \<le> u" and "u \<le> u0" and "u0 \<le> 1"
    and "0 \<le> lo" and "lo \<le> w" and "w \<le> hi"
  shows "(1 - u0) * lo \<le> v \<and> v \<le> (1 + u0) * hi"
proof
  have w0: "0 \<le> w" using assms(5,6) by simp
  have "(1 - u0) * lo \<le> (1 - u) * lo"
    using assms(3,5) by (simp add: mult_right_mono)
  also have "\<dots> \<le> (1 - u) * w"
    using assms(3,4,6) by (intro mult_left_mono) simp_all
  also have "\<dots> \<le> v"
    using assms(1) w0 by (simp add: rel_err_bounds)
  finally show "(1 - u0) * lo \<le> v" .
  have "v \<le> (1 + u) * w"
    using assms(1) w0 by (simp add: rel_err_bounds)
  also have "\<dots> \<le> (1 + u0) * hi"
    using assms(2,3,7) w0 by (intro mult_mono) simp_all
  finally show "v \<le> (1 + u0) * hi" .
qed


lemma coefficient_near_004:
  assumes acc: "coeff_accurate u fp 1 dt dx" and u: "u \<le> 1 / 100"
    and dt: "\<bar>dt - 1 / 1000\<bar> \<le> u * (1 / 1000)" and dx: "\<bar>dx - 5 / 1000\<bar> \<le> u * (5 / 1000)"
  defines "a \<equiv> fp_sqr fp (fp_div fp (fp_mul fp 1 dt) dx)"
  shows "0 < dx" and "0 < dt" and "35 / 1000 \<le> a" and "a \<le> 46 / 1000"
proof -
  note u0 = coeff_accurateD(1) [OF acc]
  have h: "(1 / 100 :: real) \<le> 1" by simp
  have dtb: "(1 - 1 / 100) * (1 / 1000) \<le> dt \<and> dt \<le> (1 + 1 / 100) * (1 / 1000)"
    by (rule rel_err_interval [OF _ u0 u h, where w = "1 / 1000"]) (use dt in simp_all)
  have dxb: "(1 - 1 / 100) * (5 / 1000) \<le> dx \<and> dx \<le> (1 + 1 / 100) * (5 / 1000)"
    by (rule rel_err_interval [OF _ u0 u h, where w = "5 / 1000"]) (use dx in simp_all)
  show dx0: "0 < dx" using dxb by simp
  show "0 < dt" using dtb by simp
  define m where "m = fp_mul fp 1 dt"
  have m: "(1 - 1 / 100) * (99 / 100000) \<le> m \<and> m \<le> (1 + 1 / 100) * (101 / 100000)"
    unfolding m_def
    by (rule rel_err_interval [OF coeff_accurateD(2) [OF acc] u0 u h]) (use dtb in simp_all)
  have q: "19 / 100 \<le> m / dx" "m / dx \<le> 21 / 100"
    using m dxb dx0 by (simp_all add: field_simps)
  define v where "v = fp_div fp m dx"
  have v: "(1 - 1 / 100) * (19 / 100) \<le> v \<and> v \<le> (1 + 1 / 100) * (21 / 100)"
    unfolding v_def m_def
    by (rule rel_err_interval [OF coeff_accurateD(3) [OF acc] u0 u h])
       (use q in \<open>simp_all add: m_def\<close>)
  have v0: "0 \<le> v" using v by simp
  have lo: "(1881 / 10000)\<^sup>2 \<le> v\<^sup>2"
    using v by (intro power_mono) simp_all
  have hi: "v\<^sup>2 \<le> (2121 / 10000)\<^sup>2"
    using v v0 by (intro power_mono) simp_all
  have a: "(1 - 1 / 100) * (1881 / 10000)\<^sup>2 \<le> a \<and> a \<le> (1 + 1 / 100) * (2121 / 10000)\<^sup>2"
    unfolding a_def
    by (rule rel_err_interval [OF _ u0 u h, where w = "v\<^sup>2"])
       (use lo hi coeff_accurateD(4) [OF acc] in \<open>simp_all add: v_def m_def\<close>)
  show "35 / 1000 \<le> a"
    using a by (simp add: power2_eq_square)
  show "a \<le> 46 / 1000"
    using a by (simp add: power2_eq_square)
qed



section \<open>The bootstrap of the one-dimensional stepper\<close>

text \<open>
  Claim C4.  When the one-dimensional constructor succeeds (its initial-condition
  functions returning arrays of the shape of the grid), \<open>prev\<close> is \<open>f(grid, L)\<close> with its
  first and last sample set to 0; \<open>curr\<close> is the boundary reset of the array whose sample
  \<open>i\<close> is \<open>dt g[i] + (1 - alpha2) prev[i] + 0.5 alpha2 (prev[i-1] + prev[i+1])\<close> for every
  index \<open>i\<close> of the grid, with both neighbour indices taken modulo the length (so index
  \<open>-1\<close> is the last sample and index \<open>N\<close> the first); the clock is \<open>0 + dt\<close>; and \<open>next\<close> is
  the zero array of the shape of \<open>curr\<close>.
\<close>

theorem Wave1D_bootstrap:
  assumes init: "Wave1D_init fp u_x0 ut_x0 dt L dx c = Inr s"
    and lf: "length (u_x0 (w1_x s) L) = length (w1_x s)"
    and lg: "length (ut_x0 (w1_x s)) = length (w1_x s)"
  shows "w1_u_tim1 s = ((u_x0 (w1_x s) L)[0 := 0])[length (w1_x s) - 1 := 0]
    \<and> bound_standing (u_x0 (w1_x s) L) = Inr (w1_u_tim1 s)
    \<and> bound_standing
         (map (\<lambda>i. dt * (ut_x0 (w1_x s) ! i) + (1 - fp_sqr fp (fp_div fp (fp_mul fp c dt) dx)) * (w1_u_tim1 s ! i)
                + 0.5 * fp_sqr fp (fp_div fp (fp_mul fp c dt) dx)
                  * (w1_u_tim1 s ! ((i + length (w1_x s) - 1) mod length (w1_x s))
                     + w1_u_tim1 s ! ((i + 1) mod length (w1_x s))))
            [0..<length (w1_x s)])
        = Inr (w1_u_ti s)
    \<and> (\<forall>i. 0 < i \<and> i < length (w1_x s) - 1 \<longrightarrow>
          w1_u_ti s ! i =
            dt * (ut_x0 (w1_x s) ! i) + (1 - fp_sqr fp (fp_div fp (fp_mul fp c dt) dx)) * (w1_u_tim1 s ! i)
            + 0.5 * fp_sqr fp (fp_div fp (fp_mul fp c dt) dx) * (w1_u_tim1 s ! (i - 1) + w1_u_tim1 s ! (i + 1)))
    \<and> w1_u_ti s ! 0 = 0 \<and> w1_u_ti s ! (length (w1_x s) - 1) = 0
    \<and> w1_time s = 0 + dt
    \<and> w1_u_tip1 s = np_zeros (length (w1_u_ti s))
    \<and> length (w1_u_ti s) = length (w1_x s)"
proof -
  define n where "n = length (w1_x s)"
  define a where "a = fp_sqr fp (fp_div fp (fp_mul fp c dt) dx)"
  define prv where "prv = ((u_x0 (w1_x s) L)[0 := 0])[n - 1 := 0]"
  define u where "u = map (\<lambda>i. dt * (ut_x0 (w1_x s) ! i) + (1 - a) * (prv ! i)
                    + 0.5 * a * (prv ! ((i + n - 1) mod n) + prv ! ((i + 1) mod n)))
                  [0..<n]"
  note f = Wave1D_init_fields [OF init lf lg, folded n_def a_def, folded prv_def,
      folded u_def]
  have n: "0 < n" using f(1) by (simp add: n_def)
  have lu: "length u = n" by (simp add: u_def)
  have p: "w1_u_tim1 s = ((u_x0 (w1_x s) L)[0 := 0])[n - 1 := 0]"
    using f(5) by (simp add: prv_def)
  have b0: "bound_standing (u_x0 (w1_x s) L) = Inr (w1_u_tim1 s)"
    using n lf unfolding p by (auto simp add: bound_standing_def n_def)
  have b1: "bound_standing u = Inr (w1_u_ti s)"
    using n lu unfolding f(6) by (auto simp add: bound_standing_def)
  have inner: "w1_u_ti s ! i = dt * (ut_x0 (w1_x s) ! i) + (1 - a) * (prv ! i)
            + 0.5 * a * (prv ! (i - 1) + prv ! (i + 1))" if "0 < i \<and> i < n - 1" for i
  proof -
    from that have i: "0 < i" "i < n - 1" "i < n" by auto
    then have m1: "(i + n - 1) mod n = i - 1" and m2: "(i + 1) mod n = i + 1"
      by (simp_all add: mod_if)
    have "w1_u_ti s ! i = u ! i"
      unfolding f(6) using i by simp
    also have "\<dots> = dt * (ut_x0 (w1_x s) ! i) + (1 - a) * (prv ! i)
            + 0.5 * a * (prv ! ((i + n - 1) mod n) + prv ! ((i + 1) mod n))"
      using i(3) by (simp add: u_def)
    finally show ?thesis unfolding m1 m2 .
  qed
  have z: "w1_u_ti s ! 0 = 0" "w1_u_ti s ! (n - 1) = 0"
    unfolding f(6) using n lu by (simp_all add: nth_list_update)
  have t: "w1_time s = 0 + dt" using f(3) by simp
  have l: "length (w1_u_ti s) = n" unfolding f(6) using lu by simp
  have nx: "w1_u_tip1 s = np_zeros (length (w1_u_ti s))"
    unfolding l f(7) by (simp add: np_zeros_def)
  from p b0 b1 inner z t nx l show ?thesis
    unfolding u_def f(5) [symmetric] n_def a_def by blast
qed

theorem Wave1D_bootstrap_witness:
  "\<exists>s. Wave1D_init exact_arith pulse_trian1d init_vel1d (1 / 2) 4 1 1 = Inr s
     \<and> bound_standing (pulse_trian1d [0, 1, 2, 3, 4] 4) = Inr (w1_u_tim1 s)
     \<and> w1_u_ti s ! 2 = 1 / 2 * 0 + (1 - 1 / 4) * (2 / 5) + 1 / 2 * (1 / 4) * (0 + 0)
     \<and> w1_time s = 1 / 2 \<and> w1_u_tip1 s = np_zeros 5"
proof -
  let ?s0 = "\<lparr>w1_x = [0, 1, 2, 3, 4], w1_alpha2 = 1 / 4, w1_time = 1 / 2, w1_dt = 1 / 2,
          w1_u_tim1 = [0, 0, 2 / 5, 0, 0], w1_u_ti = [0, 1 / 20, 3 / 10, 1 / 20, 0],
          w1_u_tip1 = [0, 0, 0, 0, 0]\<rparr>"
  have lf: "length (pulse_trian1d (w1_x ?s0) 4) = length (w1_x ?s0)"
    and lg: "length (init_vel1d (w1_x ?s0)) = length (w1_x ?s0)"
    by simp_all
  note T = Wave1D_bootstrap [OF example_Wave1D_init lf lg]
  from T have b: "bound_standing (pulse_trian1d (w1_x ?s0) 4) = Inr (w1_u_tim1 ?s0)"
    by blast
  from T have "\<forall>i. 0 < i \<and> i < length (w1_x ?s0) - 1 \<longrightarrow>
          w1_u_ti ?s0 ! i =
            1 / 2 * (init_vel1d (w1_x ?s0) ! i)
            + (1 - fp_sqr exact_arith (fp_div exact_arith (fp_mul exact_arith 1 (1 / 2)) 1)) * (w1_u_tim1 ?s0 ! i)
            + 0.5 * fp_sqr exact_arith (fp_div exact_arith (fp_mul exact_arith 1 (1 / 2)) 1) * (w1_u_tim1 ?s0 ! (i - 1) + w1_u_tim1 ?s0 ! (i + 1))"
    by blast
  from this [rule_format, of 2]
  have u: "w1_u_ti ?s0 ! 2 = 1 / 2 * 0 + (1 - 1 / 4) * (2 / 5) + 1 / 2 * (1 / 4) * (0 + 0)"
    by (simp add: power2_eq_square init_vel1d_def np_zeros_def)
  from T have t: "w1_time ?s0 = 0 + 1 / 2"
    and z: "w1_u_tip1 ?s0 = np_zeros (length (w1_u_ti ?s0))"
    by blast+
  have five: "length (w1_u_ti ?s0) = 5" by simp
  from example_Wave1D_init b u t z [unfolded five] show ?thesis
    by (intro exI [of _ ?s0]) simp
qed

section \<open>The wraparound lookup against neighbours fixed to zero\<close>

lemma Wave1D_init_nb_roll_sum: "Wave1D_init_nb fp roll_sum = Wave1D_init fp"
  by (intro ext) (simp add: Wave1D_init_nb_def Wave1D_init_def)

lemma substep_nb_roll_sum: "substep_nb roll_sum = substep"
  by (intro ext) (simp add: substep_nb_def substep_def)

lemma Wave2D_init_nb_roll_sum2: "Wave2D_init_nb fp roll_sum2 = Wave2D_init fp"
  by (intro ext) (simp add: Wave2D_init_nb_def Wave2D_init_def)

lemma substep2_nb_roll_sum2: "substep2_nb roll_sum2 = substep2"
  by (intro ext) (simp add: substep2_nb_def substep2_def)

lemma length_np_roll_padded [simp]: "length (np_roll_padded z a k) = length a"
  by (simp add: np_roll_padded_def)

lemma nth_np_roll_padded_fwd:
  "i < length a \<Longrightarrow> np_roll_padded z a 1 ! i = (if i = 0 then z else a ! (i - 1))"
  by (auto simp add: np_roll_padded_def nat_diff_distrib')

lemma nth_np_roll_padded_bwd:
  "i < length a \<Longrightarrow>
   np_roll_padded z a (- 1) ! i = (if i + 1 = length a then z else a ! (i + 1))"
  by (auto simp add: np_roll_padded_def nat_add_distrib)

lemma roll_sum_padded_closed:
  "roll_sum_padded u =
     Inr (map (\<lambda>i. (if i = 0 then 0 else u ! (i - 1))
                   + (if i + 1 = length u then 0 else u ! (i + 1))) [0..<length u])"
proof -
  have "map2 (+) (np_roll_padded 0 u 1) (np_roll_padded 0 u (- 1)) =
        map (\<lambda>i. (if i = 0 then 0 else u ! (i - 1))
                   + (if i + 1 = length u then 0 else u ! (i + 1))) [0..<length u]"
    by (rule nth_equalityI) (simp_all add: nth_np_roll_padded_fwd nth_np_roll_padded_bwd)
  then show ?thesis
    by (simp add: roll_sum_padded_def np_add_same)
qed

lemma roll_sum_padded_eq:
  assumes "zero_boundary b"
  shows "roll_sum_padded b = roll_sum b"
proof -
  from assms have ne: "b \<noteq> []" and h: "b ! 0 = 0" and l: "b ! (length b - 1) = 0"
    by (auto simp add: zero_boundary_def hd_conv_nth last_conv_nth)
  have "(if i = 0 then 0 else b ! (i - 1)) + (if i + 1 = length b then 0 else b ! (i + 1))
        = b ! ((i + length b - 1) mod length b) + b ! ((i + 1) mod length b)"
    if "i < length b" for i
  proof -
    have "(if i = 0 then 0 else b ! (i - 1)) = b ! ((i + length b - 1) mod length b)"
      using that l by (cases "i = 0") (simp_all add: mod_if)
    moreover have "(if i + 1 = length b then 0 else b ! (i + 1)) = b ! ((i + 1) mod length b)"
      using that h by (cases "i + 1 = length b") (simp_all add: mod_if)
    ultimately show ?thesis by simp
  qed
  then show ?thesis
    unfolding roll_sum_padded_closed roll_sum_closed by simp
qed

lemma bound_standing_zero_boundary:
  assumes "bound_standing a = Inr b"
  shows "zero_boundary b"
proof -
  from assms have "a \<noteq> []" and b: "b = (a[0 := 0])[length a - 1 := 0]"
    by (simp_all add: bound_standing_Inr)
  from this(1) show ?thesis
    unfolding b by (rule zero_boundary_reset)
qed

lemma Wave1D_init_padded_eq:
  "Wave1D_init_nb fp roll_sum_padded u_x0 ut_x0 dt L dx c = Wave1D_init fp u_x0 ut_x0 dt L dx c"
proof (cases "np_arange fp 0 (fp_add fp L dx) dx")
  case (Inl e)
  then show ?thesis
    by (simp add: Wave1D_init_nb_def Wave1D_init_def)
next
  case x: (Inr x)
  show ?thesis
  proof (cases "bound_standing (u_x0 x L)")
    case (Inl e)
    then show ?thesis
      using x by (simp add: Wave1D_init_nb_def Wave1D_init_def Let_def cong: if_cong)
  next
    case (Inr b)
    then have "roll_sum_padded b = roll_sum b"
      by (intro roll_sum_padded_eq bound_standing_zero_boundary)
    then show ?thesis
      using x Inr by (simp add: Wave1D_init_nb_def Wave1D_init_def Let_def cong: if_cong)
  qed
qed

lemma reset_cong:
  assumes "\<And>i. 0 < i \<Longrightarrow> i < n - 1 \<Longrightarrow> h i = k i"
  shows "((map h [0..<n])[0 := (0::real)])[n - 1 := 0] = ((map k [0..<n])[0 := 0])[n - 1 := 0]"
proof (rule nth_equalityI)
  show "length ((map h [0..<n])[0 := 0, n - 1 := 0]) = length ((map k [0..<n])[0 := 0, n - 1 := 0])"
    by simp
next
  fix i assume "i < length ((map h [0..<n])[0 := 0, n - 1 := 0])"
  then have i: "i < n" by simp
  show "(map h [0..<n])[0 := 0, n - 1 := 0] ! i = (map k [0..<n])[0 := 0, n - 1 := 0] ! i"
  proof (cases "i = 0 \<or> i = n - 1")
    case True
    then show ?thesis using i by (auto simp add: nth_list_update)
  next
    case False
    with i have "0 < i" "i < n - 1" by auto
    with assms have "h i = k i" by simp
    with False i show ?thesis by (simp add: nth_list_update)
  qed
qed

lemma substep_nb_closed:
  assumes len: "length (w1_u_tim1 s) = length (w1_u_ti s)" and ne: "w1_u_ti s \<noteq> []"
    and nb: "nbsum (w1_u_ti s) = Inr (map nbf [0..<length (w1_u_ti s)])"
  defines "n \<equiv> length (w1_u_ti s)"
  defines "u \<equiv> map (\<lambda>i. - (w1_u_tim1 s ! i) + 2 * (1 - w1_alpha2 s) * (w1_u_ti s ! i)
                    + w1_alpha2 s * nbf i) [0..<n]"
  shows "substep_nb nbsum s =
           Inr (s\<lparr>w1_time := w1_time s + w1_dt s, w1_u_tim1 := w1_u_ti s,
                  w1_u_ti := (u[0 := 0])[n - 1 := 0], w1_u_tip1 := (u[0 := 0])[n - 1 := 0]\<rparr>)"
proof -
  have t12: "np_add (np_neg (w1_u_tim1 s)) (np_scale (2 * (1 - w1_alpha2 s)) (w1_u_ti s)) =
      Inr (map (\<lambda>i. - (w1_u_tim1 s ! i) + 2 * (1 - w1_alpha2 s) * (w1_u_ti s ! i)) [0..<n])"
    (is "_ = Inr ?t12")
    using len by (simp add: np_add_same np_neg_def np_scale_def map2_as_nth n_def)
  have u: "np_add ?t12 (np_scale (w1_alpha2 s) (map nbf [0..<n])) = Inr u"
    by (simp add: np_add_same np_scale_def map2_as_nth u_def)
  have "u \<noteq> []"
    using ne by (simp add: u_def n_def)
  then have b: "bound_standing u = Inr ((u[0 := 0])[n - 1 := 0])"
    by (simp add: bound_standing_closed u_def)
  show ?thesis
    unfolding substep_nb_def nb n_def [symmetric] t12 bind_err_Inr u b
    by (simp add: time_update_def)
qed

lemma substep_padded_eq:
  assumes "shaped1d s"
  shows "substep_nb roll_sum_padded s = substep s"
proof -
  from assms have len: "length (w1_u_tim1 s) = length (w1_u_ti s)" and ne: "w1_u_ti s \<noteq> []"
    by (simp_all add: shaped1d_def)
  define n where "n = length (w1_u_ti s)"
  have eq: "((map (\<lambda>i. - (w1_u_tim1 s ! i) + 2 * (1 - w1_alpha2 s) * (w1_u_ti s ! i)
                    + w1_alpha2 s * ((if i = 0 then 0 else w1_u_ti s ! (i - 1))
                   + (if i + 1 = n then 0 else w1_u_ti s ! (i + 1)))) [0..<n])[0 := 0])
              [n - 1 := 0]
     = ((map (\<lambda>i. - (w1_u_tim1 s ! i) + 2 * (1 - w1_alpha2 s) * (w1_u_ti s ! i)
                    + w1_alpha2 s * (w1_u_ti s ! ((i + n - 1) mod n)
                   + w1_u_ti s ! ((i + 1) mod n))) [0..<n])[0 := 0])
              [n - 1 := 0]"
  proof (rule reset_cong)
    fix i assume "0 < i" and "i < n - 1"
    then have i: "i \<noteq> 0" "i + 1 \<noteq> n" and j: "0 < i" "i < n - 1" "i < n"
      by auto
    from j have m1: "(i + n - 1) mod n = i - 1" and m2: "(i + 1) mod n = i + 1"
      by (simp_all add: mod_if)
    show "- (w1_u_tim1 s ! i) + 2 * (1 - w1_alpha2 s) * (w1_u_ti s ! i)
          + w1_alpha2 s * ((if i = 0 then 0 else w1_u_ti s ! (i - 1))
              + (if i + 1 = n then 0 else w1_u_ti s ! (i + 1)))
        = - (w1_u_tim1 s ! i) + 2 * (1 - w1_alpha2 s) * (w1_u_ti s ! i)
          + w1_alpha2 s * (w1_u_ti s ! ((i + n - 1) mod n) + w1_u_ti s ! ((i + 1) mod n))"
      unfolding m1 m2 using i(1,2) by simp
  qed
  have "substep_nb roll_sum_padded s = substep_nb roll_sum s"
    unfolding substep_nb_closed [where nbsum = roll_sum_padded, OF len ne roll_sum_padded_closed]
      substep_nb_closed [where nbsum = roll_sum, OF len ne roll_sum_closed]
      n_def [symmetric] eq ..
  then show ?thesis
    by (simp add: substep_nb_roll_sum)
qed

lemma np_roll_padded_map_fwd:
  "np_roll_padded z (map f [0..<n]) 1 = map (\<lambda>i. if i = 0 then z else f (i - 1)) [0..<n]"
  by (rule nth_equalityI) (simp_all add: nth_np_roll_padded_fwd)

lemma np_roll_padded_map_bwd:
  "np_roll_padded z (map f [0..<n]) (- 1) =
     map (\<lambda>i. if i + 1 = n then z else f (i + 1)) [0..<n]"
  by (rule nth_equalityI) (simp_all add: nth_np_roll_padded_bwd)

lemma hd_tabulate2: "0 < r \<Longrightarrow> hd (tabulate2 r m h) = map (h 0) [0..<m]"
  by (simp add: tabulate2_def hd_map upt_conv_Cons)

lemma roll_sum2_padded_tabulate2:
  assumes r: "0 < r"
  shows "roll_sum2_padded (tabulate2 r m h) =
     Inr (tabulate2 r m (\<lambda>i j. (if i = 0 then 0 else h (i - 1) j)
                               + (if i + 1 = r then 0 else h (i + 1) j)
                               + (if j = 0 then 0 else h i (j - 1))
                               + (if j + 1 = m then 0 else h i (j + 1))))"
proof -
  have z: "np_zeros (length (hd (tabulate2 r m h))) = map (\<lambda>j. 0) [0..<m]"
    using r by (simp add: hd_tabulate2 np_zeros_def map_replicate_const)
  have a0: "np_roll_padded (map (\<lambda>j. 0) [0..<m]) (tabulate2 r m h) 1 =
      tabulate2 r m (\<lambda>i j. if i = 0 then 0 else h (i - 1) j)"
    unfolding tabulate2_def np_roll_padded_map_fwd
    by (rule map_cong) simp_all
  have a1: "np_roll_padded (map (\<lambda>j. 0) [0..<m]) (tabulate2 r m h) (- 1) =
      tabulate2 r m (\<lambda>i j. if i + 1 = r then 0 else h (i + 1) j)"
    unfolding tabulate2_def np_roll_padded_map_bwd
    by (rule map_cong) simp_all
  have b0: "map (\<lambda>row. np_roll_padded 0 row 1) (tabulate2 r m h) =
      tabulate2 r m (\<lambda>i j. if j = 0 then 0 else h i (j - 1))"
    by (simp add: tabulate2_def np_roll_padded_map_fwd)
  have b1: "map (\<lambda>row. np_roll_padded 0 row (- 1)) (tabulate2 r m h) =
      tabulate2 r m (\<lambda>i j. if j + 1 = m then 0 else h i (j + 1))"
    by (simp add: tabulate2_def np_roll_padded_map_bwd)
  show ?thesis
    unfolding roll_sum2_padded_def z a0 a1 b0 b1 np_add2_tabulate2 bind_err_Inr ..
qed

lemma substep2_nb_closed:
  assumes P: "has_shape2 (w2_u_tim1 s) r m" and C: "has_shape2 (w2_u_ti s) r m"
    and r: "0 < r" and m: "0 < m"
    and nb: "nbsum (w2_u_ti s) = Inr (tabulate2 r m nbf)"
  defines "a \<equiv> w2_alpha2 s"
  defines "u \<equiv> tabulate2 r m (\<lambda>i j.
      if i = 0 \<or> i = r - 1 \<or> j = 0 \<or> j = m - 1 then 0
      else - (w2_u_tim1 s ! i ! j) + 2 * (1 - 2 * a) * (w2_u_ti s ! i ! j) + a * nbf i j)"
  shows "substep2_nb nbsum s =
           Inr (s\<lparr>w2_time := w2_time s + w2_dt s, w2_u_tim1 := w2_u_ti s,
                  w2_u_ti := u, w2_u_tip1 := u\<rparr>)"
proof -
  define p where "p = (\<lambda>i j. w2_u_tim1 s ! i ! j)"
  define q where "q = (\<lambda>i j. w2_u_ti s ! i ! j)"
  have pe: "w2_u_tim1 s = tabulate2 r m p"
    unfolding p_def using P by (rule has_shape2_as_tabulate2)
  have qe: "w2_u_ti s = tabulate2 r m q"
    unfolding q_def using C by (rule has_shape2_as_tabulate2)
  have t12: "np_add2 (np_neg2 (w2_u_tim1 s)) (np_scale2 (2 * (1 - 2 * a)) (w2_u_ti s)) =
      Inr (tabulate2 r m (\<lambda>i j. - p i j + 2 * (1 - 2 * a) * q i j))"
    unfolding pe qe np_neg2_tabulate2 np_scale2_tabulate2 by (rule np_add2_tabulate2)
  have pre: "np_add2 (tabulate2 r m (\<lambda>i j. - p i j + 2 * (1 - 2 * a) * q i j))
       (np_scale2 a (tabulate2 r m nbf)) =
      Inr (tabulate2 r m (\<lambda>i j. - p i j + 2 * (1 - 2 * a) * q i j + a * nbf i j))"
    unfolding np_scale2_tabulate2 by (rule np_add2_tabulate2)
  have b: "bound_standing2 (tabulate2 r m (\<lambda>i j. - p i j + 2 * (1 - 2 * a) * q i j
              + a * nbf i j)) = Inr u"
    unfolding u_def p_def q_def using r m by (rule bound_standing2_tabulate2)
  show ?thesis
    unfolding substep2_nb_def a_def [symmetric] nb bind_err_Inr t12 pre b
    by (simp add: time_update2_def)
qed

lemma substep2_padded_eq:
  assumes "shaped2d s r m"
  shows "substep2_nb roll_sum2_padded s = substep2 s"
proof -
  from assms have P: "has_shape2 (w2_u_tim1 s) r m" and C: "has_shape2 (w2_u_ti s) r m"
    and r: "0 < r" and m: "0 < m"
    by (simp_all add: shaped2d_def)
  define q where "q = (\<lambda>i j. w2_u_ti s ! i ! j)"
  have qe: "w2_u_ti s = tabulate2 r m q"
    unfolding q_def using C by (rule has_shape2_as_tabulate2)
  have nbp: "roll_sum2_padded (w2_u_ti s) =
      Inr (tabulate2 r m (\<lambda>i j. (if i = 0 then 0 else q (i - 1) j)
                               + (if i + 1 = r then 0 else q (i + 1) j)
                               + (if j = 0 then 0 else q i (j - 1))
                               + (if j + 1 = m then 0 else q i (j + 1))))"
    unfolding qe using r by (rule roll_sum2_padded_tabulate2)
  have nbc: "roll_sum2 (w2_u_ti s) =
      Inr (tabulate2 r m (\<lambda>i j. q ((i + r - 1) mod r) j + q ((i + 1) mod r) j
                               + q i ((j + m - 1) mod m) + q i ((j + 1) mod m)))"
    unfolding qe by (rule roll_sum2_tabulate2)
  have eq: "tabulate2 r m (\<lambda>i j.
      if i = 0 \<or> i = r - 1 \<or> j = 0 \<or> j = m - 1 then 0
      else - (w2_u_tim1 s ! i ! j) + 2 * (1 - 2 * w2_alpha2 s) * (w2_u_ti s ! i ! j)
           + w2_alpha2 s * ((if i = 0 then 0 else q (i - 1) j)
                               + (if i + 1 = r then 0 else q (i + 1) j)
                               + (if j = 0 then 0 else q i (j - 1))
                               + (if j + 1 = m then 0 else q i (j + 1))))
    = tabulate2 r m (\<lambda>i j.
      if i = 0 \<or> i = r - 1 \<or> j = 0 \<or> j = m - 1 then 0
      else - (w2_u_tim1 s ! i ! j) + 2 * (1 - 2 * w2_alpha2 s) * (w2_u_ti s ! i ! j)
           + w2_alpha2 s * (q ((i + r - 1) mod r) j + q ((i + 1) mod r) j
                               + q i ((j + m - 1) mod m) + q i ((j + 1) mod m)))"
  proof (rule tabulate2_cong)
    fix i j assume ij: "i < r" "j < m"
    show "(if i = 0 \<or> i = r - 1 \<or> j = 0 \<or> j = m - 1 then 0
      else - (w2_u_tim1 s ! i ! j) + 2 * (1 - 2 * w2_alpha2 s) * (w2_u_ti s ! i ! j)
           + w2_alpha2 s * ((if i = 0 then 0 else q (i - 1) j)
                               + (if i + 1 = r then 0 else q (i + 1) j)
                               + (if j = 0 then 0 else q i (j - 1))
                               + (if j + 1 = m then 0 else q i (j + 1))))
      = (if i = 0 \<or> i = r - 1 \<or> j = 0 \<or> j = m - 1 then 0
      else - (w2_u_tim1 s ! i ! j) + 2 * (1 - 2 * w2_alpha2 s) * (w2_u_ti s ! i ! j)
           + w2_alpha2 s * (q ((i + r - 1) mod r) j + q ((i + 1) mod r) j
                               + q i ((j + m - 1) mod m) + q i ((j + 1) mod m)))"
    proof (cases "i = 0 \<or> i = r - 1 \<or> j = 0 \<or> j = m - 1")
      case True
      then show ?thesis by simp
    next
      case False
      with ij have i: "0 < i" "i < r - 1" "i < r" and j: "0 < j" "j < m - 1" "j < m"
        by auto
      then have m1: "(i + r - 1) mod r = i - 1" and m2: "(i + 1) mod r = i + 1"
        and m3: "(j + m - 1) mod m = j - 1" and m4: "(j + 1) mod m = j + 1"
        by (simp_all add: mod_if)
      from i j have ne: "i \<noteq> 0" "i + 1 \<noteq> r" "j \<noteq> 0" "j + 1 \<noteq> m"
        by auto
      show ?thesis
        unfolding m1 m2 m3 m4 using ne by simp
    qed
  qed
  have "substep2_nb roll_sum2_padded s = substep2_nb roll_sum2 s"
    unfolding substep2_nb_closed [where nbsum = roll_sum2_padded, OF P C r m nbp]
      substep2_nb_closed [where nbsum = roll_sum2, OF P C r m nbc] eq ..
  then show ?thesis
    by (simp add: substep2_nb_roll_sum2)
qed

lemma roll_sum2_padded_eq:
  fixes h :: "nat \<Rightarrow> nat \<Rightarrow> real"
  assumes r: "0 < r" and m: "0 < m"
  defines "k \<equiv> \<lambda>i j. if i = 0 \<or> i = r - 1 \<or> j = 0 \<or> j = m - 1 then (0::real) else h i j"
  shows "roll_sum2_padded (tabulate2 r m k) = roll_sum2 (tabulate2 r m k)"
proof -
  have "tabulate2 r m (\<lambda>i j. (if i = 0 then 0 else k (i - 1) j)
                               + (if i + 1 = r then 0 else k (i + 1) j)
                               + (if j = 0 then 0 else k i (j - 1))
                               + (if j + 1 = m then 0 else k i (j + 1)))
      = tabulate2 r m (\<lambda>i j. k ((i + r - 1) mod r) j + k ((i + 1) mod r) j
                               + k i ((j + m - 1) mod m) + k i ((j + 1) mod m))"
  proof (rule tabulate2_cong)
    fix i j assume ij: "i < r" "j < m"
    have e1: "(if i = 0 then 0 else k (i - 1) j) = k ((i + r - 1) mod r) j"
      using ij by (cases "i = 0") (simp_all add: mod_if k_def)
    have e2: "(if i + 1 = r then 0 else k (i + 1) j) = k ((i + 1) mod r) j"
      using ij by (cases "i + 1 = r") (simp_all add: mod_if k_def)
    have e3: "(if j = 0 then 0 else k i (j - 1)) = k i ((j + m - 1) mod m)"
      using ij by (cases "j = 0") (simp_all add: mod_if k_def)
    have e4: "(if j + 1 = m then 0 else k i (j + 1)) = k i ((j + 1) mod m)"
      using ij by (cases "j + 1 = m") (simp_all add: mod_if k_def)
    show "(if i = 0 then 0 else k (i - 1) j)
            + (if i + 1 = r then 0 else k (i + 1) j)
            + (if j = 0 then 0 else k i (j - 1))
            + (if j + 1 = m then 0 else k i (j + 1))
          = k ((i + r - 1) mod r) j + k ((i + 1) mod r) j
            + k i ((j + m - 1) mod m) + k i ((j + 1) mod m)"
      unfolding e1 e2 e3 e4 ..
  qed
  then show ?thesis
    unfolding roll_sum2_padded_tabulate2 [OF r] roll_sum2_tabulate2 by simp
qed

lemma Wave2D_init_padded_eq:
  assumes wf: "\<forall>x y. np_arange fp 0 (fp_add fp Lx dxy) dxy = Inr x \<and> np_arange fp 0 (fp_add fp Ly dxy) dxy = Inr y
               \<longrightarrow> has_shape2 (f x y Lx Ly) (length x) (length y)"
  shows "Wave2D_init_nb fp roll_sum2_padded f g Lx Ly dt dxy c = Wave2D_init fp f g Lx Ly dt dxy c"
proof (cases "np_arange fp 0 (fp_add fp Lx dxy) dxy")
  case (Inl e)
  then show ?thesis
    by (simp add: Wave2D_init_nb_def Wave2D_init_def)
next
  case x: (Inr x)
  show ?thesis
  proof (cases "np_arange fp 0 (fp_add fp Ly dxy) dxy")
    case (Inl e)
    then show ?thesis
      using x by (simp add: Wave2D_init_nb_def Wave2D_init_def)
  next
    case y: (Inr y)
    from wf x y have sf: "has_shape2 (f x y Lx Ly) (length x) (length y)"
      by simp
    show ?thesis
    proof (cases "bound_standing2 (f x y Lx Ly)")
      case (Inl e)
      then show ?thesis
        using x y by (simp add: Wave2D_init_nb_def Wave2D_init_def Let_def cong: if_cong)
    next
      case (Inr b)
      note pos = bound_standing2_InrD [OF Inr sf]
      have "f x y Lx Ly = tabulate2 (length x) (length y) (\<lambda>i j. f x y Lx Ly ! i ! j)"
        using sf by (rule has_shape2_as_tabulate2)
      then have "bound_standing2 (f x y Lx Ly) =
          Inr (tabulate2 (length x) (length y) (\<lambda>i j.
                 if i = 0 \<or> i = length x - 1 \<or> j = 0 \<or> j = length y - 1 then 0
                 else f x y Lx Ly ! i ! j))"
        using bound_standing2_tabulate2 [OF pos, of "\<lambda>i j. f x y Lx Ly ! i ! j"] by simp
      with Inr have b: "b = tabulate2 (length x) (length y) (\<lambda>i j.
                 if i = 0 \<or> i = length x - 1 \<or> j = 0 \<or> j = length y - 1 then 0
                 else f x y Lx Ly ! i ! j)"
        by simp
      have "roll_sum2_padded b = roll_sum2 b"
        unfolding b using pos by (rule roll_sum2_padded_eq)
      then show ?thesis
        using x y Inr by (simp add: Wave2D_init_nb_def Wave2D_init_def Let_def cong: if_cong)
    qed
  qed
qed

text \<open>
  Claim C5.  Replacing the circular neighbour lookup by one whose out-of-domain
  neighbours are 0 changes nothing: the one-dimensional constructor returns the same
  result for all arguments, the two-dimensional constructor returns the same result when
  the initial-position function returns an array of the shape of the grid, and a sub-step
  of either stepper returns the same state, both from any state whose two live levels are
  non-empty and of one shape and, in particular, from every state of a constructed
  stepper.  So after the boundary reset no sample differs, the second-from-boundary
  samples of the bootstrap step included: the samples that wrap around are boundary
  samples of an array that has been reset, or they only reach boundary samples that the
  reset overwrites.
\<close>

theorem wraparound_masked_by_boundary_reset:
  "Wave1D_init_nb fp roll_sum_padded u_x0 ut_x0 dt L dx c = Wave1D_init fp u_x0 ut_x0 dt L dx c
   \<and> (shaped1d s \<longrightarrow> substep_nb roll_sum_padded s = substep s)
   \<and> (Wave1D_init fp u_x0 ut_x0 dt L dx c = Inr s0
        \<longrightarrow> length (u_x0 (w1_x s0) L) = length (w1_x s0)
        \<longrightarrow> length (ut_x0 (w1_x s0)) = length (w1_x s0)
        \<longrightarrow> (\<forall>k. \<exists>sk. substeps k s0 = Inr sk
               \<and> substep_nb roll_sum_padded sk = substep sk))
   \<and> ((\<forall>x y. np_arange fp 0 (fp_add fp Lx dxy) dxy = Inr x \<and> np_arange fp 0 (fp_add fp Ly dxy) dxy = Inr y
               \<longrightarrow> has_shape2 (u_xy0 x y Lx Ly) (length x) (length y))
        \<longrightarrow> Wave2D_init_nb fp roll_sum2_padded u_xy0 ut_xy0 Lx Ly dt' dxy c'
              = Wave2D_init fp u_xy0 ut_xy0 Lx Ly dt' dxy c')
   \<and> (shaped2d t r m \<longrightarrow> substep2_nb roll_sum2_padded t = substep2 t)
   \<and> (Wave2D_init fp u_xy0 ut_xy0 Lx Ly dt' dxy c' = Inr t0
        \<longrightarrow> has_shape2 (u_xy0 (w2_x t0) (w2_y t0) Lx Ly) (length (w2_x t0)) (length (w2_y t0))
        \<longrightarrow> has_shape2 (ut_xy0 (w2_x t0) (w2_y t0)) (length (w2_x t0)) (length (w2_y t0))
        \<longrightarrow> (\<forall>k. \<exists>tk. substeps2 k t0 = Inr tk
               \<and> substep2_nb roll_sum2_padded tk = substep2 tk))"
proof (intro conjI impI allI)
  show "Wave1D_init_nb fp roll_sum_padded u_x0 ut_x0 dt L dx c = Wave1D_init fp u_x0 ut_x0 dt L dx c"
    by (rule Wave1D_init_padded_eq)
next
  assume "shaped1d s"
  then show "substep_nb roll_sum_padded s = substep s"
    by (rule substep_padded_eq)
next
  fix k
  assume init: "Wave1D_init fp u_x0 ut_x0 dt L dx c = Inr s0"
    and lf: "length (u_x0 (w1_x s0) L) = length (w1_x s0)"
    and lg: "length (ut_x0 (w1_x s0)) = length (w1_x s0)"
  from substeps_shaped [OF Wave1D_init_shaped(1) [OF init lf lg], of k]
  obtain sk where "substeps k s0 = Inr sk" "shaped1d sk"
    by blast
  then show "\<exists>sk. substeps k s0 = Inr sk \<and> substep_nb roll_sum_padded sk = substep sk"
    using substep_padded_eq by blast
next
  assume "\<forall>x y. np_arange fp 0 (fp_add fp Lx dxy) dxy = Inr x \<and> np_arange fp 0 (fp_add fp Ly dxy) dxy = Inr y
               \<longrightarrow> has_shape2 (u_xy0 x y Lx Ly) (length x) (length y)"
  then show "Wave2D_init_nb fp roll_sum2_padded u_xy0 ut_xy0 Lx Ly dt' dxy c'
              = Wave2D_init fp u_xy0 ut_xy0 Lx Ly dt' dxy c'"
    by (rule Wave2D_init_padded_eq)
next
  assume "shaped2d t r m"
  then show "substep2_nb roll_sum2_padded t = substep2 t"
    by (rule substep2_padded_eq)
next
  fix k
  assume init: "Wave2D_init fp u_xy0 ut_xy0 Lx Ly dt' dxy c' = Inr t0"
    and sf: "has_shape2 (u_xy0 (w2_x t0) (w2_y t0) Lx Ly) (length (w2_x t0)) (length (w2_y t0))"
    and sg: "has_shape2 (ut_xy0 (w2_x t0) (w2_y t0)) (length (w2_x t0)) (length (w2_y t0))"
  from substeps2_shaped [OF Wave2D_init_shaped [OF init sf sg], of k]
  obtain tk where "substeps2 k t0 = Inr tk" "shaped2d tk (length (w2_x t0)) (length (w2_y t0))"
    by blast
  then show "\<exists>tk. substeps2 k t0 = Inr tk \<and> substep2_nb roll_sum2_padded tk = substep2 tk"
    using substep2_padded_eq by blast
qed

theorem wraparound_masked_by_boundary_reset_witness:
  "(\<exists>s0 s1. Wave1D_init_nb exact_arith roll_sum_padded pulse_trian1d init_vel1d (1 / 2) 4 1 1 = Inr s0
       \<and> Wave1D_init exact_arith pulse_trian1d init_vel1d (1 / 2) 4 1 1 = Inr s0
       \<and> substeps 1 s0 = Inr s1 \<and> substep_nb roll_sum_padded s1 = substep s1)
   \<and> (\<exists>t0 t1. Wave2D_init_nb exact_arith roll_sum2_padded wave_polynomial2d init_vel2d 3 3 (1 / 2) 1 1
           = Inr t0
       \<and> Wave2D_init exact_arith wave_polynomial2d init_vel2d 3 3 (1 / 2) 1 1 = Inr t0
       \<and> substeps2 1 t0 = Inr t1 \<and> substep2_nb roll_sum2_padded t1 = substep2 t1)"
proof
  let ?s0 = "\<lparr>w1_x = [0, 1, 2, 3, 4], w1_alpha2 = 1 / 4, w1_time = 1 / 2, w1_dt = 1 / 2,
          w1_u_tim1 = [0, 0, 2 / 5, 0, 0], w1_u_ti = [0, 1 / 20, 3 / 10, 1 / 20, 0],
          w1_u_tip1 = [0, 0, 0, 0, 0]\<rparr>"
  have lf: "length (pulse_trian1d (w1_x ?s0) 4) = length (w1_x ?s0)"
    and lg: "length (init_vel1d (w1_x ?s0)) = length (w1_x ?s0)"
    by simp_all
  note T = wraparound_masked_by_boundary_reset
    [of exact_arith pulse_trian1d init_vel1d "1 / 2" 4 1 1 _ ?s0]
  from T have a: "Wave1D_init_nb exact_arith roll_sum_padded pulse_trian1d init_vel1d (1 / 2) 4 1 1
      = Wave1D_init exact_arith pulse_trian1d init_vel1d (1 / 2) 4 1 1"
    by (rule conjunct1)
  from T example_Wave1D_init lf lg
  have "\<exists>sk. substeps 1 ?s0 = Inr sk \<and> substep_nb roll_sum_padded sk = substep sk"
    by blast
  with a example_Wave1D_init
  show "\<exists>s0 s1. Wave1D_init_nb exact_arith roll_sum_padded pulse_trian1d init_vel1d (1 / 2) 4 1 1 = Inr s0
       \<and> Wave1D_init exact_arith pulse_trian1d init_vel1d (1 / 2) 4 1 1 = Inr s0
       \<and> substeps 1 s0 = Inr s1 \<and> substep_nb roll_sum_padded s1 = substep s1"
    by (auto simp del: substeps.simps)
next
  let ?t0 = "\<lparr>w2_x = [0, 1, 2, 3], w2_y = [0, 1, 2, 3], w2_alpha2 = 1 / 4,
          w2_time = 1 / 2, w2_dt = 1 / 2,
          w2_u_tim1 = [[0, 0, 0, 0], [0, 0, 0, 0], [0, 0, 32, 0], [0, 0, 0, 0]],
          w2_u_ti = [[0, 0, 0, 0], [0, 0, 4, 0], [0, 4, 16, 0], [0, 0, 0, 0]],
          w2_u_tip1 = [[0, 0, 0, 0], [0, 0, 0, 0], [0, 0, 0, 0], [0, 0, 0, 0]]\<rparr>"
  have sf: "has_shape2 (wave_polynomial2d (w2_x ?t0) (w2_y ?t0) 3 3)
              (length (w2_x ?t0)) (length (w2_y ?t0))"
    and sg: "has_shape2 (init_vel2d (w2_x ?t0) (w2_y ?t0))
              (length (w2_x ?t0)) (length (w2_y ?t0))"
    by (rule has_shape2_wave_polynomial2d, rule has_shape2_init_vel2d)
  have wf: "\<forall>x y. np_arange exact_arith 0 (fp_add exact_arith 3 1) 1 = Inr x \<and> np_arange exact_arith 0 (fp_add exact_arith 3 1) 1 = Inr y
               \<longrightarrow> has_shape2 (wave_polynomial2d x y 3 3) (length x) (length y)"
    by simp
  note T = wraparound_masked_by_boundary_reset
    [of exact_arith _ _ _ _ _ _ _ _ 3 1 3 wave_polynomial2d init_vel2d "1 / 2" 1 _ _ _ ?t0]
  from T wf have a: "Wave2D_init_nb exact_arith roll_sum2_padded wave_polynomial2d init_vel2d 3 3 (1 / 2) 1 1
      = Wave2D_init exact_arith wave_polynomial2d init_vel2d 3 3 (1 / 2) 1 1"
    by blast
  from T example_Wave2D_init sf sg
  have "\<exists>tk. substeps2 1 ?t0 = Inr tk \<and> substep2_nb roll_sum2_padded tk = substep2 tk"
    by blast
  with a example_Wave2D_init
  show "\<exists>t0 t1. Wave2D_init_nb exact_arith roll_sum2_padded wave_polynomial2d init_vel2d 3 3 (1 / 2) 1 1
           = Inr t0
       \<and> Wave2D_init exact_arith wave_polynomial2d init_vel2d 3 3 (1 / 2) 1 1 = Inr t0
       \<and> substeps2 1 t0 = Inr t1 \<and> substep2_nb roll_sum2_padded t1 = substep2 t1"
    by (auto simp del: substeps2.simps)
qed

section \<open>The coordinate grid\<close>







section \<open>The all-zero scenario\<close>

lemma replicate_update_same: "(replicate n v)[i := v] = replicate n v"
  by (induction n arbitrary: i) (simp_all split: nat.split)

lemma reset_zeros:
  assumes "\<And>i. i < n \<Longrightarrow> h i = 0"
  shows "((map h [0..<n])[0 := (0::real)])[n - 1 := 0] = np_zeros n"
  using assms by (intro nth_equalityI) (auto simp add: np_zeros_def nth_list_update)

lemma substep_zeros:
  assumes n: "0 < n" and p: "w1_u_tim1 s = np_zeros n" and c: "w1_u_ti s = np_zeros n"
  shows "\<exists>s'. substep s = Inr s' \<and> w1_u_tim1 s' = np_zeros n \<and> w1_u_ti s' = np_zeros n"
proof -
  have len: "length (w1_u_tim1 s) = length (w1_u_ti s)" and ne: "w1_u_ti s \<noteq> []"
    and l: "length (w1_u_ti s) = n"
    using n by (auto simp add: p c np_zeros_def)
  have z: "((map (\<lambda>i. - (w1_u_tim1 s ! i) + 2 * (1 - w1_alpha2 s) * (w1_u_ti s ! i)
                    + w1_alpha2 s * (w1_u_ti s ! ((i + n - 1) mod n) + w1_u_ti s ! ((i + 1) mod n)))
                  [0..<n])[0 := 0])[n - 1 := 0] = np_zeros n"
    by (rule reset_zeros) (simp add: p c np_zeros_def)
  show ?thesis
    unfolding substep_closed [OF len ne] l z using c by simp
qed

lemma substeps_zeros:
  assumes n: "0 < n" and p: "w1_u_tim1 s = np_zeros n" and c: "w1_u_ti s = np_zeros n"
  shows "\<exists>s'. substeps k s = Inr s' \<and> w1_u_tim1 s' = np_zeros n \<and> w1_u_ti s' = np_zeros n"
  using p c
proof (induction k arbitrary: s)
  case 0
  then show ?case by simp
next
  case (Suc k)
  from substep_zeros [OF n Suc.prems] obtain s1 where
    s1: "substep s = Inr s1" "w1_u_tim1 s1 = np_zeros n" "w1_u_ti s1 = np_zeros n"
    by blast
  from Suc.IH [OF s1(2,3)] s1(1) show ?case by simp
qed

lemma Wave1D_init_zeros:
  assumes init: "Wave1D_init fp (\<lambda>x L. np_zeros (length x)) init_vel1d dt L dx c = Inr s"
  shows "w1_u_tim1 s = np_zeros (length (w1_x s))" and "w1_u_ti s = np_zeros (length (w1_x s))"
    and "w1_x s \<noteq> []"
proof -
  have lf: "length ((\<lambda>x L. np_zeros (length x)) (w1_x s) L) = length (w1_x s)"
    by (simp add: np_zeros_def)
  have lg: "length (init_vel1d (w1_x s)) = length (w1_x s)"
    by simp
  note f = Wave1D_init_fields [OF init lf lg]
  show ne: "w1_x s \<noteq> []" by (rule f(1))
  have "(replicate (length (w1_x s)) (0::real))[0 := 0, length (w1_x s) - 1 := 0]
      = replicate (length (w1_x s)) 0"
    by (simp only: replicate_update_same)
  then show p: "w1_u_tim1 s = np_zeros (length (w1_x s))"
    unfolding f(5) by (simp add: np_zeros_def)
  show "w1_u_ti s = np_zeros (length (w1_x s))"
    unfolding f(6) using ne
    by (intro reset_zeros) (simp add: init_vel1d_def np_zeros_def nth_list_update)
qed

lemma zero_field_run:
  assumes init: "Wave1D_init fp (\<lambda>x L. np_zeros (length x)) init_vel1d dt L dx c = Inr s0"
  defines "n \<equiv> length (w1_x s0)"
  shows "\<forall>k. \<exists>s s'. substeps k s0 = Inr s \<and> substep s = Inr s' \<and> substeps (Suc k) s0 = Inr s'
           \<and> w1_u_ti s = np_zeros n \<and> w1_u_ti s' = np_zeros n
           \<and> w1_time s = dt + real k * dt \<and> w1_time s' = w1_time s + dt"
    and "\<forall>steps m. \<exists>ys s. iteration_take steps m s0 = Inr (ys, s) \<and> length ys = m
           \<and> substeps (m * nat steps) s0 = Inr s
           \<and> (\<forall>k<m. ys ! k = (np_zeros n, dt + real ((k + 1) * nat steps) * dt))"
proof -
  have lf: "length ((\<lambda>x L. np_zeros (length x)) (w1_x s0) L) = length (w1_x s0)"
    by (simp add: np_zeros_def)
  have lg: "length (init_vel1d (w1_x s0)) = length (w1_x s0)"
    by simp
  note sh = Wave1D_init_shaped [OF init lf lg]
  note f = Wave1D_init_fields [OF init lf lg]
  note z = Wave1D_init_zeros [OF init, folded n_def]
  from z(3) have n: "0 < n" by (simp add: n_def)
  show "\<forall>k. \<exists>s s'. substeps k s0 = Inr s \<and> substep s = Inr s' \<and> substeps (Suc k) s0 = Inr s'
           \<and> w1_u_ti s = np_zeros n \<and> w1_u_ti s' = np_zeros n
           \<and> w1_time s = dt + real k * dt \<and> w1_time s' = w1_time s + dt"
  proof
    fix k
    from substeps_zeros [OF n z(1) z(2), of k] obtain s where
      s: "substeps k s0 = Inr s" "w1_u_tim1 s = np_zeros n" "w1_u_ti s = np_zeros n"
      by blast
    from substeps_shaped [OF sh(1), of k] s(1) have d: "shaped1d s" "w1_dt s = w1_dt s0"
      "w1_time s = w1_time s0 + real k * w1_dt s0"
      by auto
    from substep_zeros [OF n s(2,3)] obtain s' where
      s': "substep s = Inr s'" "w1_u_ti s' = np_zeros n"
      by blast
    from substep_shaped [OF d(1)] s'(1) have "w1_time s' = w1_time s + w1_dt s"
      by auto
    moreover have "substeps (Suc k) s0 = Inr s'"
      using substeps_snoc [OF s(1)] s'(1) by simp
    ultimately
    show "\<exists>s s'. substeps k s0 = Inr s \<and> substep s = Inr s' \<and> substeps (Suc k) s0 = Inr s'
           \<and> w1_u_ti s = np_zeros n \<and> w1_u_ti s' = np_zeros n
           \<and> w1_time s = dt + real k * dt \<and> w1_time s' = w1_time s + dt"
      using s s' d(2,3) f(3,4) by auto
  qed
  show "\<forall>steps m. \<exists>ys s. iteration_take steps m s0 = Inr (ys, s) \<and> length ys = m
           \<and> substeps (m * nat steps) s0 = Inr s
           \<and> (\<forall>k<m. ys ! k = (np_zeros n, dt + real ((k + 1) * nat steps) * dt))"
  proof (intro allI)
    fix steps m
    from iteration_take_shaped [OF sh(1), of steps m] obtain ys s where
      t: "iteration_take steps m s0 = Inr (ys, s)" "length ys = m"
         "substeps (m * nat steps) s0 = Inr s"
         "\<forall>k<m. \<exists>sk. substeps ((k + 1) * nat steps) s0 = Inr sk
                  \<and> ys ! k = (w1_u_ti sk, w1_time sk)"
      by blast
    have "ys ! k = (np_zeros n, dt + real ((k + 1) * nat steps) * dt)" if "k < m" for k
    proof -
      from that t(4) obtain sk where sk: "substeps ((k + 1) * nat steps) s0 = Inr sk"
        "ys ! k = (w1_u_ti sk, w1_time sk)" by blast
      from substeps_zeros [OF n z(1) z(2), of "(k + 1) * nat steps"] sk(1)
      have "w1_u_ti sk = np_zeros n" by auto
      moreover from substeps_shaped [OF sh(1), of "(k + 1) * nat steps"] sk(1)
      have "w1_time sk = w1_time s0 + real ((k + 1) * nat steps) * w1_dt s0"
        by auto
      ultimately show ?thesis
        using sk(2) f(3,4) by simp
    qed
    with t(1,2,3) show "\<exists>ys s. iteration_take steps m s0 = Inr (ys, s) \<and> length ys = m
           \<and> substeps (m * nat steps) s0 = Inr s
           \<and> (\<forall>k<m. ys ! k = (np_zeros n, dt + real ((k + 1) * nat steps) * dt))"
      by blast
  qed
qed

text \<open>
  Claim C9.  Take \<open>L = 8\<close>, \<open>c = 1\<close>, for \<open>dt\<close> and \<open>dx\<close> the doubles next to \<open>0.001\<close> and
  \<open>0.005\<close>, the all-zero initial position and the all-zero initial velocity, and let the
  operations on the grid and on the coefficient have a relative error of at most a
  hundredth.  Then the
  one-dimensional stepper is constructed, on the non-empty grid whose number of samples
  is the computed quotient \<open>(L + dx) / dx\<close> rounded up, with both levels all-zero arrays
  of the length of that grid and the clock at \<open>dt\<close>.  After \<open>k\<close> sub-steps the current
  field is all-zero and the clock reads \<open>dt + k dt\<close>; the loop body then succeeds, its
  result is the state after \<open>k + 1\<close> sub-steps, the field is again all-zero and the clock
  has advanced by exactly \<open>dt\<close>.  For every \<open>steps\<close>, pull number \<open>k + 1\<close> yields the
  all-zero field together with the time \<open>dt + (k + 1) steps dt\<close>.
\<close>

theorem zero_field_stays_zero:
  "coeff_accurate u fp 1 dt dx \<longrightarrow> grid_accurate u fp 8 dx \<longrightarrow> u \<le> 1 / 100
   \<longrightarrow> \<bar>dt - 1 / 1000\<bar> \<le> u * (1 / 1000) \<longrightarrow> \<bar>dx - 5 / 1000\<bar> \<le> u * (5 / 1000)
   \<longrightarrow> (\<exists>s0. Wave1D_init fp (\<lambda>x L. np_zeros (length x)) init_vel1d dt 8 dx 1 = Inr s0
         \<and> w1_x s0 \<noteq> []
         \<and> length (w1_x s0) = nat \<lceil>fp_div fp (fp_sub fp (fp_add fp 8 dx) 0) dx\<rceil>
         \<and> w1_time s0 = dt
         \<and> w1_u_tim1 s0 = np_zeros (length (w1_x s0))
         \<and> w1_u_ti s0 = np_zeros (length (w1_x s0))
         \<and> (\<forall>k. \<exists>s s'. substeps k s0 = Inr s \<and> substep s = Inr s'
                \<and> substeps (Suc k) s0 = Inr s'
                \<and> w1_u_ti s = np_zeros (length (w1_x s0))
                \<and> w1_u_ti s' = np_zeros (length (w1_x s0))
                \<and> w1_time s = dt + real k * dt \<and> w1_time s' = w1_time s + dt)
         \<and> (\<forall>steps n. \<exists>ys s. iteration_take steps n s0 = Inr (ys, s) \<and> length ys = n
                \<and> substeps (n * nat steps) s0 = Inr s
                \<and> (\<forall>k<n. ys ! k = (np_zeros (length (w1_x s0)),
                                     dt + real ((k + 1) * nat steps) * dt))))"
proof (intro impI)
  assume acc: "coeff_accurate u fp 1 dt dx" and gacc: "grid_accurate u fp 8 dx"
    and u: "u \<le> 1 / 100"
    and dt: "\<bar>dt - 1 / 1000\<bar> \<le> u * (1 / 1000)" and dx: "\<bar>dx - 5 / 1000\<bar> \<le> u * (5 / 1000)"
  note b = coefficient_near_004 [OF acc u dt dx]
  have L: "(0::real) < 8" by simp
  from u have u1: "u < 1" by simp
  have wf: "\<forall>x. np_arange fp 0 (fp_add fp 8 dx) dx = Inr x \<longrightarrow>
               length ((\<lambda>x L. np_zeros (length x)) x 8) = length x
               \<and> length (init_vel1d x) = length x"
    by (simp add: np_zeros_def)
  from b(4) have st: "\<not> fp_sqr fp (fp_div fp (fp_mul fp 1 dt) dx) > 1"
    by simp
  from Wave1D_init_stability(2) [where f = "\<lambda>x L. np_zeros (length x)" and g = init_vel1d,
      OF gacc u1 L b(1) wf st]
  obtain s0 where
    init: "Wave1D_init fp (\<lambda>x L. np_zeros (length x)) init_vel1d dt 8 dx 1 = Inr s0"
    by blast
  have lf: "length ((\<lambda>x L. np_zeros (length x)) (w1_x s0) 8) = length (w1_x s0)"
    by (simp add: np_zeros_def)
  have lg: "length (init_vel1d (w1_x s0)) = length (w1_x s0)"
    by simp
  from Wave1D_init_InrD(1) [OF init]
  have n: "length (w1_x s0) = nat \<lceil>fp_div fp (fp_sub fp (fp_add fp 8 dx) 0) dx\<rceil>"
    unfolding np_arange_Inr by simp
  have t: "w1_time s0 = dt"
    using Wave1D_init_fields(3) [OF init lf lg] .
  note z = Wave1D_init_zeros [OF init]
  note r = zero_field_run [OF init]
  from init z(3) n t z(1) z(2) r(1) r(2)
  show "\<exists>s0. Wave1D_init fp (\<lambda>x L. np_zeros (length x)) init_vel1d dt 8 dx 1 = Inr s0
         \<and> w1_x s0 \<noteq> []
         \<and> length (w1_x s0) = nat \<lceil>fp_div fp (fp_sub fp (fp_add fp 8 dx) 0) dx\<rceil>
         \<and> w1_time s0 = dt
         \<and> w1_u_tim1 s0 = np_zeros (length (w1_x s0))
         \<and> w1_u_ti s0 = np_zeros (length (w1_x s0))
         \<and> (\<forall>k. \<exists>s s'. substeps k s0 = Inr s \<and> substep s = Inr s'
                \<and> substeps (Suc k) s0 = Inr s'
                \<and> w1_u_ti s = np_zeros (length (w1_x s0))
                \<and> w1_u_ti s' = np_zeros (length (w1_x s0))
                \<and> w1_time s = dt + real k * dt \<and> w1_time s' = w1_time s + dt)
         \<and> (\<forall>steps n. \<exists>ys s. iteration_take steps n s0 = Inr (ys, s) \<and> length ys = n
                \<and> substeps (n * nat steps) s0 = Inr s
                \<and> (\<forall>k<n. ys ! k = (np_zeros (length (w1_x s0)),
                                     dt + real ((k + 1) * nat steps) * dt)))"
    by (intro exI [of _ s0] conjI)
qed

theorem zero_field_stays_zero_witness:
  "\<exists>s0 ys s. Wave1D_init exact_arith (\<lambda>x L. np_zeros (length x)) init_vel1d
                (1 / 1000) 8 (5 / 1000) 1 = Inr s0
     \<and> length (w1_x s0) = 1601
     \<and> iteration_take 1 2 s0 = Inr (ys, s)
     \<and> ys = [(np_zeros 1601, 2 / 1000), (np_zeros 1601, 3 / 1000)]"
proof -
  have u: "(0::real) \<le> 1 / 100" by simp
  have dt: "\<bar>1 / 1000 - 1 / 1000\<bar> \<le> (0::real) * (1 / 1000)" by simp
  have dx: "\<bar>5 / 1000 - 5 / 1000\<bar> \<le> (0::real) * (5 / 1000)" by simp
  from zero_field_stays_zero [of 0 exact_arith "1 / 1000" "5 / 1000"]
    coeff_accurate_exact [of 1 "1 / 1000" "5 / 1000"] grid_accurate_exact [of 8 "5 / 1000"]
    u dt dx
  obtain s0 where
    init: "Wave1D_init exact_arith (\<lambda>x L. np_zeros (length x)) init_vel1d
             (1 / 1000) 8 (5 / 1000) 1 = Inr s0"
    and len: "length (w1_x s0)
                = nat \<lceil>fp_div exact_arith (fp_sub exact_arith (fp_add exact_arith 8 (5 / 1000)) 0)
                         (5 / 1000)\<rceil>"
    and run: "\<forall>steps n. \<exists>ys s. iteration_take steps n s0 = Inr (ys, s) \<and> length ys = n
                \<and> substeps (n * nat steps) s0 = Inr s
                \<and> (\<forall>k<n. ys ! k = (np_zeros (length (w1_x s0)),
                                     1 / 1000 + real ((k + 1) * nat steps) * (1 / 1000)))"
    by blast
  from len have n: "length (w1_x s0) = 1601"
    by simp
  from run obtain ys s where
    t: "iteration_take 1 2 s0 = Inr (ys, s)" "length ys = 2"
       "\<forall>k<2. ys ! k = (np_zeros (length (w1_x s0)),
                          1 / 1000 + real ((k + 1) * nat 1) * (1 / 1000))"
    by blast
  from t(3) have "ys ! 0 = (np_zeros 1601, 2 / 1000)" and "ys ! 1 = (np_zeros 1601, 3 / 1000)"
    unfolding n by simp_all
  with t(2) have "ys = [(np_zeros 1601, 2 / 1000), (np_zeros 1601, 3 / 1000)]"
    by (intro nth_equalityI) (auto simp add: less_Suc_eq numeral_2_eq_2)
  with init n t(1) show ?thesis
    by blast
qed

section \<open>Initial conditions mirrored about the midpoint\<close>

lemma mirrored_symmetric: "mirrored 1 u \<longleftrightarrow> rev u = u"
proof
  assume m: "mirrored 1 u"
  show "rev u = u"
  proof (rule nth_equalityI)
    show "length (rev u) = length u" by simp
  next
    fix i assume "i < length (rev u)"
    then have i: "i < length u" by simp
    then have "rev u ! i = u ! (length u - 1 - i)"
      by (simp add: rev_nth)
    with m i show "rev u ! i = u ! i"
      by (simp add: mirrored_def)
  qed
next
  assume r: "rev u = u"
  show "mirrored 1 u"
    unfolding mirrored_def
  proof (intro allI impI)
    fix i assume i: "i < length u"
    then have "rev u ! i = u ! (length u - 1 - i)"
      by (simp add: rev_nth)
    with r show "u ! (length u - 1 - i) = 1 * u ! i" by simp
  qed
qed

lemma mirrored_antisymmetric: "mirrored (- 1) u \<longleftrightarrow> rev u = map uminus u"
proof
  assume m: "mirrored (- 1) u"
  show "rev u = map uminus u"
  proof (rule nth_equalityI)
    show "length (rev u) = length (map uminus u)" by simp
  next
    fix i assume "i < length (rev u)"
    then have i: "i < length u" by simp
    then have "rev u ! i = u ! (length u - 1 - i)"
      by (simp add: rev_nth)
    with m i show "rev u ! i = map uminus u ! i"
      by (simp add: mirrored_def)
  qed
next
  assume r: "rev u = map uminus u"
  show "mirrored (- 1) u"
    unfolding mirrored_def
  proof (intro allI impI)
    fix i assume i: "i < length u"
    then have "rev u ! i = u ! (length u - 1 - i)"
      by (simp add: rev_nth)
    with r i show "u ! (length u - 1 - i) = - 1 * u ! i" by simp
  qed
qed

lemma mirrored_reset:
  assumes "\<And>i. 0 < i \<Longrightarrow> i < n - 1 \<Longrightarrow> h (n - 1 - i) = \<sigma> * h i"
  shows "mirrored \<sigma> ((map h [0..<n])[0 := 0, n - 1 := 0])"
  unfolding mirrored_def
proof (intro allI impI)
  fix i assume "i < length ((map h [0..<n])[0 := 0, n - 1 := 0])"
  then have i: "i < n" by simp
  let ?u = "(map h [0..<n])[0 := 0, n - 1 := 0]"
  have l: "length ?u = n" by simp
  show "?u ! (length ?u - 1 - i) = \<sigma> * ?u ! i"
  proof (cases "i = 0 \<or> i = n - 1")
    case True
    then show ?thesis
      using i by (auto simp add: nth_list_update)
  next
    case False
    with i have j: "0 < i" "i < n - 1" "n - 1 - i < n" "n - 1 - i \<noteq> 0" "n - 1 - i \<noteq> n - 1"
      by auto
    have "?u ! (n - 1 - i) = h (n - 1 - i)"
      using j by (simp add: nth_list_update)
    moreover have "?u ! i = h i"
      using False i by (simp add: nth_list_update)
    ultimately show ?thesis
      unfolding l using assms [OF j(1,2)] by simp
  qed
qed

lemma mirroredD:
  "mirrored \<sigma> u \<Longrightarrow> i < length u \<Longrightarrow> u ! (length u - 1 - i) = \<sigma> * u ! i"
  by (simp add: mirrored_def)

lemma substep_mirrored:
  assumes sh: "shaped1d s" and mp: "mirrored \<sigma> (w1_u_tim1 s)" and mc: "mirrored \<sigma> (w1_u_ti s)"
  shows "\<exists>s'. substep s = Inr s' \<and> shaped1d s'
           \<and> mirrored \<sigma> (w1_u_tim1 s') \<and> mirrored \<sigma> (w1_u_ti s')"
proof -
  from sh have len: "length (w1_u_tim1 s) = length (w1_u_ti s)" and ne: "w1_u_ti s \<noteq> []"
    by (simp_all add: shaped1d_def)
  define n where "n = length (w1_u_ti s)"
  define p where "p = w1_u_tim1 s"
  define q where "q = w1_u_ti s"
  define a where "a = w1_alpha2 s"
  define h where "h = (\<lambda>i. - (p ! i) + 2 * (1 - a) * (q ! i)
                    + a * (q ! ((i + n - 1) mod n) + q ! ((i + 1) mod n)))"
  have step: "substep s =
           Inr (s\<lparr>w1_time := w1_time s + w1_dt s, w1_u_tim1 := w1_u_ti s,
                  w1_u_ti := (map h [0..<n])[0 := 0, n - 1 := 0],
                  w1_u_tip1 := (map h [0..<n])[0 := 0, n - 1 := 0]\<rparr>)"
    unfolding h_def p_def q_def a_def n_def using len ne by (rule substep_closed)
  have lp: "length p = n" and lq: "length q = n"
    by (simp_all add: p_def q_def n_def len)
  have m: "mirrored \<sigma> ((map h [0..<n])[0 := 0, n - 1 := 0])"
  proof (rule mirrored_reset)
    fix i assume i: "0 < i" "i < n - 1"
    then have b: "i < n" "i - 1 < n" "i + 1 < n" "n - 1 - i < n" by auto
    from i b have m1: "(i + n - 1) mod n = i - 1" and m2: "(i + 1) mod n = i + 1"
      by (simp_all add: mod_if)
    have a3: "n - 1 - i + n - 1 = (n - 1 - (i + 1)) + n"
      and a4: "n - 1 - i + 1 = n - 1 - (i - 1)"
      and b3: "n - 1 - (i + 1) < n" and b4: "n - 1 - (i - 1) < n"
      using i by linarith+
    have m3: "(n - 1 - i + n - 1) mod n = n - 1 - (i + 1)"
      unfolding a3 using b3 by simp
    have m4: "(n - 1 - i + 1) mod n = n - 1 - (i - 1)"
      unfolding a4 using b4 by simp
    have e1: "p ! (n - 1 - i) = \<sigma> * p ! i"
      using mirroredD [OF mp [folded p_def], of i] b lp by simp
    have e2: "q ! (n - 1 - i) = \<sigma> * q ! i"
      using mirroredD [OF mc [folded q_def], of i] b lq by simp
    have e3: "q ! (n - 1 - (i + 1)) = \<sigma> * q ! (i + 1)"
      using mirroredD [OF mc [folded q_def], of "i + 1"] b lq by simp
    have e4: "q ! (n - 1 - (i - 1)) = \<sigma> * q ! (i - 1)"
      using mirroredD [OF mc [folded q_def], of "i - 1"] b lq by simp
    show "h (n - 1 - i) = \<sigma> * h i"
      unfolding h_def m1 m2 m3 m4 e1 e2 e3 e4 by (simp add: algebra_simps)
  qed
  show ?thesis
    unfolding step using m mc ne by (simp add: shaped1d_def n_def)
qed

lemma substeps_mirrored:
  assumes "shaped1d s" and "mirrored \<sigma> (w1_u_tim1 s)" and "mirrored \<sigma> (w1_u_ti s)"
  shows "\<exists>s'. substeps k s = Inr s' \<and> shaped1d s'
           \<and> mirrored \<sigma> (w1_u_tim1 s') \<and> mirrored \<sigma> (w1_u_ti s')"
  using assms
proof (induction k arbitrary: s)
  case 0
  then show ?case by simp
next
  case (Suc k)
  from substep_mirrored [OF Suc.prems] obtain s1 where
    s1: "substep s = Inr s1" "shaped1d s1" "mirrored \<sigma> (w1_u_tim1 s1)"
        "mirrored \<sigma> (w1_u_ti s1)"
    by blast
  from Suc.IH [OF s1(2-4)] s1(1) show ?case by simp
qed

lemma Wave1D_init_mirrored:
  assumes init: "Wave1D_init fp u_x0 init_vel1d dt L dx c = Inr s"
    and lf: "length (u_x0 (w1_x s) L) = length (w1_x s)"
    and m: "mirrored \<sigma> (u_x0 (w1_x s) L)"
  shows "mirrored \<sigma> (w1_u_tim1 s)" and "mirrored \<sigma> (w1_u_ti s)"
proof -
  have lg: "length (init_vel1d (w1_x s)) = length (w1_x s)"
    by simp
  define n where "n = length (w1_x s)"
  define a where "a = fp_sqr fp (fp_div fp (fp_mul fp c dt) dx)"
  define F where "F = u_x0 (w1_x s) L"
  define p where "p = (F[0 := 0])[n - 1 := 0]"
  define h where "h = (\<lambda>i. dt * (init_vel1d (w1_x s) ! i) + (1 - a) * (p ! i)
                    + 0.5 * a * (p ! ((i + n - 1) mod n) + p ! ((i + 1) mod n)))"
  note f = Wave1D_init_fields [OF init lf lg, folded n_def a_def F_def, folded p_def,
      folded h_def]
  have lF: "length F = n" by (simp add: F_def lf n_def)
  have lp: "length p = n" by (simp add: p_def lF)
  have "F = map (\<lambda>i. F ! i) [0..<n]"
    unfolding lF [symmetric] by (simp add: map_nth)
  then have pe: "p = (map (\<lambda>i. F ! i) [0..<n])[0 := 0, n - 1 := 0]"
    unfolding p_def by simp
  have mp: "mirrored \<sigma> p"
    unfolding pe
  proof (rule mirrored_reset)
    fix i assume "0 < i" "i < n - 1"
    then have "i < length F" by (simp add: lF)
    from mirroredD [OF m [folded F_def] this] show "F ! (n - 1 - i) = \<sigma> * F ! i"
      by (simp add: lF)
  qed
  then show "mirrored \<sigma> (w1_u_tim1 s)"
    unfolding f(5) .
  show "mirrored \<sigma> (w1_u_ti s)"
    unfolding f(6)
  proof (rule mirrored_reset)
    fix i assume i: "0 < i" "i < n - 1"
    then have b: "i < n" "i - 1 < n" "i + 1 < n" "n - 1 - i < n" by auto
    from i b have m1: "(i + n - 1) mod n = i - 1" and m2: "(i + 1) mod n = i + 1"
      by (simp_all add: mod_if)
    have a3: "n - 1 - i + n - 1 = (n - 1 - (i + 1)) + n"
      and a4: "n - 1 - i + 1 = n - 1 - (i - 1)"
      and b3: "n - 1 - (i + 1) < n" and b4: "n - 1 - (i - 1) < n"
      using i by linarith+
    have m3: "(n - 1 - i + n - 1) mod n = n - 1 - (i + 1)"
      unfolding a3 using b3 by simp
    have m4: "(n - 1 - i + 1) mod n = n - 1 - (i - 1)"
      unfolding a4 using b4 by simp
    have g1: "init_vel1d (w1_x s) ! i = 0" and g2: "init_vel1d (w1_x s) ! (n - 1 - i) = 0"
      using b by (simp_all add: init_vel1d_def np_zeros_def n_def)
    have e2: "p ! (n - 1 - i) = \<sigma> * p ! i"
      using mirroredD [OF mp, of i] b lp by simp
    have e3: "p ! (n - 1 - (i + 1)) = \<sigma> * p ! (i + 1)"
      using mirroredD [OF mp, of "i + 1"] b lp by simp
    have e4: "p ! (n - 1 - (i - 1)) = \<sigma> * p ! (i - 1)"
      using mirroredD [OF mp, of "i - 1"] b lp by simp
    show "h (n - 1 - i) = \<sigma> * h i"
      unfolding h_def m1 m2 m3 m4 g1 g2 e2 e3 e4 by (simp add: algebra_simps)
  qed
qed

lemma mirrored_run:
  assumes init: "Wave1D_init fp u_x0 init_vel1d dt L dx c = Inr s0"
    and lf: "length (u_x0 (w1_x s0) L) = length (w1_x s0)"
    and m: "mirrored \<sigma> (u_x0 (w1_x s0) L)"
  shows "\<exists>ys s. iteration_take steps n s0 = Inr (ys, s) \<and> length ys = n
           \<and> (\<forall>y\<in>set ys. mirrored \<sigma> (fst y) \<and> length (fst y) = length (w1_x s0))"
proof -
  have lg: "length (init_vel1d (w1_x s0)) = length (w1_x s0)"
    by simp
  note sh = Wave1D_init_shaped [OF init lf lg]
  note mi = Wave1D_init_mirrored [OF init lf m]
  from iteration_take_shaped [OF sh(1), of steps n] obtain ys s where
    t: "iteration_take steps n s0 = Inr (ys, s)" "length ys = n"
       "\<forall>k<n. \<exists>sk. substeps ((k + 1) * nat steps) s0 = Inr sk
                \<and> ys ! k = (w1_u_ti sk, w1_time sk)"
    by blast
  have "mirrored \<sigma> (fst y) \<and> length (fst y) = length (w1_x s0)" if "y \<in> set ys" for y
  proof -
    from that t(2) obtain k where k: "k < n" "y = ys ! k"
      by (auto simp add: in_set_conv_nth)
    with t(3) obtain sk where sk: "substeps ((k + 1) * nat steps) s0 = Inr sk"
      "ys ! k = (w1_u_ti sk, w1_time sk)" by blast
    from substeps_mirrored [OF sh(1) mi, of "(k + 1) * nat steps"] sk(1)
    have "mirrored \<sigma> (w1_u_ti sk)" by auto
    moreover from substeps_shaped [OF sh(1), of "(k + 1) * nat steps"] sk(1) sh(2)
    have "length (w1_u_ti sk) = length (w1_x s0)" by auto
    ultimately show ?thesis using k(2) sk(2) by simp
  qed
  with t(1,2) show ?thesis by blast
qed

lemma mirrored_midpoint:
  assumes "mirrored (- 1) u" and "odd (length u)"
  shows "u ! (length u div 2) = 0"
proof -
  from assms(2) have "length u div 2 < length u" and "length u - 1 - length u div 2 = length u div 2"
    by (auto elim!: oddE)
  with mirroredD [OF assms(1), of "length u div 2"] show ?thesis
    by simp
qed

text \<open>
  Claim C8 says that with zero initial velocity and an initial position symmetric about
  the midpoint the midpoint sample keeps its initial value over one advance step.  The
  square pulse on the grid 0, 1, 2, 3, 4 (three interior samples, midpoint index 2) with
  \<open>dt = 1/2\<close>, \<open>dx = 1\<close>, \<open>c = 1\<close> is symmetric and has the value 1 at the midpoint; the
  bootstrap level has \<open>3/4\<close> there and the field yielded after one sub-step has \<open>3/16\<close>.
\<close>

theorem midpoint_not_stationary_counterexample:
  "Wave1D_init exact_arith pulse_square1d init_vel1d (1 / 2) 4 1 1 =
     Inr \<lparr>w1_x = [0, 1, 2, 3, 4], w1_alpha2 = 1 / 4, w1_time = 1 / 2, w1_dt = 1 / 2,
          w1_u_tim1 = [0, 0, 1, 0, 0], w1_u_ti = [0, 1 / 8, 3 / 4, 1 / 8, 0],
          w1_u_tip1 = [0, 0, 0, 0, 0]\<rparr>
   \<and> rev (pulse_square1d [0, 1, 2, 3, 4] 4) = pulse_square1d [0, 1, 2, 3, 4] 4
   \<and> pulse_square1d [0, 1, 2, 3, 4] 4 ! 2 = 1
   \<and> iteration_next 1
        \<lparr>w1_x = [0, 1, 2, 3, 4], w1_alpha2 = 1 / 4, w1_time = 1 / 2, w1_dt = 1 / 2,
          w1_u_tim1 = [0, 0, 1, 0, 0], w1_u_ti = [0, 1 / 8, 3 / 4, 1 / 8, 0],
          w1_u_tip1 = [0, 0, 0, 0, 0]\<rparr>
      = Inr (([0, 3 / 8, 3 / 16, 3 / 8, 0], 1),
          \<lparr>w1_x = [0, 1, 2, 3, 4], w1_alpha2 = 1 / 4, w1_time = 1, w1_dt = 1 / 2,
           w1_u_tim1 = [0, 1 / 8, 3 / 4, 1 / 8, 0], w1_u_ti = [0, 3 / 8, 3 / 16, 3 / 8, 0],
           w1_u_tip1 = [0, 3 / 8, 3 / 16, 3 / 8, 0]\<rparr>)
   \<and> [0, 3 / 8, 3 / 16, 3 / 8, 0 :: real] ! 2 \<noteq> 1"
  by code_simp

text \<open>
  Claim C8, amended.  For a one-dimensional stepper constructed with the zero initial
  velocity and an initial-position function that returns an array of the shape of the
  grid: when the initial position is symmetric about the midpoint (it equals its
  reversal), both bootstrap levels and every field that the sequence yields are again
  symmetric about the midpoint; when it is antisymmetric about the midpoint (its reversal
  is its negation) and the grid has an odd number of samples, the midpoint sample is 0 in
  the initial position, in both bootstrap levels and in every field that the sequence
  yields, so it keeps its initial value.
\<close>

theorem mirror_symmetry_preserved:
  assumes init: "Wave1D_init fp u_x0 init_vel1d dt L dx c = Inr s0"
    and lf: "length (u_x0 (w1_x s0) L) = length (w1_x s0)"
  shows "(rev (u_x0 (w1_x s0) L) = u_x0 (w1_x s0) L \<longrightarrow>
            rev (w1_u_tim1 s0) = w1_u_tim1 s0 \<and> rev (w1_u_ti s0) = w1_u_ti s0
            \<and> (\<forall>steps n. \<exists>ys s. iteration_take steps n s0 = Inr (ys, s) \<and> length ys = n
                  \<and> (\<forall>y\<in>set ys. rev (fst y) = fst y)))
       \<and> (rev (u_x0 (w1_x s0) L) = map uminus (u_x0 (w1_x s0) L) \<longrightarrow>
          odd (length (w1_x s0)) \<longrightarrow>
            u_x0 (w1_x s0) L ! (length (w1_x s0) div 2) = 0
            \<and> w1_u_tim1 s0 ! (length (w1_x s0) div 2) = 0
            \<and> w1_u_ti s0 ! (length (w1_x s0) div 2) = 0
            \<and> (\<forall>steps n. \<exists>ys s. iteration_take steps n s0 = Inr (ys, s) \<and> length ys = n
                  \<and> (\<forall>y\<in>set ys. fst y ! (length (w1_x s0) div 2)
                                  = u_x0 (w1_x s0) L ! (length (w1_x s0) div 2))))"
proof (intro conjI impI allI)
  have lg: "length (init_vel1d (w1_x s0)) = length (w1_x s0)"
    by simp
  note sh = Wave1D_init_shaped [OF init lf lg]
  note f = Wave1D_init_fields [OF init lf lg]
  {
    assume "rev (u_x0 (w1_x s0) L) = u_x0 (w1_x s0) L"
    then have m: "mirrored 1 (u_x0 (w1_x s0) L)"
      by (simp add: mirrored_symmetric)
    from Wave1D_init_mirrored [OF init lf m]
    show "rev (w1_u_tim1 s0) = w1_u_tim1 s0" and "rev (w1_u_ti s0) = w1_u_ti s0"
      by (simp_all add: mirrored_symmetric)
    fix steps n
    from mirrored_run [OF init lf m, of steps n]
    show "\<exists>ys s. iteration_take steps n s0 = Inr (ys, s) \<and> length ys = n
                  \<and> (\<forall>y\<in>set ys. rev (fst y) = fst y)"
      unfolding mirrored_symmetric by blast
  }
  {
    assume "rev (u_x0 (w1_x s0) L) = map uminus (u_x0 (w1_x s0) L)"
      and odd: "odd (length (w1_x s0))"
    then have m: "mirrored (- 1) (u_x0 (w1_x s0) L)"
      by (simp add: mirrored_antisymmetric)
    from mirrored_midpoint [OF m] odd
    show z: "u_x0 (w1_x s0) L ! (length (w1_x s0) div 2) = 0"
      by (simp add: lf)
    note mi = Wave1D_init_mirrored [OF init lf m]
    have lp: "length (w1_u_tim1 s0) = length (w1_x s0)"
      using sh by (simp add: shaped1d_def)
    from mirrored_midpoint [OF mi(1)] odd
    show "w1_u_tim1 s0 ! (length (w1_x s0) div 2) = 0"
      by (simp add: lp)
    from mirrored_midpoint [OF mi(2)] odd
    show "w1_u_ti s0 ! (length (w1_x s0) div 2) = 0"
      by (simp add: sh(2))
    fix steps n
    from mirrored_run [OF init lf m, of steps n] obtain ys s where
      t: "iteration_take steps n s0 = Inr (ys, s)" "length ys = n"
         "\<forall>y\<in>set ys. mirrored (- 1) (fst y) \<and> length (fst y) = length (w1_x s0)"
      by blast
    have "fst y ! (length (w1_x s0) div 2) = u_x0 (w1_x s0) L ! (length (w1_x s0) div 2)"
      if "y \<in> set ys" for y
    proof -
      from t(3) that have "mirrored (- 1) (fst y)" and l: "length (fst y) = length (w1_x s0)"
        by blast+
      from mirrored_midpoint [OF this(1)] odd show ?thesis
        unfolding z by (simp add: l)
    qed
    with t(1,2)
    show "\<exists>ys s. iteration_take steps n s0 = Inr (ys, s) \<and> length ys = n
                  \<and> (\<forall>y\<in>set ys. fst y ! (length (w1_x s0) div 2)
                                  = u_x0 (w1_x s0) L ! (length (w1_x s0) div 2))"
      by blast
  }
qed

lemma example_symmetric_init:
  "Wave1D_init exact_arith pulse_square1d init_vel1d (1 / 2) 4 1 1 =
     Inr \<lparr>w1_x = [0, 1, 2, 3, 4], w1_alpha2 = 1 / 4, w1_time = 1 / 2, w1_dt = 1 / 2,
          w1_u_tim1 = [0, 0, 1, 0, 0], w1_u_ti = [0, 1 / 8, 3 / 4, 1 / 8, 0],
          w1_u_tip1 = [0, 0, 0, 0, 0]\<rparr>"
  by code_simp

lemma example_antisymmetric_init:
  "Wave1D_init exact_arith (\<lambda>x L. map (\<lambda>v. v - L / 2) x) init_vel1d (1 / 2) 4 1 1 =
     Inr \<lparr>w1_x = [0, 1, 2, 3, 4], w1_alpha2 = 1 / 4, w1_time = 1 / 2, w1_dt = 1 / 2,
          w1_u_tim1 = [0, - 1, 0, 1, 0], w1_u_ti = [0, - (3 / 4), 0, 3 / 4, 0],
          w1_u_tip1 = [0, 0, 0, 0, 0]\<rparr>"
  by code_simp

theorem mirror_symmetry_preserved_witness:
  "(\<exists>s0 ys s. Wave1D_init exact_arith pulse_square1d init_vel1d (1 / 2) 4 1 1 = Inr s0
       \<and> iteration_take 1 3 s0 = Inr (ys, s) \<and> length ys = 3
       \<and> (\<forall>y\<in>set ys. rev (fst y) = fst y))
   \<and> (\<exists>s0 ys s. Wave1D_init exact_arith (\<lambda>x L. map (\<lambda>v. v - L / 2) x) init_vel1d (1 / 2) 4 1 1 = Inr s0
       \<and> iteration_take 1 3 s0 = Inr (ys, s) \<and> length ys = 3
       \<and> (\<forall>y\<in>set ys. fst y ! 2 = 0))"
proof
  let ?s0 = "\<lparr>w1_x = [0, 1, 2, 3, 4], w1_alpha2 = 1 / 4, w1_time = 1 / 2, w1_dt = 1 / 2,
          w1_u_tim1 = [0, 0, 1, 0, 0], w1_u_ti = [0, 1 / 8, 3 / 4, 1 / 8, 0],
          w1_u_tip1 = [0, 0, 0, 0, 0]\<rparr>"
  have lf: "length (pulse_square1d (w1_x ?s0) 4) = length (w1_x ?s0)"
    by simp
  have sym: "rev (pulse_square1d (w1_x ?s0) 4) = pulse_square1d (w1_x ?s0) 4"
    by (simp add: pulse_square1d_def)
  from mirror_symmetry_preserved [OF example_symmetric_init lf, THEN conjunct1] sym
  have "\<exists>ys s. iteration_take 1 3 ?s0 = Inr (ys, s) \<and> length ys = 3
         \<and> (\<forall>y\<in>set ys. rev (fst y) = fst y)"
    by blast
  with example_symmetric_init
  show "\<exists>s0 ys s. Wave1D_init exact_arith pulse_square1d init_vel1d (1 / 2) 4 1 1 = Inr s0
       \<and> iteration_take 1 3 s0 = Inr (ys, s) \<and> length ys = 3
       \<and> (\<forall>y\<in>set ys. rev (fst y) = fst y)"
    by blast
next
  let ?f = "\<lambda>(x::real list) (L::real). map (\<lambda>v. v - L / 2) x"
  let ?s0 = "\<lparr>w1_x = [0, 1, 2, 3, 4], w1_alpha2 = 1 / 4, w1_time = 1 / 2, w1_dt = 1 / 2,
          w1_u_tim1 = [0, - 1, 0, 1, 0], w1_u_ti = [0, - (3 / 4), 0, 3 / 4, 0],
          w1_u_tip1 = [0, 0, 0, 0, 0]\<rparr>"
  have lf: "length (?f (w1_x ?s0) 4) = length (w1_x ?s0)"
    by simp
  have anti: "rev (?f (w1_x ?s0) 4) = map uminus (?f (w1_x ?s0) 4)"
    by simp
  have odd: "odd (length (w1_x ?s0))"
    by simp
  have mid: "length (w1_x ?s0) div 2 = 2"
    by simp
  from mirror_symmetry_preserved [OF example_antisymmetric_init lf, THEN conjunct2] anti odd
  have "?f (w1_x ?s0) 4 ! (length (w1_x ?s0) div 2) = 0
      \<and> (\<exists>ys s. iteration_take 1 3 ?s0 = Inr (ys, s) \<and> length ys = 3
         \<and> (\<forall>y\<in>set ys. fst y ! (length (w1_x ?s0) div 2)
               = ?f (w1_x ?s0) 4 ! (length (w1_x ?s0) div 2)))"
    by blast
  then have "\<exists>ys s. iteration_take 1 3 ?s0 = Inr (ys, s) \<and> length ys = 3
         \<and> (\<forall>y\<in>set ys. fst y ! 2 = 0)"
    unfolding mid by auto
  with example_antisymmetric_init
  show "\<exists>s0 ys s. Wave1D_init exact_arith (\<lambda>x L. map (\<lambda>v. v - L / 2) x) init_vel1d (1 / 2) 4 1 1 = Inr s0
       \<and> iteration_take 1 3 s0 = Inr (ys, s) \<and> length ys = 3
       \<and> (\<forall>y\<in>set ys. fst y ! 2 = 0)"
    by blast
qed

end
